theory Spec2Isabelle
  imports Complex_Main "HOL-Library.Monad_Syntax"
begin

section \<open>Particle sources of source.cpp\<close>

text \<open>
  A shallow embedding of \<^verbatim>\<open>src/Aug10/source.cpp\<close>: the base class
  \<^verbatim>\<open>TParticleSource\<close>, the surface and volume sources derived from it and the
  dispatcher \<^verbatim>\<open>TSource\<close>.

  Conventions of the embedding.
  \<^item> A C++ \<^verbatim>\<open>double\<close> is a \<^typ>\<open>real\<close>: rounding, infinities and NaN are idealised
    away. Where the source can divide by zero or take the square root of a negative
    number in a comparison that decides control flow (the acceptance test of the
    phase-space search), the IEEE outcome is written out.
  \<^item> A C++ \<^verbatim>\<open>int\<close> is an \<^typ>\<open>int\<close>; incrementing the particle counter at
    \<^verbatim>\<open>INT_MAX\<close> is undefined behaviour and is a failure of the model. The loop
    counter \<^verbatim>\<open>nroll\<close>, which runs from 0 to 42000001, is a \<^typ>\<open>nat\<close>.
  \<^item> A function that can call \<^verbatim>\<open>exit\<close>, dereference an end iterator or overflow
    returns \<open>failure + result\<close>; a function that contains the unbounded rejection loop of
    the mesh-bounded volume returns an \<open>option\<close> around that, \<open>None\<close> meaning that the
    call does not return.
  \<^item> Objects passed by reference and changed (the source with its counter, the random
    generator) are passed in and returned.
  \<^item> Progress dots and the other informational prints to standard output are not
    modelled; the message of a fatal exit is.
\<close>

subsection \<open>Points and triangles\<close>

type_synonym CPoint = "real \<times> real \<times> real"
type_synonym CVector = "real \<times> real \<times> real"

fun vadd :: "CPoint \<Rightarrow> CVector \<Rightarrow> CPoint" where
  "vadd (x, y, z) (u, v, w) = (x + u, y + v, z + w)"

fun vsub :: "CPoint \<Rightarrow> CPoint \<Rightarrow> CVector" where
  "vsub (x, y, z) (u, v, w) = (x - u, y - v, z - w)"

fun vscale :: "real \<Rightarrow> CVector \<Rightarrow> CVector" where
  "vscale c (u, v, w) = (c * u, c * v, c * w)"

text \<open>
  \<^verbatim>\<open>TTriangle\<close> is declared in trianglemesh.h, which is not among the sources. The
  source reads its vertices \<^verbatim>\<open>tri[0..2]\<close> and calls \<^verbatim>\<open>area()\<close> and \<^verbatim>\<open>normal()\<close>;
  the two are fields here (the specification's emitting triangle carries a precomputed
  area and normal).
\<close>

record TTriangle =
  tri0 :: CPoint
  tri1 :: CPoint
  tri2 :: CPoint
  normal :: CVector
  area :: real

subsection \<open>The random generator\<close>

text \<open>
  \<^verbatim>\<open>TMCGenerator\<close> is declared in mc.h, which is not among the sources. It is taken as
  a parameter in the most general deterministic form: the value a call returns is a
  function of all the uses of the generator so far, this call included. The generator
  object is that function (one per result type) together with the list of uses so far,
  which every call extends. A use is a draw, or the hand-over of the generator to a
  particle constructor (the constructors of neutron.h, proton.h and electron.h take
  the generator by reference).
\<close>

datatype mc_use =
    Use_UniformDist real real
  | Use_LinearDist real real
  | Use_SinCosDist real real
  | Use_Spectrum string
  | Use_AngularDist string
  | Use_DicePolarisation string
  | Use_Constructor string

record TMCGenerator =
  draw_real :: "mc_use list \<Rightarrow> real"
  draw_angles :: "mc_use list \<Rightarrow> real \<times> real"
  draw_int :: "mc_use list \<Rightarrow> int"
  uses :: "mc_use list"

definition UniformDist :: "TMCGenerator \<Rightarrow> real \<Rightarrow> real \<Rightarrow> real \<times> TMCGenerator" where
  "UniformDist mc lo hi =
     (let h = uses mc @ [Use_UniformDist lo hi] in (draw_real mc h, mc\<lparr>uses := h\<rparr>))"

definition LinearDist :: "TMCGenerator \<Rightarrow> real \<Rightarrow> real \<Rightarrow> real \<times> TMCGenerator" where
  "LinearDist mc lo hi =
     (let h = uses mc @ [Use_LinearDist lo hi] in (draw_real mc h, mc\<lparr>uses := h\<rparr>))"

definition SinCosDist :: "TMCGenerator \<Rightarrow> real \<Rightarrow> real \<Rightarrow> real \<times> TMCGenerator" where
  "SinCosDist mc lo hi =
     (let h = uses mc @ [Use_SinCosDist lo hi] in (draw_real mc h, mc\<lparr>uses := h\<rparr>))"

definition Spectrum :: "TMCGenerator \<Rightarrow> string \<Rightarrow> real \<times> TMCGenerator" where
  "Spectrum mc name =
     (let h = uses mc @ [Use_Spectrum name] in (draw_real mc h, mc\<lparr>uses := h\<rparr>))"

definition AngularDist :: "TMCGenerator \<Rightarrow> string \<Rightarrow> (real \<times> real) \<times> TMCGenerator" where
  "AngularDist mc name =
     (let h = uses mc @ [Use_AngularDist name] in (draw_angles mc h, mc\<lparr>uses := h\<rparr>))"

definition DicePolarisation :: "TMCGenerator \<Rightarrow> string \<Rightarrow> int \<times> TMCGenerator" where
  "DicePolarisation mc name =
     (let h = uses mc @ [Use_DicePolarisation name] in (draw_int mc h, mc\<lparr>uses := h\<rparr>))"

definition hand_over :: "TMCGenerator \<Rightarrow> string \<Rightarrow> TMCGenerator" where
  "hand_over mc name = mc\<lparr>uses := uses mc @ [Use_Constructor name]\<rparr>"

subsection \<open>Failures\<close>

datatype failure =
    Exit int string
  | UndefinedBehaviour

subsection \<open>Selection of the emitting triangle (source.cpp, lines 51 to 56)\<close>

text \<open>
  The iterator \<^verbatim>\<open>i\<close> into \<^verbatim>\<open>sourcetris\<close> is the position it points at;
  \<^verbatim>\<open>sourcetris.end()\<close> is the length of the list. The loop is started with the whole
  list, \<^verbatim>\<open>SumA = 0\<close> and position 0.
\<close>

fun select_loop :: "TTriangle list \<Rightarrow> real \<Rightarrow> real \<Rightarrow> nat \<Rightarrow> nat" where
  "select_loop [] RandA SumA i = i"
| "select_loop (T # ts) RandA SumA i =
     (let SumA' = SumA + area T
      in if RandA \<le> SumA' then i else select_loop ts RandA SumA' (Suc i))"

definition select_triangle :: "TTriangle list \<Rightarrow> real \<Rightarrow> nat" where
  "select_triangle sourcetris RandA = select_loop sourcetris RandA 0 0"

text \<open>Dereferencing the iterator: reading through the end iterator is undefined.\<close>

definition deref :: "TTriangle list \<Rightarrow> nat \<Rightarrow> failure + TTriangle" where
  "deref sourcetris i =
     (if i < length sourcetris then Inr (sourcetris ! i) else Inl UndefinedBehaviour)"

text \<open>The running sum after the triangle at position \<open>k\<close> has been added.\<close>

definition cumulative_area :: "TTriangle list \<Rightarrow> nat \<Rightarrow> real" where
  "cumulative_area ts k = sum_list (map area (take (Suc k) ts))"

subsection \<open>Particles and the collaborators outside source.cpp\<close>

text \<open>
  The particle classes are declared in neutron.h, proton.h and electron.h, which are
  not among the sources. A particle is what the source passes to its constructor,
  together with the status field \<^verbatim>\<open>ID\<close> that line 119 overwrites. The constructor's
  first argument (\<^verbatim>\<open>++ParticleCounter\<close>) is the particle's number. The argument
  \<^verbatim>\<open>polarisation\<close> of the factory is not passed on to any constructor.
\<close>

datatype particle_class = TNeutron | TProton | TElectron

datatype particle_ID = ID_as_constructed | ID_INITIAL_NOT_FOUND

record TParticle =
  pclass :: particle_class
  number :: int
  tstart :: real
  xstart :: real
  ystart :: real
  zstart :: real
  Estart :: real
  phistart :: real
  thetastart :: real
  ID :: particle_ID

text \<open>
  What the source uses and does not define: the constants of globals.h, the rotation
  \<^verbatim>\<open>RotateVector\<close>, the total energy \<^verbatim>\<open>Hstart()\<close> that the field computes for a
  freshly constructed particle, the point-in-solid query and bounding box of a mesh
  read from a file, and the formatted extraction of a \<^verbatim>\<open>double\<close> and of a \<^verbatim>\<open>bool\<close>
  by the standard library (from the characters left in a stream: the value and the
  characters it leaves, or a failure). They are parameters of the model.
\<close>

record externals =
  REFLECT_TOLERANCE :: real
  conv :: real
  RotateVector :: "CVector \<Rightarrow> CVector \<Rightarrow> CVector"
  Hstart :: "TParticle \<Rightarrow> real"
  InSolid :: "string \<Rightarrow> CPoint \<Rightarrow> bool"
  bbox :: "string \<Rightarrow> (real \<times> real) \<times> (real \<times> real) \<times> (real \<times> real)"
  read_double :: "string \<Rightarrow> (real \<times> string) option"
  read_bool :: "string \<Rightarrow> (bool \<times> string) option"

text \<open>Modelled from the spec: the closed set of particle-type tags (globals.h).\<close>

definition NAME_NEUTRON :: string where "NAME_NEUTRON = ''neutron''"
definition NAME_PROTON :: string where "NAME_PROTON = ''proton''"
definition NAME_ELECTRON :: string where "NAME_ELECTRON = ''electron''"

definition INT_MAX :: int where "INT_MAX = 2147483647"

definition MAX_DICE_ROLL :: nat where "MAX_DICE_ROLL = 42000000"

text \<open>
  \<^verbatim>\<open>atan2\<close> of the C library on the reals: the angle of the point \<open>(x, y)\<close> in
  \<open>(-\<pi>, \<pi>]\<close>, and 0 at the origin.
\<close>

definition atan2 :: "real \<Rightarrow> real \<Rightarrow> real" where
  "atan2 y x =
     (if 0 < x then arctan (y / x)
      else if x < 0 then (if 0 \<le> y then arctan (y / x) + pi else arctan (y / x) - pi)
      else if 0 < y then pi / 2
      else if y < 0 then - (pi / 2)
      else 0)"

subsection \<open>The sources\<close>

record TParticleSource =
  fActiveTime :: real
  fParticleName :: string
  ParticleCounter :: int

record TSurfaceSource = TParticleSource +
  sourcearea :: real
  Enormal :: real
  sourcetris :: "TTriangle list"

text \<open>
  The three volume sources differ in their members and in the virtual
  \<^verbatim>\<open>RandomPointInSourceVolume\<close>: cuboid (x, y and z bounds), cylindrical (r, phi and
  z bounds) and mesh-bounded (the kd-tree, here the name of the file it was read from).
\<close>

datatype volume_shape =
    Cuboid real real real real real real
  | Cylindrical real real real real real real
  | STL string

record TVolumeSource = TParticleSource +
  fPhaseSpaceWeighting :: bool
  shape :: volume_shape

subsection \<open>\<^verbatim>\<open>TParticleSource::CreateParticle\<close> (lines 27 to 40)\<close>

definition new_particle ::
  "particle_class \<Rightarrow> int \<Rightarrow> real \<Rightarrow> real \<Rightarrow> real \<Rightarrow> real \<Rightarrow> real \<Rightarrow> real \<Rightarrow> real \<Rightarrow> TParticle" where
  "new_particle c n t x y z E phi theta =
     \<lparr>pclass = c, number = n, tstart = t, xstart = x, ystart = y, zstart = z,
      Estart = E, phistart = phi, thetastart = theta, ID = ID_as_constructed\<rparr>"

text \<open>
  \<^verbatim>\<open>new T(++ParticleCounter, ..., mc, geometry, field)\<close>: the counter is incremented,
  its new value is the number of the particle, and the generator is handed to the
  constructor.
\<close>

definition construct ::
  "particle_class \<Rightarrow> 'a TParticleSource_scheme \<Rightarrow> TMCGenerator \<Rightarrow>
     real \<Rightarrow> real \<Rightarrow> real \<Rightarrow> real \<Rightarrow> real \<Rightarrow> real \<Rightarrow> real \<Rightarrow>
     failure + (TParticle \<times> 'a TParticleSource_scheme \<times> TMCGenerator)" where
  "construct c S mc t x y z E phi theta =
     (if ParticleCounter S = INT_MAX then Inl UndefinedBehaviour
      else Inr (new_particle c (ParticleCounter S + 1) t x y z E phi theta,
                S\<lparr>ParticleCounter := ParticleCounter S + 1\<rparr>,
                hand_over mc (fParticleName S)))"

definition TParticleSource_CreateParticle ::
  "'a TParticleSource_scheme \<Rightarrow> TMCGenerator \<Rightarrow>
     real \<Rightarrow> real \<Rightarrow> real \<Rightarrow> real \<Rightarrow> real \<Rightarrow> real \<Rightarrow> real \<Rightarrow> int \<Rightarrow>
     failure + (TParticle \<times> 'a TParticleSource_scheme \<times> TMCGenerator)" where
  "TParticleSource_CreateParticle S mc t x y z E phi theta polarisation =
     (if fParticleName S = NAME_NEUTRON then construct TNeutron S mc t x y z E phi theta
      else if fParticleName S = NAME_PROTON then construct TProton S mc t x y z E phi theta
      else if fParticleName S = NAME_ELECTRON then construct TElectron S mc t x y z E phi theta
      else Inl (Exit (- 1) (''Could not create particle '' @ fParticleName S @ [CHR 0x0A])))"

subsection \<open>\<^verbatim>\<open>TSurfaceSource::CreateParticle\<close> (lines 48 to 84)\<close>

text \<open>Lines 59 to 62: the fold of the pair \<open>(a, b)\<close>.\<close>

definition fold_ab :: "real \<Rightarrow> real \<Rightarrow> real \<times> real" where
  "fold_ab a b = (if a + b > 1 then (1 - a, 1 - b) else (a, b))"

text \<open>Line 64: the point on the triangle, moved along the normal.\<close>

definition triangle_point :: "TTriangle \<Rightarrow> real \<Rightarrow> real \<Rightarrow> CPoint" where
  "triangle_point T a b =
     vadd (vadd (tri0 T) (vscale a (vsub (tri1 T) (tri0 T))))
          (vscale b (vsub (tri2 T) (tri0 T)))"

definition start_point :: "externals \<Rightarrow> TTriangle \<Rightarrow> real \<Rightarrow> real \<Rightarrow> CPoint" where
  "start_point ext T a b = vadd (triangle_point T a b) (vscale (REFLECT_TOLERANCE ext) (normal T))"

text \<open>
  Lines 69 to 74: the new values of \<^verbatim>\<open>theta_v\<close> and \<^verbatim>\<open>Ekin\<close>. The C function
  \<^verbatim>\<open>sqrt\<close> agrees with the real square root on radicands that are not negative (an
  energy drawn from a spectrum is not negative); the properties below assume that.
\<close>

definition add_Enormal :: "real \<Rightarrow> real \<Rightarrow> real \<Rightarrow> real \<times> real" where
  "add_Enormal E_normal Ekin theta_v =
     (if E_normal > 0 then
        (let vnormal = sqrt (Ekin * cos theta_v * cos theta_v + E_normal);
             vtangential = sqrt Ekin * sin theta_v
         in (atan2 vtangential vnormal, vnormal * vnormal + vtangential * vtangential))
      else (theta_v, Ekin))"

text \<open>
  Lines 76 to 80: the velocity angles after the rotation into the global frame (the
  rotation keeps the length 1 of the vector, so that \<^verbatim>\<open>acos\<close> is defined).
\<close>

definition global_angles :: "externals \<Rightarrow> CVector \<Rightarrow> real \<Rightarrow> real \<Rightarrow> real \<times> real" where
  "global_angles ext nv phi_v theta_v =
     (case RotateVector ext (cos phi_v * sin theta_v, sin phi_v * sin theta_v, cos theta_v) nv of
        (v0, v1, v2) \<Rightarrow> (atan2 v1 v0, arccos v2))"

definition TSurfaceSource_CreateParticle ::
  "externals \<Rightarrow> 'a TSurfaceSource_scheme \<Rightarrow> TMCGenerator \<Rightarrow>
     failure + (TParticle \<times> 'a TSurfaceSource_scheme \<times> TMCGenerator)" where
  "TSurfaceSource_CreateParticle ext S mc =
     (case UniformDist mc 0 (fActiveTime S) of (t, mc1) \<Rightarrow>
      case UniformDist mc1 0 (sourcearea S) of (RandA, mc2) \<Rightarrow>
      let i = select_triangle (sourcetris S) RandA in
      case UniformDist mc2 0 1 of (a, mc3) \<Rightarrow>
      case UniformDist mc3 0 1 of (b, mc4) \<Rightarrow>
      case fold_ab a b of (a', b') \<Rightarrow>
      case deref (sourcetris S) i of
        Inl f \<Rightarrow> Inl f
      | Inr T \<Rightarrow>
         (case start_point ext T a' b' of (px, py, pz) \<Rightarrow>
          case Spectrum mc4 (fParticleName S) of (Ekin, mc5) \<Rightarrow>
          case UniformDist mc5 0 (2 * pi) of (phi_v, mc6) \<Rightarrow>
          case SinCosDist mc6 0 (0.5 * pi) of (theta_v, mc7) \<Rightarrow>
          case add_Enormal (Enormal S) Ekin theta_v of (theta_v', Ekin') \<Rightarrow>
          case global_angles ext (normal T) phi_v theta_v' of (phi_g, theta_g) \<Rightarrow>
          case DicePolarisation mc7 (fParticleName S) of (polarisation, mc8) \<Rightarrow>
            TParticleSource_CreateParticle S mc8 t px py pz Ekin' phi_g theta_g polarisation))"

subsection \<open>\<^verbatim>\<open>RandomPointInSourceVolume\<close> (lines 138 to 158 and 188 to 201)\<close>

definition Cuboid_RandomPoint ::
  "real \<Rightarrow> real \<Rightarrow> real \<Rightarrow> real \<Rightarrow> real \<Rightarrow> real \<Rightarrow> TMCGenerator \<Rightarrow> CPoint \<times> TMCGenerator" where
  "Cuboid_RandomPoint xmin xmax ymin ymax zmin zmax mc =
     (case UniformDist mc xmin xmax of (x, mc1) \<Rightarrow>
      case UniformDist mc1 ymin ymax of (y, mc2) \<Rightarrow>
      case UniformDist mc2 zmin zmax of (z, mc3) \<Rightarrow> ((x, y, z), mc3))"

definition Cylindrical_RandomPoint ::
  "real \<Rightarrow> real \<Rightarrow> real \<Rightarrow> real \<Rightarrow> real \<Rightarrow> real \<Rightarrow> TMCGenerator \<Rightarrow> CPoint \<times> TMCGenerator" where
  "Cylindrical_RandomPoint rmin rmax phimin phimax zmin zmax mc =
     (case LinearDist mc rmin rmax of (r, mc1) \<Rightarrow>
      case UniformDist mc1 phimin phimax of (phi_r, mc2) \<Rightarrow>
      case UniformDist mc2 zmin zmax of (z, mc3) \<Rightarrow> ((r * cos phi_r, r * sin phi_r, z), mc3))"

text \<open>The loop \<^verbatim>\<open>for(;;)\<close> of the mesh-bounded volume has no bound: it may not return.\<close>

partial_function (option) STL_RandomPoint ::
  "externals \<Rightarrow> string \<Rightarrow> TMCGenerator \<Rightarrow> (CPoint \<times> TMCGenerator) option" where
  "STL_RandomPoint ext kdtree mc =
     (case bbox ext kdtree of ((xmin, xmax), (ymin, ymax), (zmin, zmax)) \<Rightarrow>
      case UniformDist mc xmin xmax of (p0, mc1) \<Rightarrow>
      case UniformDist mc1 ymin ymax of (p1, mc2) \<Rightarrow>
      case UniformDist mc2 zmin zmax of (p2, mc3) \<Rightarrow>
        if InSolid ext kdtree (p0, p1, p2) then Some ((p0, p1, p2), mc3)
        else STL_RandomPoint ext kdtree mc3)"

fun RandomPointInSourceVolume ::
  "externals \<Rightarrow> volume_shape \<Rightarrow> TMCGenerator \<Rightarrow> (CPoint \<times> TMCGenerator) option" where
  "RandomPointInSourceVolume ext (Cuboid xmin xmax ymin ymax zmin zmax) mc =
     Some (Cuboid_RandomPoint xmin xmax ymin ymax zmin zmax mc)"
| "RandomPointInSourceVolume ext (Cylindrical rmin rmax phimin phimax zmin zmax) mc =
     Some (Cylindrical_RandomPoint rmin rmax phimin phimax zmin zmax mc)"
| "RandomPointInSourceVolume ext (STL kdtree) mc = STL_RandomPoint ext kdtree mc"

subsection \<open>\<^verbatim>\<open>TVolumeSource::CreateParticle\<close> (lines 93 to 128)\<close>

text \<open>
  Line 112, \<^verbatim>\<open>mc.UniformDist(0,1) < sqrt((H - V)/H)\<close>, for the drawn value \<open>u\<close>. A
  negative quotient has the square root NaN, and every comparison with NaN is false.
  For \<open>H = 0\<close> (the positive zero) the quotient is \<open>+\<infinity>\<close> when \<open>V < 0\<close>, and the
  comparison holds; it is \<open>-\<infinity>\<close> or NaN otherwise, and the comparison fails.
\<close>

definition accepted :: "real \<Rightarrow> real \<Rightarrow> real \<Rightarrow> bool" where
  "accepted u H V =
     (if H = 0 then V < 0
      else 0 \<le> (H - V) / H \<and> u < sqrt ((H - V) / H))"

text \<open>
  The loop of lines 105 to 124, from the test of \<^verbatim>\<open>nroll <= MAX_DICE_ROLL\<close> on, with
  what follows it (line 127) at its two exits. The arguments \<open>x\<close>, \<open>y\<close>, \<open>z\<close> and \<open>E\<close>
  are the variables the loop assigns; \<open>H\<close> is the energy drawn in line 95. A rejected
  probe particle is never deleted; there is no heap in the model.
\<close>

function roll ::
  "externals \<Rightarrow> 'a TVolumeSource_scheme \<Rightarrow> real \<Rightarrow> real \<Rightarrow> real \<Rightarrow> real \<Rightarrow> int \<Rightarrow>
     nat \<Rightarrow> real \<Rightarrow> real \<Rightarrow> real \<Rightarrow> real \<Rightarrow> TMCGenerator \<Rightarrow>
     (failure + (TParticle \<times> 'a TVolumeSource_scheme \<times> TMCGenerator)) option" where
  "roll ext S t H phi_v theta_v polarisation nroll x y z E mc =
     (if nroll \<le> MAX_DICE_ROLL then
        (case TParticleSource_CreateParticle S mc t x y z H phi_v theta_v polarisation of
           Inl f \<Rightarrow> Some (Inl f)
         | Inr (p, S1, mc1) \<Rightarrow>
            (let S2 = S1\<lparr>ParticleCounter := ParticleCounter S1 - 1\<rparr>;
                 V = Hstart ext p - H
             in case UniformDist mc1 0 1 of (u, mc2) \<Rightarrow>
                if accepted u H V then
                  (if H - V > 0 then
                     Some (TParticleSource_CreateParticle S2 mc2 t x y z (H - V)
                             phi_v theta_v polarisation)
                   else
                     (case RandomPointInSourceVolume ext (shape S2) mc2 of
                        None \<Rightarrow> None
                      | Some ((x', y', z'), mc3) \<Rightarrow>
                          roll ext S2 t H phi_v theta_v polarisation (Suc nroll) x' y' z' (H - V) mc3))
                else if nroll \<ge> MAX_DICE_ROLL then
                  Some (Inr (p\<lparr>ID := ID_INITIAL_NOT_FOUND\<rparr>, S2, mc2))
                else
                  (case RandomPointInSourceVolume ext (shape S2) mc2 of
                     None \<Rightarrow> None
                   | Some ((x', y', z'), mc3) \<Rightarrow>
                       roll ext S2 t H phi_v theta_v polarisation (Suc nroll) x' y' z' E mc3)))
      else Some (TParticleSource_CreateParticle S mc t x y z E phi_v theta_v polarisation))"
  by pat_completeness auto
termination
  by (relation "measure (\<lambda>(ext, S, t, H, phi_v, theta_v, polarisation, nroll, r).
                  Suc MAX_DICE_ROLL - nroll)") auto

declare roll.simps [simp del]

definition TVolumeSource_CreateParticle ::
  "externals \<Rightarrow> 'a TVolumeSource_scheme \<Rightarrow> TMCGenerator \<Rightarrow>
     (failure + (TParticle \<times> 'a TVolumeSource_scheme \<times> TMCGenerator)) option" where
  "TVolumeSource_CreateParticle ext S mc =
     (case UniformDist mc 0 (fActiveTime S) of (t, mc1) \<Rightarrow>
      case Spectrum mc1 (fParticleName S) of (E, mc2) \<Rightarrow>
      case AngularDist mc2 (fParticleName S) of ((phi_v, theta_v), mc3) \<Rightarrow>
      case DicePolarisation mc3 (fParticleName S) of (polarisation, mc4) \<Rightarrow>
      case RandomPointInSourceVolume ext (shape S) mc4 of
        None \<Rightarrow> None
      | Some ((x, y, z), mc5) \<Rightarrow>
          if fPhaseSpaceWeighting S then
            roll ext S t E phi_v theta_v polarisation 0 x y z E mc5
          else
            Some (TParticleSource_CreateParticle S mc5 t x y z E phi_v theta_v polarisation))"

subsection \<open>Construction of the clipped surface sources (lines 161 to 179 and 204 to 216)\<close>

record TCylindricalSurfaceSource = TSurfaceSource +
  rmin :: real
  rmax :: real
  phimin :: real
  phimax :: real
  zmin :: real
  zmax :: real

definition InSourceVolume :: "'a TCylindricalSurfaceSource_scheme \<Rightarrow> CPoint \<Rightarrow> bool" where
  "InSourceVolume S p =
     (case p of (p0, p1, p2) \<Rightarrow>
        let r = sqrt (p0 * p0 + p1 * p1);
            phi = atan2 p1 p0
        in r \<ge> rmin S \<and> r \<le> rmax S \<and> phi \<ge> phimin S \<and> phi \<le> phimax S \<and> p2 \<ge> zmin S \<and> p2 \<le> zmax S)"

text \<open>
  The loop over \<^verbatim>\<open>geometry.mesh.triangles\<close> of both constructors; \<open>inside\<close> is the
  test on a vertex (\<^verbatim>\<open>InSourceVolume\<close> of the object under construction, or
  \<^verbatim>\<open>mesh.InSolid\<close>).
\<close>

fun scan_triangles ::
  "('a TSurfaceSource_scheme \<Rightarrow> CPoint \<Rightarrow> bool) \<Rightarrow> TTriangle list \<Rightarrow>
     'a TSurfaceSource_scheme \<Rightarrow> 'a TSurfaceSource_scheme" where
  "scan_triangles inside [] S = S"
| "scan_triangles inside (T # ts) S =
     scan_triangles inside ts
       (if inside S (tri0 T) \<and> inside S (tri1 T) \<and> inside S (tri2 T)
        then S\<lparr>sourcetris := sourcetris S @ [T], sourcearea := sourcearea S + area T\<rparr>
        else S)"

definition TCylindricalSurfaceSource_new ::
  "string \<Rightarrow> real \<Rightarrow> TTriangle list \<Rightarrow> real \<Rightarrow> real \<Rightarrow> real \<Rightarrow> real \<Rightarrow> real \<Rightarrow> real \<Rightarrow> real \<Rightarrow>
     TCylindricalSurfaceSource" where
  "TCylindricalSurfaceSource_new ParticleName ActiveTime triangles E_normal
       r_min r_max phi_min phi_max z_min z_max =
     scan_triangles InSourceVolume triangles
       \<lparr>fActiveTime = ActiveTime, fParticleName = ParticleName, ParticleCounter = 0,
        sourcearea = 0, Enormal = E_normal, sourcetris = [],
        rmin = r_min, rmax = r_max, phimin = phi_min, phimax = phi_max,
        zmin = z_min, zmax = z_max\<rparr>"

definition TSTLSurfaceSource_new ::
  "externals \<Rightarrow> string \<Rightarrow> real \<Rightarrow> TTriangle list \<Rightarrow> string \<Rightarrow> real \<Rightarrow> TSurfaceSource" where
  "TSTLSurfaceSource_new ext ParticleName ActiveTime triangles sourcefile E_normal =
     scan_triangles (\<lambda>S. InSolid ext sourcefile) triangles
       (\<lparr>fActiveTime = ActiveTime, fParticleName = ParticleName, ParticleCounter = 0,
         sourcearea = 0, Enormal = E_normal, sourcetris = []\<rparr>\<lparr>sourcearea := 0\<rparr>)"

definition TVolumeSource_new :: "string \<Rightarrow> real \<Rightarrow> bool \<Rightarrow> volume_shape \<Rightarrow> TVolumeSource" where
  "TVolumeSource_new ParticleName ActiveTime PhaseSpaceWeighting sh =
     \<lparr>fActiveTime = ActiveTime, fParticleName = ParticleName, ParticleCounter = 0,
      fPhaseSpaceWeighting = PhaseSpaceWeighting, shape = sh\<rparr>"

subsection \<open>The dispatcher \<^verbatim>\<open>TSource\<close> (lines 219 to 275)\<close>

text \<open>
  The object \<^verbatim>\<open>source\<close> points at. The three volume classes are one constructor:
  they differ in the shape only.
\<close>

datatype particle_source =
    VolumeSource TVolumeSource
  | CylindricalSurfaceSource TCylindricalSurfaceSource
  | STLSurfaceSource TSurfaceSource

text \<open>
  The string stream \<^verbatim>\<open>sourceconf\<close> is the characters not yet read. An extraction
  that fails sets the fail bit, after which every later extraction fails too and
  \<^verbatim>\<open>if (sourceconf)\<close> is false: a failed extraction is \<open>None\<close>, and the extractions
  are chained in the option monad. The extraction of a string skips white space and
  takes the characters up to the next white space; it fails when there is none. The
  extractions of a \<^verbatim>\<open>double\<close> and of a \<^verbatim>\<open>bool\<close> are the parameters \<open>read_double\<close>
  and \<open>read_bool\<close>: what they read need not end at a white space, and what they leave
  is what the next extraction starts from.
\<close>

definition isspace :: "char \<Rightarrow> bool" where
  "isspace c =
     (c = CHR '' '' \<or> c = CHR 0x09 \<or> c = CHR 0x0A \<or> c = CHR 0x0B \<or> c = CHR 0x0C \<or> c = CHR 0x0D)"

definition get_string :: "string \<Rightarrow> (string \<times> string) option" where
  "get_string s =
     (let s1 = dropWhile isspace s;
          w = takeWhile (\<lambda>c. \<not> isspace c) s1
      in if w = [] then None else Some (w, dropWhile (\<lambda>c. \<not> isspace c) s1))"

definition load_failed :: "string \<Rightarrow> failure" where
  "load_failed sourcemode =
     Exit (- 1) ([CHR 0x0A] @ ''Could not load source '' @ sourcemode
                   @ ''! Did you enter invalid parameters?'' @ [CHR 0x0A])"

text \<open>
  Lines 220 to 257: the value of the pointer \<^verbatim>\<open>source\<close> after the chain of
  \<^verbatim>\<open>if\<close>s, \<open>None\<close> for \<^verbatim>\<open>NULL\<close>. The arguments are the key and the value of the
  entry \<^verbatim>\<open>geometryconf["SOURCE"].begin()\<close>, and the triangles of the geometry. The
  particle name is extracted first (line 223), whatever the mode.
\<close>

definition make_source ::
  "externals \<Rightarrow> TTriangle list \<Rightarrow> string \<Rightarrow> string \<Rightarrow> particle_source option" where
  "make_source ext triangles sourcemode sourceconf =
     (let name_read = get_string sourceconf in
      if sourcemode = ''boxvolume'' then
        do {
          (ParticleName, s0) \<leftarrow> name_read;
          (x_min, s1) \<leftarrow> read_double ext s0;
          (x_max, s2) \<leftarrow> read_double ext s1;
          (y_min, s3) \<leftarrow> read_double ext s2;
          (y_max, s4) \<leftarrow> read_double ext s3;
          (z_min, s5) \<leftarrow> read_double ext s4;
          (z_max, s6) \<leftarrow> read_double ext s5;
          (ActiveTime, s7) \<leftarrow> read_double ext s6;
          (PhaseSpaceWeighting, s8) \<leftarrow> read_bool ext s7;
          Some (VolumeSource (TVolumeSource_new ParticleName ActiveTime PhaseSpaceWeighting
                  (Cuboid x_min x_max y_min y_max z_min z_max)))
        }
      else if sourcemode = ''cylvolume'' then
        do {
          (ParticleName, s0) \<leftarrow> name_read;
          (r_min, s1) \<leftarrow> read_double ext s0;
          (r_max, s2) \<leftarrow> read_double ext s1;
          (phi_min, s3) \<leftarrow> read_double ext s2;
          (phi_max, s4) \<leftarrow> read_double ext s3;
          (z_min, s5) \<leftarrow> read_double ext s4;
          (z_max, s6) \<leftarrow> read_double ext s5;
          (ActiveTime, s7) \<leftarrow> read_double ext s6;
          (PhaseSpaceWeighting, s8) \<leftarrow> read_bool ext s7;
          Some (VolumeSource (TVolumeSource_new ParticleName ActiveTime PhaseSpaceWeighting
                  (Cylindrical r_min r_max (phi_min * conv ext) (phi_max * conv ext) z_min z_max)))
        }
      else if sourcemode = ''STLvolume'' then
        do {
          (ParticleName, s0) \<leftarrow> name_read;
          (sourcefile, s1) \<leftarrow> get_string s0;
          (ActiveTime, s2) \<leftarrow> read_double ext s1;
          (PhaseSpaceWeighting, s3) \<leftarrow> read_bool ext s2;
          Some (VolumeSource (TVolumeSource_new ParticleName ActiveTime PhaseSpaceWeighting
                  (STL sourcefile)))
        }
      else if sourcemode = ''cylsurface'' then
        do {
          (ParticleName, s0) \<leftarrow> name_read;
          (r_min, s1) \<leftarrow> read_double ext s0;
          (r_max, s2) \<leftarrow> read_double ext s1;
          (phi_min, s3) \<leftarrow> read_double ext s2;
          (phi_max, s4) \<leftarrow> read_double ext s3;
          (z_min, s5) \<leftarrow> read_double ext s4;
          (z_max, s6) \<leftarrow> read_double ext s5;
          (ActiveTime, s7) \<leftarrow> read_double ext s6;
          (E_normal, s8) \<leftarrow> read_double ext s7;
          Some (CylindricalSurfaceSource (TCylindricalSurfaceSource_new ParticleName ActiveTime
                  triangles E_normal r_min r_max (phi_min * conv ext) (phi_max * conv ext)
                  z_min z_max))
        }
      else if sourcemode = ''STLsurface'' then
        do {
          (ParticleName, s0) \<leftarrow> name_read;
          (sourcefile, s1) \<leftarrow> get_string s0;
          (ActiveTime, s2) \<leftarrow> read_double ext s1;
          (E_normal, s3) \<leftarrow> read_double ext s2;
          Some (STLSurfaceSource (TSTLSurfaceSource_new ext ParticleName ActiveTime triangles
                  sourcefile E_normal))
        }
      else None)"

definition TSource_new ::
  "externals \<Rightarrow> TTriangle list \<Rightarrow> string \<Rightarrow> string \<Rightarrow> failure + particle_source" where
  "TSource_new ext triangles sourcemode sourceconf =
     (case make_source ext triangles sourcemode sourceconf of
        None \<Rightarrow> Inl (load_failed sourcemode)
      | Some source \<Rightarrow> Inr source)"

text \<open>\<^verbatim>\<open>TSource::CreateParticle\<close> (line 273): the virtual call.\<close>

fun TSource_CreateParticle ::
  "externals \<Rightarrow> particle_source \<Rightarrow> TMCGenerator \<Rightarrow>
     (failure + (TParticle \<times> particle_source \<times> TMCGenerator)) option" where
  "TSource_CreateParticle ext (VolumeSource S) mc =
     map_option (map_sum id (\<lambda>(p, S', mc'). (p, VolumeSource S', mc')))
       (TVolumeSource_CreateParticle ext S mc)"
| "TSource_CreateParticle ext (CylindricalSurfaceSource S) mc =
     Some (map_sum id (\<lambda>(p, S', mc'). (p, CylindricalSurfaceSource S', mc'))
       (TSurfaceSource_CreateParticle ext S mc))"
| "TSource_CreateParticle ext (STLSurfaceSource S) mc =
     Some (map_sum id (\<lambda>(p, S', mc'). (p, STLSurfaceSource S', mc'))
       (TSurfaceSource_CreateParticle ext S mc))"

subsection \<open>Notions used in the statements\<close>

text \<open>
  The value line 50 draws for \<^verbatim>\<open>RandA\<close> in a call of
  \<^verbatim>\<open>TSurfaceSource::CreateParticle\<close>: the second draw of the call.
\<close>

definition drawn_RandA :: "'a TSurfaceSource_scheme \<Rightarrow> TMCGenerator \<Rightarrow> real" where
  "drawn_RandA S mc = fst (UniformDist (snd (UniformDist mc 0 (fActiveTime S))) 0 (sourcearea S))"

text \<open>
  The draws of a call of \<^verbatim>\<open>TSurfaceSource::CreateParticle\<close> in the order of the
  source (lines 49, 50, 57, 58, 66, 67, 68 and 81), and the generator after them.
\<close>

definition surface_draws ::
  "'a TSurfaceSource_scheme \<Rightarrow> TMCGenerator \<Rightarrow>
     real \<times> real \<times> real \<times> real \<times> real \<times> real \<times> real \<times> int \<times> TMCGenerator" where
  "surface_draws S mc =
     (case UniformDist mc 0 (fActiveTime S) of (t, mc1) \<Rightarrow>
      case UniformDist mc1 0 (sourcearea S) of (RandA, mc2) \<Rightarrow>
      case UniformDist mc2 0 1 of (a, mc3) \<Rightarrow>
      case UniformDist mc3 0 1 of (b, mc4) \<Rightarrow>
      case Spectrum mc4 (fParticleName S) of (Ekin, mc5) \<Rightarrow>
      case UniformDist mc5 0 (2 * pi) of (phi_v, mc6) \<Rightarrow>
      case SinCosDist mc6 0 (0.5 * pi) of (theta_v, mc7) \<Rightarrow>
      case DicePolarisation mc7 (fParticleName S) of (polarisation, mc8) \<Rightarrow>
        (t, RandA, a, b, Ekin, phi_v, theta_v, polarisation, mc8))"


text \<open>
  The number of particle constructions recorded in the generator: one for every call of
  the factory that reaches a constructor, so one for every trial of the phase-space
  search.
\<close>

fun is_construction :: "mc_use \<Rightarrow> bool" where
  "is_construction (Use_Constructor name) = True"
| "is_construction u = False"

definition constructions :: "TMCGenerator \<Rightarrow> nat" where
  "constructions mc = length (filter is_construction (uses mc))"

text \<open>
  A run of the simulation driver (which is not among the sources): \<open>n\<close> calls of
  \<^verbatim>\<open>TSource::CreateParticle\<close> in a row on the same source and generator, with the
  particles returned, in order. A fatal exit of a call ends the run.
\<close>

fun create_particles ::
  "externals \<Rightarrow> nat \<Rightarrow> particle_source \<Rightarrow> TMCGenerator \<Rightarrow>
     (failure + (TParticle list \<times> particle_source \<times> TMCGenerator)) option" where
  "create_particles ext 0 source mc = Some (Inr ([], source, mc))"
| "create_particles ext (Suc n) source mc =
     (case TSource_CreateParticle ext source mc of
        None \<Rightarrow> None
      | Some (Inl f) \<Rightarrow> Some (Inl f)
      | Some (Inr (p, source', mc')) \<Rightarrow>
          (case create_particles ext n source' mc' of
             None \<Rightarrow> None
           | Some (Inl f) \<Rightarrow> Some (Inl f)
           | Some (Inr (ps, source'', mc'')) \<Rightarrow> Some (Inr (p # ps, source'', mc''))))"

fun counter_of :: "particle_source \<Rightarrow> int" where
  "counter_of (VolumeSource S) = ParticleCounter S"
| "counter_of (CylindricalSurfaceSource S) = ParticleCounter S"
| "counter_of (STLSurfaceSource S) = ParticleCounter S"

definition found :: "TParticle list \<Rightarrow> TParticle list" where
  "found ps = filter (\<lambda>p. ID p \<noteq> ID_INITIAL_NOT_FOUND) ps"

text \<open>
  The draws of a call of \<^verbatim>\<open>TVolumeSource::CreateParticle\<close> before the first position
  is drawn (lines 94 to 98), and the generator after them.
\<close>

definition volume_draws ::
  "'a TVolumeSource_scheme \<Rightarrow> TMCGenerator \<Rightarrow> real \<times> real \<times> real \<times> real \<times> int \<times> TMCGenerator" where
  "volume_draws S mc =
     (case UniformDist mc 0 (fActiveTime S) of (t, mc1) \<Rightarrow>
      case Spectrum mc1 (fParticleName S) of (E, mc2) \<Rightarrow>
      case AngularDist mc2 (fParticleName S) of ((phi_v, theta_v), mc3) \<Rightarrow>
      case DicePolarisation mc3 (fParticleName S) of (polarisation, mc4) \<Rightarrow>
        (t, E, phi_v, theta_v, polarisation, mc4))"

text \<open>
  The uses of the generator by one call of \<^verbatim>\<open>RandomPointInSourceVolume\<close>, by shape:
  three uniform draws for the cuboid; a linear and two uniform draws for the cylinder;
  for the mesh-bounded volume the three uniform draws over the bounding box, once for
  the point returned and once for every point rejected before it.
\<close>

definition box_draws :: "externals \<Rightarrow> string \<Rightarrow> mc_use list" where
  "box_draws ext kdtree =
     (case bbox ext kdtree of ((x0, x1), (y0, y1), (z0, z1)) \<Rightarrow>
        [Use_UniformDist x0 x1, Use_UniformDist y0 y1, Use_UniformDist z0 z1])"

fun position_draws :: "externals \<Rightarrow> volume_shape \<Rightarrow> mc_use list \<Rightarrow> bool" where
  "position_draws ext (Cuboid x0 x1 y0 y1 z0 z1) ds =
     (ds = [Use_UniformDist x0 x1, Use_UniformDist y0 y1, Use_UniformDist z0 z1])"
| "position_draws ext (Cylindrical r0 r1 phi0 phi1 z0 z1) ds =
     (ds = [Use_LinearDist r0 r1, Use_UniformDist phi0 phi1, Use_UniformDist z0 z1])"
| "position_draws ext (STL kdtree) ds =
     (0 < length ds \<and> ds = concat (replicate (length ds div 3) (box_draws ext kdtree)))"

text \<open>
  The uses of the generator by the trials of the phase-space search after which the
  search goes on: in each, the generator is handed to the constructor of the
  provisional particle, the acceptance draw is made, and the next position is drawn.
  The argument lists the position draws of these trials.
\<close>

fun trials_log :: "string \<Rightarrow> mc_use list list \<Rightarrow> mc_use list" where
  "trials_log name [] = []"
| "trials_log name (ds # positions) =
     [Use_Constructor name, Use_UniformDist 0 1] @ ds @ trials_log name positions"

text \<open>
  The fields of an entry, as the specification counts them: the maximal runs of
  characters other than white space.
\<close>

fun split_fields :: "string \<Rightarrow> string \<Rightarrow> string list" where
  "split_fields w [] = (if w = [] then [] else [w])"
| "split_fields w (c # cs) =
     (if isspace c then (if w = [] then split_fields [] cs else w # split_fields [] cs)
      else split_fields (w @ [c]) cs)"

definition fields :: "string \<Rightarrow> string list" where
  "fields s = split_fields [] s"

text \<open>
  The values of a source entry in the words of the specification (the table of its
  section on the dispatcher): after the particle name, each mode requires values of
  given kinds in a given order. An entry is readable when its mode is one of the five
  and the particle name and the required values can be extracted one after the other,
  each from what the one before has left; what is left after the last is not looked at.
\<close>

datatype field_kind = Number | Flag | Text

definition required_fields :: "string \<Rightarrow> field_kind list option" where
  "required_fields sourcemode =
     (if sourcemode = ''boxvolume'' then
        Some [Number, Number, Number, Number, Number, Number, Number, Flag]
      else if sourcemode = ''cylvolume'' then
        Some [Number, Number, Number, Number, Number, Number, Number, Flag]
      else if sourcemode = ''STLvolume'' then Some [Text, Number, Flag]
      else if sourcemode = ''cylsurface'' then
        Some [Number, Number, Number, Number, Number, Number, Number, Number]
      else if sourcemode = ''STLsurface'' then Some [Text, Number, Number]
      else None)"

fun fields_read :: "externals \<Rightarrow> field_kind list \<Rightarrow> string \<Rightarrow> bool" where
  "fields_read ext [] s = True"
| "fields_read ext (Number # ks) s =
     (case read_double ext s of None \<Rightarrow> False | Some (v, s') \<Rightarrow> fields_read ext ks s')"
| "fields_read ext (Flag # ks) s =
     (case read_bool ext s of None \<Rightarrow> False | Some (v, s') \<Rightarrow> fields_read ext ks s')"
| "fields_read ext (Text # ks) s =
     (case get_string s of None \<Rightarrow> False | Some (w, s') \<Rightarrow> fields_read ext ks s')"

definition readable :: "externals \<Rightarrow> string \<Rightarrow> string \<Rightarrow> bool" where
  "readable ext sourcemode sourceconf =
     (case required_fields sourcemode of
        None \<Rightarrow> False
      | Some ks \<Rightarrow> fields_read ext (Text # ks) sourceconf)"

subsection \<open>Concrete inputs\<close>

text \<open>
  Two triangles in the plane \<open>z = 0\<close> with areas 1 and 3; a generator that draws
  the energy \<open>E\<close> from the spectrum, the point \<open>lo + q * (hi - lo)\<close> from a uniform
  distribution and the lower bound from the other distributions; and collaborators:
  no rotation, a field in which the potential energy of a particle equals its
  kinetic energy, and extractions that skip white space and read the one-digit
  numbers 0 and 1 (the \<^verbatim>\<open>bool\<close> with an optional plus sign), leaving what follows the
  digit.
\<close>

definition triangle_1 :: TTriangle where
  "triangle_1 = \<lparr>tri0 = (0, 0, 0), tri1 = (2, 0, 0), tri2 = (0, 1, 0), normal = (0, 0, 1), area = 1\<rparr>"

definition triangle_3 :: TTriangle where
  "triangle_3 = \<lparr>tri0 = (0, 0, 0), tri1 = (2, 0, 0), tri2 = (0, 3, 0), normal = (0, 0, 1), area = 3\<rparr>"

definition example_mc :: "real \<Rightarrow> real \<Rightarrow> TMCGenerator" where
  "example_mc E q =
     \<lparr>draw_real = (\<lambda>h. case last h of
                           Use_Spectrum name \<Rightarrow> E
                         | Use_UniformDist lo hi \<Rightarrow> lo + q * (hi - lo)
                         | Use_LinearDist lo hi \<Rightarrow> lo
                         | Use_SinCosDist lo hi \<Rightarrow> lo
                         | _ \<Rightarrow> 0),
      draw_angles = (\<lambda>h. (0, 0)),
      draw_int = (\<lambda>h. 1),
      uses = []\<rparr>"

definition example_read_double :: "string \<Rightarrow> (real \<times> string) option" where
  "example_read_double s =
     (case dropWhile isspace s of
        [] \<Rightarrow> None
      | c # cs \<Rightarrow> if c = CHR ''0'' then Some (0, cs) else if c = CHR ''1'' then Some (1, cs) else None)"

definition example_read_bool :: "string \<Rightarrow> (bool \<times> string) option" where
  "example_read_bool s =
     (case dropWhile isspace s of
        [] \<Rightarrow> None
      | c # cs \<Rightarrow>
          (case (if c = CHR ''+'' then cs else c # cs) of
             [] \<Rightarrow> None
           | d # rest \<Rightarrow>
               if d = CHR ''0'' then Some (False, rest)
               else if d = CHR ''1'' then Some (True, rest) else None))"

definition example_ext :: externals where
  "example_ext =
     \<lparr>REFLECT_TOLERANCE = 1 / 1000000,
      conv = pi / 180,
      RotateVector = (\<lambda>v n. v),
      Hstart = (\<lambda>p. 2 * Estart p),
      InSolid = (\<lambda>file p. True),
      bbox = (\<lambda>file. ((0, 1), (0, 1), (0, 1))),
      read_double = example_read_double,
      read_bool = example_read_bool\<rparr>"

definition example_surface :: "TTriangle list \<Rightarrow> real \<Rightarrow> real \<Rightarrow> TSurfaceSource" where
  "example_surface ts A E_normal =
     \<lparr>fActiveTime = 10, fParticleName = ''neutron'', ParticleCounter = 0,
      sourcearea = A, Enormal = E_normal, sourcetris = ts\<rparr>"

definition example_volume :: "bool \<Rightarrow> TVolumeSource" where
  "example_volume PhaseSpaceWeighting =
     TVolumeSource_new ''neutron'' 10 PhaseSpaceWeighting (Cuboid 0 1 0 1 0 1)"

section \<open>Properties\<close>

subsection \<open>The selection loop\<close>

lemma select_loop_ge: "i \<le> select_loop ts RandA SumA i"
proof (induction ts arbitrary: SumA i)
  case Nil
  show ?case by simp
next
  case (Cons T ts)
  have "i \<le> Suc i" by simp
  also have "Suc i \<le> select_loop ts RandA (SumA + area T) (Suc i)" by (rule Cons.IH)
  finally show ?case by (simp add: Let_def)
qed

lemma select_loop_le: "select_loop ts RandA SumA i \<le> i + length ts"
proof (induction ts arbitrary: SumA i)
  case Nil
  show ?case by simp
next
  case (Cons T ts)
  have "select_loop ts RandA (SumA + area T) (Suc i) \<le> Suc i + length ts" by (rule Cons.IH)
  then show ?case by (simp add: Let_def)
qed

lemma select_loop_hit:
  "j < length ts \<Longrightarrow> RandA \<le> SumA + sum_list (map area (take (Suc j) ts))
     \<Longrightarrow> select_loop ts RandA SumA i \<le> i + j"
proof (induction ts arbitrary: SumA i j)
  case Nil
  then show ?case by simp
next
  case (Cons T ts)
  show ?case
  proof (cases "RandA \<le> SumA + area T")
    case True
    then show ?thesis by (simp add: Let_def)
  next
    case False
    with Cons.prems obtain j' where j: "j = Suc j'" by (cases j) auto
    from Cons.prems j have "j' < length ts"
      and "RandA \<le> (SumA + area T) + sum_list (map area (take (Suc j') ts))"
      by (simp_all add: add.assoc)
    then have "select_loop ts RandA (SumA + area T) (Suc i) \<le> Suc i + j'"
      by (rule Cons.IH)
    with False j show ?thesis by (simp add: Let_def)
  qed
qed

lemma select_loop_reaches:
  "select_loop ts RandA SumA i < i + length ts
     \<Longrightarrow> RandA \<le> SumA + sum_list (map area (take (Suc (select_loop ts RandA SumA i - i)) ts))"
proof (induction ts arbitrary: SumA i)
  case Nil
  then show ?case by simp
next
  case (Cons T ts)
  show ?case
  proof (cases "RandA \<le> SumA + area T")
    case True
    then show ?thesis by (simp add: Let_def)
  next
    case False
    let ?k = "select_loop ts RandA (SumA + area T) (Suc i)"
    from False Cons.prems have "?k < Suc i + length ts" by (simp add: Let_def)
    then have "RandA \<le> (SumA + area T) + sum_list (map area (take (Suc (?k - Suc i)) ts))"
      by (rule Cons.IH)
    moreover have "Suc i \<le> ?k" by (rule select_loop_ge)
    then have "Suc (?k - i) = Suc (Suc (?k - Suc i))" by simp
    ultimately show ?thesis using False by (simp add: Let_def add.assoc)
  qed
qed

lemma select_triangle_valid:
  assumes "ts \<noteq> []" and "u \<le> sum_list (map area ts)"
  shows "select_triangle ts u < length ts"
proof -
  from assms(1) obtain n where n: "length ts = Suc n" by (cases ts) auto
  then have "n < length ts" and "take (Suc n) ts = ts" by simp_all
  with assms(2) have "select_loop ts u 0 0 \<le> 0 + n"
    by (intro select_loop_hit) simp_all
  with n show ?thesis by (simp add: select_triangle_def)
qed

lemma select_triangle_reaches:
  "select_triangle ts u < length ts \<Longrightarrow> u \<le> cumulative_area ts (select_triangle ts u)"
  using select_loop_reaches [of ts u 0 0] by (simp add: select_triangle_def cumulative_area_def)

lemma select_triangle_first:
  assumes "j < select_triangle ts u"
  shows "cumulative_area ts j < u"
proof (rule ccontr)
  assume "\<not> cumulative_area ts j < u"
  then have u: "u \<le> 0 + sum_list (map area (take (Suc j) ts))"
    by (simp add: cumulative_area_def)
  have "select_triangle ts u \<le> length ts"
    using select_loop_le [of ts u 0 0] by (simp add: select_triangle_def)
  with assms have "j < length ts" by simp
  then have "select_loop ts u 0 0 \<le> 0 + j" using u by (rule select_loop_hit)
  with assms show False by (simp add: select_triangle_def)
qed

lemma sum_list_take_le:
  "list_all (\<lambda>T. 0 \<le> area T) ts \<Longrightarrow> sum_list (map area (take n ts)) \<le> sum_list (map area ts)"
proof (induction ts arbitrary: n)
  case Nil
  then show ?case by simp
next
  case (Cons T ts)
  show ?case
  proof (cases n)
    case 0
    from Cons.prems have "0 \<le> sum_list (map area (T # ts))"
      by (intro sum_list_nonneg) (auto simp: list_all_iff)
    with 0 show ?thesis by simp
  next
    case (Suc m)
    from Cons.prems have "sum_list (map area (take m ts)) \<le> sum_list (map area ts)"
      by (intro Cons.IH) simp
    with Suc show ?thesis by simp
  qed
qed

lemma select_triangle_end:
  assumes "ts = [] \<or> sum_list (map area ts) < u" and "list_all (\<lambda>T. 0 \<le> area T) ts"
  shows "select_triangle ts u = length ts"
proof (rule ccontr)
  assume neq: "select_triangle ts u \<noteq> length ts"
  have "select_triangle ts u \<le> length ts"
    using select_loop_le [of ts u 0 0] by (simp add: select_triangle_def)
  with neq have lt: "select_triangle ts u < length ts" by simp
  then have "u \<le> cumulative_area ts (select_triangle ts u)" by (rule select_triangle_reaches)
  also have "\<dots> \<le> sum_list (map area ts)"
    unfolding cumulative_area_def using assms(2) by (rule sum_list_take_le)
  finally have "u \<le> sum_list (map area ts)" .
  with assms(1) lt show False by auto
qed

subsection \<open>The factory and the calls of the surface source\<close>

lemma construct_returns:
  assumes "construct c S mc t x y z E phi theta = Inr (p, S', mc')"
  shows "p = new_particle c (ParticleCounter S + 1) t x y z E phi theta"
    and "S' = S\<lparr>ParticleCounter := ParticleCounter S + 1\<rparr>"
    and "mc' = hand_over mc (fParticleName S)"
    and "ParticleCounter S \<noteq> INT_MAX"
  using assms by (auto simp: construct_def split: if_splits)

lemma factory_returns:
  assumes "TParticleSource_CreateParticle S mc t x y z E phi theta polarisation = Inr (p, S', mc')"
  shows "\<exists>c. p = new_particle c (ParticleCounter S + 1) t x y z E phi theta"
    and "S' = S\<lparr>ParticleCounter := ParticleCounter S + 1\<rparr>"
    and "mc' = hand_over mc (fParticleName S)"
    and "ParticleCounter S \<noteq> INT_MAX"
    and "fParticleName S \<in> {NAME_NEUTRON, NAME_PROTON, NAME_ELECTRON}"
  using assms
  by (auto simp: TParticleSource_CreateParticle_def split: if_splits dest: construct_returns)

lemma factory_known_name:
  assumes "fParticleName S \<in> {NAME_NEUTRON, NAME_PROTON, NAME_ELECTRON}"
    and "ParticleCounter S \<noteq> INT_MAX"
  shows "\<exists>c. TParticleSource_CreateParticle S mc t x y z E phi theta polarisation
           = Inr (new_particle c (ParticleCounter S + 1) t x y z E phi theta,
                  S\<lparr>ParticleCounter := ParticleCounter S + 1\<rparr>,
                  hand_over mc (fParticleName S))"
  using assms by (auto simp: TParticleSource_CreateParticle_def construct_def)

lemma surface_call:
  "TSurfaceSource_CreateParticle ext S mc =
     (case surface_draws S mc of (t, RandA, a, b, Ekin, phi_v, theta_v, polarisation, mc8) \<Rightarrow>
      case deref (sourcetris S) (select_triangle (sourcetris S) RandA) of
        Inl f \<Rightarrow> Inl f
      | Inr T \<Rightarrow>
         (case start_point ext T (fst (fold_ab a b)) (snd (fold_ab a b)) of (px, py, pz) \<Rightarrow>
          case add_Enormal (Enormal S) Ekin theta_v of (theta_v', Ekin') \<Rightarrow>
          case global_angles ext (normal T) phi_v theta_v' of (phi_g, theta_g) \<Rightarrow>
            TParticleSource_CreateParticle S mc8 t px py pz Ekin' phi_g theta_g polarisation))"
  by (simp add: TSurfaceSource_CreateParticle_def surface_draws_def
        split: prod.splits sum.splits)

lemma surface_draws_uses:
  assumes "surface_draws S mc = (t, RandA, a, b, Ekin, phi_v, theta_v, polarisation, mc8)"
  shows "uses mc8 = uses mc @
           [Use_UniformDist 0 (fActiveTime S), Use_UniformDist 0 (sourcearea S),
            Use_UniformDist 0 1, Use_UniformDist 0 1, Use_Spectrum (fParticleName S),
            Use_UniformDist 0 (2 * pi), Use_SinCosDist 0 (0.5 * pi),
            Use_DicePolarisation (fParticleName S)]"
  using assms
  by (auto simp: surface_draws_def UniformDist_def Spectrum_def SinCosDist_def
        DicePolarisation_def Let_def)

lemma surface_draws_RandA:
  "surface_draws S mc = (t, RandA, r) \<Longrightarrow> drawn_RandA S mc = RandA"
  by (auto simp: surface_draws_def drawn_RandA_def split: prod.splits)

lemma surface_returns:
  assumes call: "TSurfaceSource_CreateParticle ext S mc = Inr (p, S', mc')"
    and draws: "surface_draws S mc = (t, RandA, a, b, Ekin, phi_v, theta_v, polarisation, mc8)"
  shows "select_triangle (sourcetris S) RandA < length (sourcetris S)"
    and "(xstart p, ystart p, zstart p)
           = start_point ext (sourcetris S ! select_triangle (sourcetris S) RandA)
               (fst (fold_ab a b)) (snd (fold_ab a b))"
    and "Estart p = snd (add_Enormal (Enormal S) Ekin theta_v)"
    and "(phistart p, thetastart p)
           = global_angles ext (normal (sourcetris S ! select_triangle (sourcetris S) RandA))
               phi_v (fst (add_Enormal (Enormal S) Ekin theta_v))"
    and "tstart p = t"
    and "number p = ParticleCounter S + 1"
    and "ID p = ID_as_constructed"
    and "S' = S\<lparr>ParticleCounter := ParticleCounter S + 1\<rparr>"
    and "mc' = hand_over mc8 (fParticleName S)"
proof -
  let ?k = "select_triangle (sourcetris S) RandA"
  from call draws show valid: "?k < length (sourcetris S)"
    by (auto simp: surface_call deref_def split: if_splits)
  let ?T = "sourcetris S ! ?k"
  obtain px py pz where pt: "start_point ext ?T (fst (fold_ab a b)) (snd (fold_ab a b)) = (px, py, pz)"
    by (cases "start_point ext ?T (fst (fold_ab a b)) (snd (fold_ab a b))") auto
  obtain th' E' where acc: "add_Enormal (Enormal S) Ekin theta_v = (th', E')"
    by (cases "add_Enormal (Enormal S) Ekin theta_v") auto
  obtain phi_g theta_g where ang: "global_angles ext (normal ?T) phi_v th' = (phi_g, theta_g)"
    by (cases "global_angles ext (normal ?T) phi_v th'") auto
  from call draws valid pt acc ang
  have f: "TParticleSource_CreateParticle S mc8 t px py pz E' phi_g theta_g polarisation
      = Inr (p, S', mc')"
    by (simp add: surface_call deref_def)
  from factory_returns(1) [OF f] obtain c
    where p: "p = new_particle c (ParticleCounter S + 1) t px py pz E' phi_g theta_g" ..
  from p pt show "(xstart p, ystart p, zstart p)
      = start_point ext ?T (fst (fold_ab a b)) (snd (fold_ab a b))"
    by (simp add: new_particle_def)
  from p acc show "Estart p = snd (add_Enormal (Enormal S) Ekin theta_v)"
    by (simp add: new_particle_def)
  from p acc ang show "(phistart p, thetastart p)
      = global_angles ext (normal ?T) phi_v (fst (add_Enormal (Enormal S) Ekin theta_v))"
    by (simp add: new_particle_def)
  from p show "tstart p = t" "number p = ParticleCounter S + 1" "ID p = ID_as_constructed"
    by (simp_all add: new_particle_def)
  from factory_returns(2,3) [OF f]
  show "S' = S\<lparr>ParticleCounter := ParticleCounter S + 1\<rparr>" "mc' = hand_over mc8 (fParticleName S)"
    by simp_all
qed

lemma deref_valid: "i < length ts \<Longrightarrow> deref ts i = Inr (ts ! i)"
  by (simp add: deref_def)

lemma deref_end: "deref ts (length ts) = Inl UndefinedBehaviour"
  by (simp add: deref_def)

lemma surface_deref_fails:
  "deref (sourcetris S) (select_triangle (sourcetris S) (drawn_RandA S mc)) = Inl f
     \<Longrightarrow> TSurfaceSource_CreateParticle ext S mc = Inl f"
  by (auto simp: TSurfaceSource_CreateParticle_def drawn_RandA_def split: prod.splits)

subsection \<open>Selection of the triangle\<close>

text \<open>
  C5. In a surface source whose list of emitting triangles is not empty and whose
  cached total area is the sum of the areas of the listed triangles, for every drawn
  value \<open>u\<close> up to the total area the selection loop stops at a triangle of the list, the
  running sum of the areas up to and including that triangle reaches or exceeds \<open>u\<close>,
  and the running sum at every earlier triangle is below \<open>u\<close>: the selected triangle is
  the first one in list order whose cumulative area reaches \<open>u\<close>.
\<close>

theorem C5_first_triangle_reaching_draw:
  assumes "sourcetris S \<noteq> []"
    and "sourcearea S = sum_list (map area (sourcetris S))"
    and "u \<le> sourcearea S"
  shows "select_triangle (sourcetris S) u < length (sourcetris S)
       \<and> deref (sourcetris S) (select_triangle (sourcetris S) u)
           = Inr (sourcetris S ! select_triangle (sourcetris S) u)
       \<and> u \<le> cumulative_area (sourcetris S) (select_triangle (sourcetris S) u)
       \<and> (\<forall>j < select_triangle (sourcetris S) u. cumulative_area (sourcetris S) j < u)"
proof -
  from assms have valid: "select_triangle (sourcetris S) u < length (sourcetris S)"
    by (intro select_triangle_valid) simp_all
  moreover from valid have "deref (sourcetris S) (select_triangle (sourcetris S) u)
      = Inr (sourcetris S ! select_triangle (sourcetris S) u)"
    by (rule deref_valid)
  moreover from valid have "u \<le> cumulative_area (sourcetris S) (select_triangle (sourcetris S) u)"
    by (rule select_triangle_reaches)
  moreover have "\<forall>j < select_triangle (sourcetris S) u. cumulative_area (sourcetris S) j < u"
    by (simp add: select_triangle_first)
  ultimately show ?thesis by blast
qed

theorem C5_first_triangle_reaching_draw_witness:
  "select_triangle [triangle_1, triangle_3] 1 = 0
   \<and> select_triangle [triangle_1, triangle_3] 2 = 1
   \<and> 2 \<le> cumulative_area [triangle_1, triangle_3] 1
   \<and> cumulative_area [triangle_1, triangle_3] 0 < 2"
proof -
  let ?S = "example_surface [triangle_1, triangle_3] 4 0"
  have S: "sourcetris ?S = [triangle_1, triangle_3]" "sourcearea ?S = 4"
    by (simp_all add: example_surface_def)
  have k1: "select_triangle [triangle_1, triangle_3] 1 = 0"
    and k2: "select_triangle [triangle_1, triangle_3] 2 = 1"
    by (simp_all add: select_triangle_def triangle_1_def triangle_3_def)
  have "sourcetris ?S \<noteq> []" "sourcearea ?S = sum_list (map area (sourcetris ?S))"
    "2 \<le> sourcearea ?S"
    by (simp_all add: example_surface_def triangle_1_def triangle_3_def)
  from C5_first_triangle_reaching_draw [OF this]
  have "2 \<le> cumulative_area [triangle_1, triangle_3] 1
      \<and> (\<forall>j<1. cumulative_area [triangle_1, triangle_3] j < 2)"
    unfolding S k2 by simp
  with k1 k2 show ?thesis by simp
qed

lemma factory_undefined:
  assumes "TParticleSource_CreateParticle S mc t x y z E phi theta polarisation = Inl UndefinedBehaviour"
  shows "ParticleCounter S = INT_MAX"
  using assms by (auto simp: TParticleSource_CreateParticle_def construct_def split: if_splits)

lemma surface_call_valid:
  assumes valid: "select_triangle (sourcetris S) RandA < length (sourcetris S)"
    and draws: "surface_draws S mc = (t, RandA, a, b, Ekin, phi_v, theta_v, polarisation, mc8)"
  shows "TSurfaceSource_CreateParticle ext S mc =
     TParticleSource_CreateParticle S mc8 t
       (fst (start_point ext (sourcetris S ! select_triangle (sourcetris S) RandA)
               (fst (fold_ab a b)) (snd (fold_ab a b))))
       (fst (snd (start_point ext (sourcetris S ! select_triangle (sourcetris S) RandA)
               (fst (fold_ab a b)) (snd (fold_ab a b)))))
       (snd (snd (start_point ext (sourcetris S ! select_triangle (sourcetris S) RandA)
               (fst (fold_ab a b)) (snd (fold_ab a b)))))
       (snd (add_Enormal (Enormal S) Ekin theta_v))
       (fst (global_angles ext (normal (sourcetris S ! select_triangle (sourcetris S) RandA))
               phi_v (fst (add_Enormal (Enormal S) Ekin theta_v))))
       (snd (global_angles ext (normal (sourcetris S ! select_triangle (sourcetris S) RandA))
               phi_v (fst (add_Enormal (Enormal S) Ekin theta_v))))
       polarisation"
  using valid by (simp add: surface_call draws deref_def split: prod.splits)

text \<open>
  C10. Let \<open>u\<close> be the value drawn for \<^verbatim>\<open>RandA\<close>. If the list of emitting triangles is
  not empty and \<open>u\<close> does not exceed the sum of the listed areas, the loop leaves the
  iterator at an element of the list and dereferencing it reads that element; the
  call then reads nothing past the end of the list: it has no undefined behaviour
  unless the particle counter overflows, and for a known particle name and a counter
  that can be incremented it returns a particle that starts on the element the
  iterator is at, in a direction computed from the normal of that element. If the
  list is empty, or \<open>u\<close> exceeds the sum of the listed areas (which are not negative),
  the loop leaves the iterator at the end of the list and the call dereferences the
  end iterator.
\<close>

theorem C10_iterator_valid_or_end:
  "(sourcetris S \<noteq> [] \<and> drawn_RandA S mc \<le> sum_list (map area (sourcetris S))
      \<longrightarrow> select_triangle (sourcetris S) (drawn_RandA S mc) < length (sourcetris S)
        \<and> deref (sourcetris S) (select_triangle (sourcetris S) (drawn_RandA S mc))
            = Inr (sourcetris S ! select_triangle (sourcetris S) (drawn_RandA S mc))
        \<and> (TSurfaceSource_CreateParticle ext S mc = Inl UndefinedBehaviour
             \<longrightarrow> ParticleCounter S = INT_MAX)
        \<and> (fParticleName S \<in> {NAME_NEUTRON, NAME_PROTON, NAME_ELECTRON}
             \<and> ParticleCounter S \<noteq> INT_MAX
           \<longrightarrow> (\<exists>p S' mc'.
                  TSurfaceSource_CreateParticle ext S mc = Inr (p, S', mc')
                  \<and> (case surface_draws S mc of
                       (t, RandA, a, b, Ekin, phi_v, theta_v, polarisation, mc8) \<Rightarrow>
                         RandA = drawn_RandA S mc
                         \<and> (xstart p, ystart p, zstart p)
                             = start_point ext (sourcetris S ! select_triangle (sourcetris S) RandA)
                                 (fst (fold_ab a b)) (snd (fold_ab a b))
                         \<and> (phistart p, thetastart p)
                             = global_angles ext
                                 (normal (sourcetris S ! select_triangle (sourcetris S) RandA))
                                 phi_v (fst (add_Enormal (Enormal S) Ekin theta_v))))))
   \<and> ((sourcetris S = [] \<or> sum_list (map area (sourcetris S)) < drawn_RandA S mc)
        \<and> list_all (\<lambda>T. 0 \<le> area T) (sourcetris S)
      \<longrightarrow> select_triangle (sourcetris S) (drawn_RandA S mc) = length (sourcetris S)
        \<and> TSurfaceSource_CreateParticle ext S mc = Inl UndefinedBehaviour)"
proof (intro conjI impI)
  assume a: "sourcetris S \<noteq> [] \<and> drawn_RandA S mc \<le> sum_list (map area (sourcetris S))"
  then show valid: "select_triangle (sourcetris S) (drawn_RandA S mc) < length (sourcetris S)"
    by (intro select_triangle_valid) simp_all
  then show "deref (sourcetris S) (select_triangle (sourcetris S) (drawn_RandA S mc))
      = Inr (sourcetris S ! select_triangle (sourcetris S) (drawn_RandA S mc))"
    by (rule deref_valid)
  obtain t RandA a b Ekin phi_v theta_v polarisation mc8
    where d: "surface_draws S mc = (t, RandA, a, b, Ekin, phi_v, theta_v, polarisation, mc8)"
    by (metis surj_pair)
  then have u: "drawn_RandA S mc = RandA" by (rule surface_draws_RandA)
  from valid have v: "select_triangle (sourcetris S) RandA < length (sourcetris S)"
    by (simp only: u)
  note call = surface_call_valid [OF v d, of ext]
  {
    assume "TSurfaceSource_CreateParticle ext S mc = Inl UndefinedBehaviour"
    then show "ParticleCounter S = INT_MAX"
      unfolding call by (rule factory_undefined)
  }
  {
    assume n: "fParticleName S \<in> {NAME_NEUTRON, NAME_PROTON, NAME_ELECTRON}
                 \<and> ParticleCounter S \<noteq> INT_MAX"
    then have "\<exists>p S' mc'. TSurfaceSource_CreateParticle ext S mc = Inr (p, S', mc')"
      unfolding call using factory_known_name [of S] by blast
    then obtain p S' mc' where r: "TSurfaceSource_CreateParticle ext S mc = Inr (p, S', mc')"
      by blast
    note at = surface_returns(2,4) [OF r d]
    show "\<exists>p S' mc'.
            TSurfaceSource_CreateParticle ext S mc = Inr (p, S', mc')
            \<and> (case surface_draws S mc of
                 (t, RandA, a, b, Ekin, phi_v, theta_v, polarisation, mc8) \<Rightarrow>
                   RandA = drawn_RandA S mc
                   \<and> (xstart p, ystart p, zstart p)
                       = start_point ext (sourcetris S ! select_triangle (sourcetris S) RandA)
                           (fst (fold_ab a b)) (snd (fold_ab a b))
                   \<and> (phistart p, thetastart p)
                       = global_angles ext
                           (normal (sourcetris S ! select_triangle (sourcetris S) RandA))
                           phi_v (fst (add_Enormal (Enormal S) Ekin theta_v)))"
      using r at u by (simp add: d)
  }
next
  assume a: "(sourcetris S = [] \<or> sum_list (map area (sourcetris S)) < drawn_RandA S mc)
      \<and> list_all (\<lambda>T. 0 \<le> area T) (sourcetris S)"
  then show e: "select_triangle (sourcetris S) (drawn_RandA S mc) = length (sourcetris S)"
    by (intro select_triangle_end) simp_all
  show "TSurfaceSource_CreateParticle ext S mc = Inl UndefinedBehaviour"
    by (rule surface_deref_fails) (simp add: e deref_end)
qed

lemma example_surface_draws:
  "surface_draws (example_surface ts A En) (example_mc E q) =
     (q * 10, q * A, q, q, E, q * (2 * pi), 0, 1,
      (example_mc E q)\<lparr>uses :=
         [Use_UniformDist 0 10, Use_UniformDist 0 A, Use_UniformDist 0 1, Use_UniformDist 0 1,
          Use_Spectrum ''neutron'', Use_UniformDist 0 (2 * pi), Use_SinCosDist 0 (0.5 * pi),
          Use_DicePolarisation ''neutron'']\<rparr>)"
  by (simp add: surface_draws_def example_surface_def example_mc_def UniformDist_def
        Spectrum_def SinCosDist_def DicePolarisation_def)

theorem C10_iterator_valid_or_end_witness:
  "select_triangle [triangle_1, triangle_3] 2 < length [triangle_1, triangle_3]
   \<and> deref [triangle_1, triangle_3] (select_triangle [triangle_1, triangle_3] 2) = Inr triangle_3
   \<and> (\<exists>p S' mc'.
        TSurfaceSource_CreateParticle example_ext (example_surface [triangle_1, triangle_3] 4 0)
          (example_mc 1 (1 / 2)) = Inr (p, S', mc')
        \<and> (xstart p, ystart p, zstart p) = (1, 3 / 2, 1 / 1000000))
   \<and> TSurfaceSource_CreateParticle example_ext (example_surface [triangle_1, triangle_3] 4 0)
       (example_mc 1 (1 / 2)) \<noteq> Inl UndefinedBehaviour
   \<and> TSurfaceSource_CreateParticle example_ext (example_surface [] 0 0) (example_mc 1 (1 / 2))
       = Inl UndefinedBehaviour
   \<and> TSurfaceSource_CreateParticle example_ext (example_surface [triangle_1, triangle_3] 5 0)
       (example_mc 1 1) = Inl UndefinedBehaviour"
proof -
  let ?S = "example_surface [triangle_1, triangle_3] 4 0"
  let ?S5 = "example_surface [triangle_1, triangle_3] 5 0"
  let ?mc = "example_mc 1 (1 / 2)"
  have u: "drawn_RandA ?S ?mc = 2" "drawn_RandA ?S5 (example_mc 1 1) = 5"
    by (simp_all add: drawn_RandA_def UniformDist_def example_mc_def example_surface_def)
  have ts: "sourcetris ?S = [triangle_1, triangle_3]" "sourcetris ?S5 = [triangle_1, triangle_3]"
    "sourcetris (example_surface [] 0 0) = []"
    by (simp_all add: example_surface_def)
  have k2: "select_triangle [triangle_1, triangle_3] 2 = 1"
    by (simp add: select_triangle_def triangle_1_def triangle_3_def)
  have pre: "sourcetris ?S \<noteq> [] \<and> drawn_RandA ?S ?mc \<le> sum_list (map area (sourcetris ?S))"
    unfolding u ts by (simp add: triangle_1_def triangle_3_def)
  have n: "fParticleName ?S \<in> {NAME_NEUTRON, NAME_PROTON, NAME_ELECTRON}
             \<and> ParticleCounter ?S \<noteq> INT_MAX"
    by (simp add: example_surface_def NAME_NEUTRON_def INT_MAX_def)
  note valid = C10_iterator_valid_or_end [of ?S ?mc example_ext, THEN conjunct1, rule_format, OF pre]
  have "select_triangle [triangle_1, triangle_3] 2 < length [triangle_1, triangle_3]
      \<and> deref [triangle_1, triangle_3] (select_triangle [triangle_1, triangle_3] 2)
          = Inr ([triangle_1, triangle_3] ! select_triangle [triangle_1, triangle_3] 2)"
    using valid [THEN conjunct1] valid [THEN conjunct2, THEN conjunct1]
    unfolding u ts by simp
  moreover have "\<exists>p S' mc'.
        TSurfaceSource_CreateParticle example_ext ?S ?mc = Inr (p, S', mc')
        \<and> (xstart p, ystart p, zstart p) = (1, 3 / 2, 1 / 1000000)"
  proof -
    from valid [THEN conjunct2, THEN conjunct2, THEN conjunct2, rule_format, OF n]
    obtain p S' mc' where r: "TSurfaceSource_CreateParticle example_ext ?S ?mc = Inr (p, S', mc')"
      and at: "(xstart p, ystart p, zstart p)
          = start_point example_ext (sourcetris ?S ! select_triangle (sourcetris ?S) (1 / 2 * 4))
              (fst (fold_ab (1 / 2) (1 / 2))) (snd (fold_ab (1 / 2) (1 / 2)))"
      unfolding example_surface_draws by auto
    have "start_point example_ext (sourcetris ?S ! select_triangle (sourcetris ?S) (1 / 2 * 4))
              (fst (fold_ab (1 / 2) (1 / 2))) (snd (fold_ab (1 / 2) (1 / 2)))
          = start_point example_ext triangle_3 (1 / 2) (1 / 2)"
      unfolding ts by (simp add: k2 fold_ab_def)
    also have "\<dots> = (1, 3 / 2, 1 / 1000000)"
      by (simp add: start_point_def triangle_point_def triangle_3_def example_ext_def)
    finally show ?thesis using r at by simp
  qed
  moreover have "TSurfaceSource_CreateParticle example_ext ?S ?mc \<noteq> Inl UndefinedBehaviour"
    using valid [THEN conjunct2, THEN conjunct2, THEN conjunct1] n by auto
  moreover have "TSurfaceSource_CreateParticle example_ext (example_surface [] 0 0) (example_mc 1 (1 / 2))
      = Inl UndefinedBehaviour"
    using C10_iterator_valid_or_end [of "example_surface [] 0 0" "example_mc 1 (1 / 2)" example_ext]
    unfolding ts by simp
  moreover have "TSurfaceSource_CreateParticle example_ext ?S5 (example_mc 1 1)
      = Inl UndefinedBehaviour"
    using C10_iterator_valid_or_end [of ?S5 "example_mc 1 1" example_ext]
    unfolding u ts by (simp add: triangle_1_def triangle_3_def)
  ultimately show ?thesis by (simp add: k2)
qed

subsection \<open>Evaluation at the concrete inputs\<close>

lemma example_surface_returns:
  assumes "select_triangle ts (q * A) < length ts"
  shows "\<exists>p S' mc'. TSurfaceSource_CreateParticle ext (example_surface ts A En) (example_mc E q)
           = Inr (p, S', mc')"
proof -
  have n: "fParticleName (example_surface ts A En) \<in> {NAME_NEUTRON, NAME_PROTON, NAME_ELECTRON}"
    "ParticleCounter (example_surface ts A En) \<noteq> INT_MAX"
    by (simp_all add: example_surface_def NAME_NEUTRON_def INT_MAX_def)
  have ts: "sourcetris (example_surface ts A En) = ts" by (simp add: example_surface_def)
  show ?thesis
    using assms factory_known_name [OF n]
    apply (simp add: surface_call example_surface_draws deref_def ts split: prod.splits)
    by blast
qed

lemma select_two_triangles:
  "select_triangle [triangle_1, triangle_3] 0 = 0"
  "select_triangle [triangle_1, triangle_3] 3 = 1"
  "select_triangle [triangle_1] 0 = 0"
  by (simp_all add: select_triangle_def triangle_1_def triangle_3_def)

subsection \<open>The point on the triangle\<close>

lemma triangle_point_affine:
  "triangle_point T a b =
     vadd (vadd (vscale (1 - a - b) (tri0 T)) (vscale a (tri1 T))) (vscale b (tri2 T))"
  by (cases "tri0 T"; cases "tri1 T"; cases "tri2 T") (simp add: triangle_point_def algebra_simps)

lemma fold_ab_range:
  assumes "0 \<le> a" "a \<le> 1" "0 \<le> b" "b \<le> 1" "fold_ab a b = (a', b')"
  shows "0 \<le> a'" "0 \<le> b'" "a' + b' \<le> 1"
  using assms by (auto simp: fold_ab_def split: if_splits)

text \<open>
  C6. In a call of the surface source that returns a particle, let \<open>a\<close> and \<open>b\<close> be the
  two values drawn in lines 57 and 58, both in \<open>[0, 1]\<close>, let \<open>(a', b')\<close> be the pair
  after the fold and \<open>T\<close> the selected triangle. Then \<open>a'\<close> and \<open>b'\<close> are not negative and
  their sum is at most 1; the point computed on the triangle is the combination of the
  vertices with the coefficients \<open>1 - a' - b'\<close>, \<open>a'\<close> and \<open>b'\<close>; and the start position of
  the particle is that point moved by \<^verbatim>\<open>REFLECT_TOLERANCE\<close> along the normal of \<open>T\<close>.
\<close>

theorem C6_point_in_closed_triangle:
  assumes "TSurfaceSource_CreateParticle ext S mc = Inr (p, S', mc')"
    and "surface_draws S mc = (t, RandA, a, b, Ekin, phi_v, theta_v, polarisation, mc8)"
    and "0 \<le> a" and "a \<le> 1" and "0 \<le> b" and "b \<le> 1"
    and "fold_ab a b = (a', b')"
    and "T = sourcetris S ! select_triangle (sourcetris S) RandA"
  shows "(a', b') = (if a + b > 1 then (1 - a, 1 - b) else (a, b))
       \<and> 0 \<le> a' \<and> 0 \<le> b' \<and> 0 \<le> 1 - a' - b' \<and> a' + b' \<le> 1
       \<and> triangle_point T a' b'
           = vadd (vadd (vscale (1 - a' - b') (tri0 T)) (vscale a' (tri1 T))) (vscale b' (tri2 T))
       \<and> (xstart p, ystart p, zstart p)
           = vadd (triangle_point T a' b') (vscale (REFLECT_TOLERANCE ext) (normal T))"
proof -
  have "(a', b') = (if a + b > 1 then (1 - a, 1 - b) else (a, b))"
    using assms(7) by (simp add: fold_ab_def)
  moreover have "0 \<le> a'" "0 \<le> b'" "a' + b' \<le> 1"
    using assms(3-7) by (rule fold_ab_range)+
  moreover have "(xstart p, ystart p, zstart p)
      = vadd (triangle_point T a' b') (vscale (REFLECT_TOLERANCE ext) (normal T))"
    using surface_returns(2) [OF assms(1,2)] assms(7,8) by (simp add: start_point_def)
  ultimately show ?thesis by (simp add: triangle_point_affine)
qed

theorem C6_point_in_closed_triangle_witness:
  "\<exists>p S' mc'.
     TSurfaceSource_CreateParticle example_ext (example_surface [triangle_1, triangle_3] 4 0)
       (example_mc 1 (3 / 4)) = Inr (p, S', mc')
     \<and> fold_ab (3 / 4) (3 / 4) = (1 / 4, 1 / 4)
     \<and> (xstart p, ystart p, zstart p) = (1 / 2, 3 / 4, 1 / 1000000)"
proof -
  let ?S = "example_surface [triangle_1, triangle_3] 4 0"
  obtain p S' mc'
    where call: "TSurfaceSource_CreateParticle example_ext ?S (example_mc 1 (3 / 4)) = Inr (p, S', mc')"
    using example_surface_returns [of "[triangle_1, triangle_3]" "3 / 4" 4 example_ext 0 1]
    by (auto simp: select_two_triangles)
  have f: "fold_ab (3 / 4) (3 / 4) = (1 / 4, 1 / 4)" by (simp add: fold_ab_def)
  have T: "triangle_3 = sourcetris ?S ! select_triangle (sourcetris ?S) (3 / 4 * 4)"
    by (simp add: example_surface_def select_two_triangles)
  have "(xstart p, ystart p, zstart p)
      = vadd (triangle_point triangle_3 (1 / 4) (1 / 4))
          (vscale (REFLECT_TOLERANCE example_ext) (normal triangle_3))"
    using C6_point_in_closed_triangle [OF call example_surface_draws _ _ _ _ f T] by simp
  then have "(xstart p, ystart p, zstart p) = (1 / 2, 3 / 4, 1 / 1000000)"
    by (simp add: triangle_point_def triangle_3_def example_ext_def)
  with call f show ?thesis by blast
qed

subsection \<open>The normal field\<close>

lemma add_Enormal_positive:
  assumes "0 < E_normal" and "0 \<le> Ekin"
  shows "add_Enormal E_normal Ekin theta_v =
           (atan2 (sqrt Ekin * sin theta_v) (sqrt (Ekin * cos theta_v * cos theta_v + E_normal)),
            Ekin + E_normal)"
proof -
  have "0 \<le> Ekin * cos theta_v * cos theta_v" using assms(2) by (simp add: mult.assoc)
  with assms(1) have r: "0 \<le> Ekin * cos theta_v * cos theta_v + E_normal" by simp
  have "sqrt (Ekin * cos theta_v * cos theta_v + E_normal) * sqrt (Ekin * cos theta_v * cos theta_v + E_normal)
      + sqrt Ekin * sin theta_v * (sqrt Ekin * sin theta_v)
      = Ekin * cos theta_v * cos theta_v + E_normal + Ekin * (sin theta_v * sin theta_v)"
    using r assms(2) by (simp add: mult.assoc mult.left_commute)
  also have "\<dots> = Ekin * (sin theta_v * sin theta_v + cos theta_v * cos theta_v) + E_normal"
    by (simp only: distrib_left mult.assoc add.commute add.left_commute)
  also have "sin theta_v * sin theta_v + cos theta_v * cos theta_v = 1"
    using sin_cos_squared_add [of theta_v] by (simp only: power2_eq_square)
  also have "Ekin * 1 + E_normal = Ekin + E_normal" by simp
  finally show ?thesis using assms(1) by (simp add: add_Enormal_def Let_def)
qed

text \<open>
  C4, as the code has it. In a call of the surface source that returns a particle, let
  \<open>Ekin\<close> be the energy drawn from the spectrum (not negative) and \<open>theta_v\<close> the polar
  angle drawn from the sine-cosine distribution. If the configured \<^verbatim>\<open>E_normal\<close> is
  positive, then with \<open>vnormal = sqrt (Ekin * cos\<^sup>2 theta_v + E_normal)\<close> and
  \<open>vtangential = sqrt Ekin * sin theta_v\<close> the energy of the particle is
  \<open>vnormal\<^sup>2 + vtangential\<^sup>2\<close>, which equals \<open>Ekin + E_normal\<close>, and its angles are those of
  the direction with the polar angle \<open>atan2 vtangential vnormal\<close> after the rotation
  into the global frame. If \<^verbatim>\<open>E_normal\<close> is zero or negative, the energy is \<open>Ekin\<close> and
  the polar angle before the rotation is \<open>theta_v\<close>.
\<close>

theorem C4_normal_field_when_positive:
  assumes "TSurfaceSource_CreateParticle ext S mc = Inr (p, S', mc')"
    and "surface_draws S mc = (t, RandA, a, b, Ekin, phi_v, theta_v, polarisation, mc8)"
    and "0 \<le> Ekin"
    and "vnormal = sqrt (Ekin * cos theta_v * cos theta_v + Enormal S)"
    and "vtangential = sqrt Ekin * sin theta_v"
    and "T = sourcetris S ! select_triangle (sourcetris S) RandA"
  shows "(0 < Enormal S \<longrightarrow>
            Estart p = vnormal * vnormal + vtangential * vtangential
          \<and> Estart p = Ekin + Enormal S
          \<and> (phistart p, thetastart p)
              = global_angles ext (normal T) phi_v (atan2 vtangential vnormal))
       \<and> (Enormal S \<le> 0 \<longrightarrow>
            Estart p = Ekin
          \<and> (phistart p, thetastart p) = global_angles ext (normal T) phi_v theta_v)"
proof (intro conjI impI)
  note r = surface_returns(3,4) [OF assms(1,2)]
  {
    assume pos: "0 < Enormal S"
    have acc: "add_Enormal (Enormal S) Ekin theta_v = (atan2 vtangential vnormal, Ekin + Enormal S)"
      using add_Enormal_positive [OF pos assms(3)] assms(4,5) by simp
    have "add_Enormal (Enormal S) Ekin theta_v
        = (atan2 vtangential vnormal, vnormal * vnormal + vtangential * vtangential)"
      using pos assms(4,5) by (simp add: add_Enormal_def Let_def)
    with acc have e: "vnormal * vnormal + vtangential * vtangential = Ekin + Enormal S" by simp
    from r acc show "Estart p = Ekin + Enormal S" by simp
    with e show "Estart p = vnormal * vnormal + vtangential * vtangential" by simp
    from r acc assms(6) show "(phistart p, thetastart p)
        = global_angles ext (normal T) phi_v (atan2 vtangential vnormal)" by simp
  }
  {
    assume "Enormal S \<le> 0"
    then have acc: "add_Enormal (Enormal S) Ekin theta_v = (theta_v, Ekin)"
      by (simp add: add_Enormal_def)
    from r acc show "Estart p = Ekin" by simp
    from r acc assms(6) show "(phistart p, thetastart p) = global_angles ext (normal T) phi_v theta_v"
      by simp
  }
qed

theorem C4_normal_field_when_positive_witness:
  "(\<exists>p S' mc'.
      TSurfaceSource_CreateParticle example_ext (example_surface [triangle_1] 1 5) (example_mc 4 0)
        = Inr (p, S', mc')
      \<and> Estart p = 3 * 3 + 0 * 0 \<and> Estart p = 4 + 5)
   \<and> (\<exists>p S' mc'.
      TSurfaceSource_CreateParticle example_ext (example_surface [triangle_1] 1 0) (example_mc 4 0)
        = Inr (p, S', mc')
      \<and> Estart p = 4)"
proof -
  have nine: "sqrt 9 = 3" using real_sqrt_abs [of 3] by simp
  let ?S5 = "example_surface [triangle_1] 1 5"
  let ?S0 = "example_surface [triangle_1] 1 0"
  have En: "Enormal ?S5 = 5" "Enormal ?S0 = 0" by (simp_all add: example_surface_def)
  obtain p S' mc'
    where call: "TSurfaceSource_CreateParticle example_ext ?S5 (example_mc 4 0) = Inr (p, S', mc')"
    using example_surface_returns [of "[triangle_1]" 0 1 example_ext 5 4]
    by (auto simp: select_two_triangles)
  have "Estart p = 3 * 3 + 0 * 0 \<and> Estart p = 4 + 5"
    using C4_normal_field_when_positive [OF call example_surface_draws, of 3 0 triangle_1]
    by (simp add: En nine example_surface_def select_two_triangles)
  with call have one: "\<exists>p S' mc'.
      TSurfaceSource_CreateParticle example_ext ?S5 (example_mc 4 0) = Inr (p, S', mc')
      \<and> Estart p = 3 * 3 + 0 * 0 \<and> Estart p = 4 + 5"
    by blast
  obtain p0 S0' mc0'
    where call0: "TSurfaceSource_CreateParticle example_ext ?S0 (example_mc 4 0) = Inr (p0, S0', mc0')"
    using example_surface_returns [of "[triangle_1]" 0 1 example_ext 0 4]
    by (auto simp: select_two_triangles)
  have "Estart p0 = 4"
    using C4_normal_field_when_positive [OF call0 example_surface_draws, of 2 0 triangle_1]
    by (simp add: En example_surface_def select_two_triangles)
  with call0 have "\<exists>p S' mc'.
      TSurfaceSource_CreateParticle example_ext ?S0 (example_mc 4 0) = Inr (p, S', mc')
      \<and> Estart p = 4"
    by blast
  with one show ?thesis by blast
qed

text \<open>
  The claim C4 as stated fails for a negative \<^verbatim>\<open>E_normal\<close>: with \<open>E_normal = -3\<close>,
  \<open>Ekin = 4\<close> and \<open>theta_v = 0\<close> the energy of the particle is 4, not
  \<open>vnormal\<^sup>2 + vtangential\<^sup>2 = 1\<close>.
\<close>

theorem C4_counterexample:
  "\<exists>p S' mc'.
     TSurfaceSource_CreateParticle example_ext (example_surface [triangle_1] 1 (- 3)) (example_mc 4 0)
       = Inr (p, S', mc')
     \<and> fst (snd (snd (snd (snd (surface_draws (example_surface [triangle_1] 1 (- 3)) (example_mc 4 0)))))) = 4
     \<and> Enormal (example_surface [triangle_1] 1 (- 3)) \<noteq> 0
     \<and> sqrt (4 * cos 0 * cos 0 + Enormal (example_surface [triangle_1] 1 (- 3)))
         * sqrt (4 * cos 0 * cos 0 + Enormal (example_surface [triangle_1] 1 (- 3)))
         + sqrt 4 * sin 0 * (sqrt 4 * sin 0) = 1
     \<and> Estart p = 4"
proof -
  let ?S = "example_surface [triangle_1] 1 (- 3)"
  have En: "Enormal ?S = - 3" by (simp add: example_surface_def)
  obtain p S' mc'
    where call: "TSurfaceSource_CreateParticle example_ext ?S (example_mc 4 0) = Inr (p, S', mc')"
    using example_surface_returns [of "[triangle_1]" 0 1 example_ext "- 3" 4]
    by (auto simp: select_two_triangles)
  from surface_returns(3) [OF call example_surface_draws]
  have "Estart p = 4" by (simp add: En add_Enormal_def)
  with call show ?thesis by (simp add: En example_surface_draws)
qed

subsection \<open>Construction of the clipped surface sources\<close>






lemma scan_triangles_other:
  "fParticleName (scan_triangles inside ts S) = fParticleName S
   \<and> ParticleCounter (scan_triangles inside ts S) = ParticleCounter S
   \<and> fActiveTime (scan_triangles inside ts S) = fActiveTime S
   \<and> Enormal (scan_triangles inside ts S) = Enormal S"
  by (induction ts arbitrary: S) simp_all




subsection \<open>The generator under the draws\<close>

lemma draw_keeps [simp]:
  "draw_real (snd (UniformDist mc lo hi)) = draw_real mc"
  "draw_real (snd (LinearDist mc lo hi)) = draw_real mc"
  "draw_real (hand_over mc name) = draw_real mc"
  by (simp_all add: UniformDist_def LinearDist_def hand_over_def Let_def)

lemma draw_uses [simp]:
  "uses (snd (UniformDist mc lo hi)) = uses mc @ [Use_UniformDist lo hi]"
  "uses (snd (LinearDist mc lo hi)) = uses mc @ [Use_LinearDist lo hi]"
  "uses (hand_over mc name) = uses mc @ [Use_Constructor name]"
  by (simp_all add: UniformDist_def LinearDist_def hand_over_def Let_def)

lemma UniformDist_value [simp]:
  "fst (UniformDist mc lo hi) = draw_real mc (uses mc @ [Use_UniformDist lo hi])"
  by (simp add: UniformDist_def Let_def)

lemma Cuboid_RandomPoint_keeps:
  "draw_real (snd (Cuboid_RandomPoint a b c d e f mc)) = draw_real mc"
  "uses (snd (Cuboid_RandomPoint a b c d e f mc))
     = uses mc @ [Use_UniformDist a b, Use_UniformDist c d, Use_UniformDist e f]"
  by (simp_all add: Cuboid_RandomPoint_def split: prod.splits)
    (simp_all add: UniformDist_def Let_def)

lemma Cylindrical_RandomPoint_keeps:
  "draw_real (snd (Cylindrical_RandomPoint a b c d e f mc)) = draw_real mc"
  "uses (snd (Cylindrical_RandomPoint a b c d e f mc))
     = uses mc @ [Use_LinearDist a b, Use_UniformDist c d, Use_UniformDist e f]"
  by (simp_all add: Cylindrical_RandomPoint_def split: prod.splits)
    (simp_all add: UniformDist_def LinearDist_def Let_def)

lemma STL_RandomPoint_keeps:
  "STL_RandomPoint ext kdtree mc = Some r \<Longrightarrow>
     draw_real (snd r) = draw_real mc
     \<and> (\<exists>ds. uses (snd r) = uses mc @ ds \<and> filter is_construction ds = [])"
proof (induction rule: STL_RandomPoint.raw_induct [rotated 1, consumes 1])
  case (1 f ext kdtree mc r)
  obtain xmin xmax ymin ymax zmin zmax
    where b: "bbox ext kdtree = ((xmin, xmax), (ymin, ymax), (zmin, zmax))"
    by (metis surj_pair)
  let ?mc1 = "snd (UniformDist mc xmin xmax)"
  let ?mc2 = "snd (UniformDist ?mc1 ymin ymax)"
  let ?mc3 = "snd (UniformDist ?mc2 zmin zmax)"
  let ?p = "(fst (UniformDist mc xmin xmax), fst (UniformDist ?mc1 ymin ymax),
            fst (UniformDist ?mc2 zmin zmax))"
  have r: "(if InSolid ext kdtree ?p then Some (?p, ?mc3) else f ext kdtree ?mc3) = Some r"
    by (rule "1.hyps" [unfolded b split_beta prod.case fst_conv snd_conv])
  show ?case
  proof (cases "InSolid ext kdtree ?p")
    case True
    with r have "r = (?p, ?mc3)" by simp
    then show ?thesis by simp
  next
    case False
    with r have "f ext kdtree ?mc3 = Some r" by simp
    then have "draw_real (snd r) = draw_real ?mc3
      \<and> (\<exists>ds. uses (snd r) = uses ?mc3 @ ds \<and> filter is_construction ds = [])"
      by (rule "1.IH")
    then show ?thesis by auto
  qed
qed

lemma RandomPoint_keeps:
  assumes "RandomPointInSourceVolume ext sh mc = Some (xyz, mc')"
  shows "draw_real mc' = draw_real mc"
    and "\<exists>ds. uses mc' = uses mc @ ds \<and> filter is_construction ds = []"
proof -
  have "draw_real mc' = draw_real mc
      \<and> (\<exists>ds. uses mc' = uses mc @ ds \<and> filter is_construction ds = [])"
  proof (cases sh)
    case (Cuboid a b c d e f)
    with assms have "mc' = snd (Cuboid_RandomPoint a b c d e f mc)" by (simp add: snd_def split: prod.splits) 
    then show ?thesis by (simp add: Cuboid_RandomPoint_keeps)
  next
    case (Cylindrical a b c d e f)
    with assms have "mc' = snd (Cylindrical_RandomPoint a b c d e f mc)" by (simp add: snd_def split: prod.splits)
    then show ?thesis by (simp add: Cylindrical_RandomPoint_keeps)
  next
    case (STL kdtree)
    with assms have "STL_RandomPoint ext kdtree mc = Some (xyz, mc')" by simp
    from STL_RandomPoint_keeps [OF this] show ?thesis by simp
  qed
  then show "draw_real mc' = draw_real mc"
    and "\<exists>ds. uses mc' = uses mc @ ds \<and> filter is_construction ds = []"
    by simp_all
qed

lemma RandomPoint_constructions:
  "RandomPointInSourceVolume ext sh mc = Some (xyz, mc') \<Longrightarrow> constructions mc' = constructions mc"
  by (auto simp: constructions_def dest: RandomPoint_keeps(2))

subsection \<open>The phase-space search\<close>

lemma roll_step:
  assumes "nroll \<le> MAX_DICE_ROLL"
    and "TParticleSource_CreateParticle S mc t x y z H phi_v theta_v polarisation = Inr (p, S1, mc1)"
    and "UniformDist mc1 0 1 = (u, mc2)"
  shows "roll ext S t H phi_v theta_v polarisation nroll x y z E mc =
     (if accepted u H (Hstart ext p - H) then
        (if H - (Hstart ext p - H) > 0 then
           Some (TParticleSource_CreateParticle S mc2 t x y z (H - (Hstart ext p - H))
                   phi_v theta_v polarisation)
         else
           (case RandomPointInSourceVolume ext (shape S) mc2 of
              None \<Rightarrow> None
            | Some ((x', y', z'), mc3) \<Rightarrow>
                roll ext S t H phi_v theta_v polarisation (Suc nroll) x' y' z'
                  (H - (Hstart ext p - H)) mc3))
      else if MAX_DICE_ROLL \<le> nroll then
        Some (Inr (p\<lparr>ID := ID_INITIAL_NOT_FOUND\<rparr>, S, mc2))
      else
        (case RandomPointInSourceVolume ext (shape S) mc2 of
           None \<Rightarrow> None
         | Some ((x', y', z'), mc3) \<Rightarrow>
             roll ext S t H phi_v theta_v polarisation (Suc nroll) x' y' z' E mc3))"
proof -
  from factory_returns(2) [OF assms(2)]
  have restored: "S1\<lparr>ParticleCounter := ParticleCounter S1 - 1\<rparr> = S" by simp
  show ?thesis
    by (subst roll.simps)
      (simp only: assms if_True sum.case prod.case Let_def restored)
qed

lemma roll_factory_fails:
  assumes "nroll \<le> MAX_DICE_ROLL"
    and "TParticleSource_CreateParticle S mc t x y z H phi_v theta_v polarisation = Inl f"
  shows "roll ext S t H phi_v theta_v polarisation nroll x y z E mc = Some (Inl f)"
  using assms by (subst roll.simps) simp

lemma roll_past_budget:
  assumes "\<not> nroll \<le> MAX_DICE_ROLL"
  shows "roll ext S t H phi_v theta_v polarisation nroll x y z E mc
           = Some (TParticleSource_CreateParticle S mc t x y z E phi_v theta_v polarisation)"
  using assms by (subst roll.simps) simp

lemma constructions_simps [simp]:
  "constructions (hand_over mc name) = Suc (constructions mc)"
  "constructions (snd (UniformDist mc lo hi)) = constructions mc"
  by (simp_all add: constructions_def)

lemma roll_exhausted:
  assumes name: "fParticleName S \<in> {NAME_NEUTRON, NAME_PROTON, NAME_ELECTRON}"
    and cnt: "ParticleCounter S \<noteq> INT_MAX"
    and rej: "\<And>h p. Estart p = H \<Longrightarrow> \<not> accepted (d (h @ [Use_UniformDist 0 1])) H (Hstart ext p - H)"
    and tot: "\<And>mc'. RandomPointInSourceVolume ext (shape S) mc' \<noteq> None"
    and "draw_real mc = d" and "nroll \<le> MAX_DICE_ROLL"
  shows "\<exists>p mc'. roll ext S t H phi_v theta_v polarisation nroll x y z E mc = Some (Inr (p, S, mc'))
           \<and> ID p = ID_INITIAL_NOT_FOUND \<and> number p = ParticleCounter S + 1 \<and> Estart p = H
           \<and> draw_real mc' = d
           \<and> constructions mc' = constructions mc + (Suc MAX_DICE_ROLL - nroll)"
  using assms(5,6)
proof (induction "MAX_DICE_ROLL - nroll" arbitrary: nroll x y z E mc)
  case 0
  from factory_known_name [OF name cnt] obtain c
    where f: "TParticleSource_CreateParticle S mc t x y z H phi_v theta_v polarisation
        = Inr (new_particle c (ParticleCounter S + 1) t x y z H phi_v theta_v,
               S\<lparr>ParticleCounter := ParticleCounter S + 1\<rparr>, hand_over mc (fParticleName S))"
    by blast
  let ?p = "new_particle c (ParticleCounter S + 1) t x y z H phi_v theta_v"
  let ?mc1 = "hand_over mc (fParticleName S)"
  let ?u = "fst (UniformDist ?mc1 0 1)"
  let ?mc2 = "snd (UniformDist ?mc1 0 1)"
  have "Estart ?p = H" by (simp add: new_particle_def)
  then have "\<not> accepted (d ((uses mc @ [Use_Constructor (fParticleName S)]) @ [Use_UniformDist 0 1]))
      H (Hstart ext ?p - H)" by (rule rej)
  with "0.prems"(1) have r: "\<not> accepted ?u H (Hstart ext ?p - H)" by simp
  from "0.hyps" "0.prems"(2) have last: "MAX_DICE_ROLL \<le> nroll" by simp
  have "roll ext S t H phi_v theta_v polarisation nroll x y z E mc
      = Some (Inr (?p\<lparr>ID := ID_INITIAL_NOT_FOUND\<rparr>, S, ?mc2))"
    using roll_step [OF "0.prems"(2) f prod.collapse [symmetric], of ext E] r last by simp
  moreover have "constructions ?mc2 = constructions mc + (Suc MAX_DICE_ROLL - nroll)"
    using last "0.prems"(2) by simp
  moreover have "draw_real ?mc2 = d" using "0.prems"(1) by simp
  ultimately show ?case by (simp add: new_particle_def)
next
  case (Suc k)
  from factory_known_name [OF name cnt] obtain c
    where f: "TParticleSource_CreateParticle S mc t x y z H phi_v theta_v polarisation
        = Inr (new_particle c (ParticleCounter S + 1) t x y z H phi_v theta_v,
               S\<lparr>ParticleCounter := ParticleCounter S + 1\<rparr>, hand_over mc (fParticleName S))"
    by blast
  let ?p = "new_particle c (ParticleCounter S + 1) t x y z H phi_v theta_v"
  let ?mc1 = "hand_over mc (fParticleName S)"
  let ?u = "fst (UniformDist ?mc1 0 1)"
  let ?mc2 = "snd (UniformDist ?mc1 0 1)"
  have "Estart ?p = H" by (simp add: new_particle_def)
  then have "\<not> accepted (d ((uses mc @ [Use_Constructor (fParticleName S)]) @ [Use_UniformDist 0 1]))
      H (Hstart ext ?p - H)" by (rule rej)
  with Suc.prems(1) have r: "\<not> accepted ?u H (Hstart ext ?p - H)" by simp
  from Suc.hyps(2) have more: "\<not> MAX_DICE_ROLL \<le> nroll" "Suc nroll \<le> MAX_DICE_ROLL"
    "k = MAX_DICE_ROLL - Suc nroll" by simp_all
  from tot [of ?mc2] obtain x' y' z' mc3
    where rp: "RandomPointInSourceVolume ext (shape S) ?mc2 = Some ((x', y', z'), mc3)"
    by (metis not_None_eq surj_pair)
  have d3: "draw_real mc3 = d"
    using RandomPoint_keeps(1) [OF rp] Suc.prems(1) by simp
  have c3: "constructions mc3 = Suc (constructions mc)"
    using RandomPoint_constructions [OF rp] by simp
  have "roll ext S t H phi_v theta_v polarisation nroll x y z E mc
      = roll ext S t H phi_v theta_v polarisation (Suc nroll) x' y' z' E mc3"
    using roll_step [OF Suc.prems(2) f prod.collapse [symmetric], of ext E] r more(1) rp by simp
  moreover from Suc.hyps(1) [OF more(3) d3 more(2), of x' y' z' E]
  obtain p mc' where "roll ext S t H phi_v theta_v polarisation (Suc nroll) x' y' z' E mc3
        = Some (Inr (p, S, mc'))"
    and "ID p = ID_INITIAL_NOT_FOUND" and "number p = ParticleCounter S + 1" and "Estart p = H"
    and "draw_real mc' = d"
    and "constructions mc' = constructions mc3 + (Suc MAX_DICE_ROLL - Suc nroll)"
    by blast
  ultimately show ?case using c3 more(2) by auto
qed

lemma volume_call:
  "TVolumeSource_CreateParticle ext S mc =
     (case volume_draws S mc of (t, E, phi_v, theta_v, polarisation, mc4) \<Rightarrow>
      case RandomPointInSourceVolume ext (shape S) mc4 of
        None \<Rightarrow> None
      | Some ((x, y, z), mc5) \<Rightarrow>
          if fPhaseSpaceWeighting S then
            roll ext S t E phi_v theta_v polarisation 0 x y z E mc5
          else
            Some (TParticleSource_CreateParticle S mc5 t x y z E phi_v theta_v polarisation))"
  by (simp add: TVolumeSource_CreateParticle_def volume_draws_def split: prod.splits)

lemma volume_draws_uses:
  assumes "volume_draws S mc = (t, E, phi_v, theta_v, polarisation, mc4)"
  shows "uses mc4 = uses mc @
           [Use_UniformDist 0 (fActiveTime S), Use_Spectrum (fParticleName S),
            Use_AngularDist (fParticleName S), Use_DicePolarisation (fParticleName S)]"
    and "draw_real mc4 = draw_real mc"
    and "E = draw_real mc (uses mc @ [Use_UniformDist 0 (fActiveTime S), Use_Spectrum (fParticleName S)])"
  using assms
  by (auto simp: volume_draws_def UniformDist_def Spectrum_def AngularDist_def
        DicePolarisation_def Let_def split: prod.splits)

lemma roll_returns:
  assumes "roll ext S t H phi_v theta_v polarisation nroll x y z E mc = Some (Inr (p, S', mc'))"
  shows "number p = ParticleCounter S + 1
       \<and> S' = (if ID p = ID_INITIAL_NOT_FOUND then S
               else S\<lparr>ParticleCounter := ParticleCounter S + 1\<rparr>)"
  using assms
proof (induction "Suc MAX_DICE_ROLL - nroll" arbitrary: nroll x y z E mc)
  case 0
  then have "\<not> nroll \<le> MAX_DICE_ROLL" by simp
  from roll_past_budget [OF this, of ext S t H phi_v theta_v polarisation x y z E mc] "0.prems"
  have f: "TParticleSource_CreateParticle S mc t x y z E phi_v theta_v polarisation = Inr (p, S', mc')"
    by simp
  from factory_returns(1,2) [OF f] show ?case by (auto simp: new_particle_def)
next
  case (Suc k)
  then have le: "nroll \<le> MAX_DICE_ROLL" and k: "k = Suc MAX_DICE_ROLL - Suc nroll" by simp_all
  show ?case
  proof (cases "TParticleSource_CreateParticle S mc t x y z H phi_v theta_v polarisation")
    case (Inl f)
    from roll_factory_fails [OF le Inl, of ext E] Suc.prems show ?thesis by simp
  next
    case (Inr r)
    then obtain q S1 mc1
      where f: "TParticleSource_CreateParticle S mc t x y z H phi_v theta_v polarisation
          = Inr (q, S1, mc1)"
      by (cases r) auto
    let ?u = "fst (UniformDist mc1 0 1)"
    let ?mc2 = "snd (UniformDist mc1 0 1)"
    let ?V = "Hstart ext q - H"
    note step = roll_step [OF le f prod.collapse [symmetric], of ext E]
    from factory_returns(1) [OF f] have nq: "number q = ParticleCounter S + 1"
      by (auto simp: new_particle_def)
    consider (found) "accepted ?u H ?V" "H - ?V > 0"
      | (again) "accepted ?u H ?V" "\<not> H - ?V > 0"
      | (last) "\<not> accepted ?u H ?V" "MAX_DICE_ROLL \<le> nroll"
      | (retry) "\<not> accepted ?u H ?V" "\<not> MAX_DICE_ROLL \<le> nroll"
      by blast
    then show ?thesis
    proof cases
      case found
      with step Suc.prems
      have g: "TParticleSource_CreateParticle S ?mc2 t x y z (H - ?V) phi_v theta_v polarisation
          = Inr (p, S', mc')" by simp
      from factory_returns(1,2) [OF g] show ?thesis by (auto simp: new_particle_def)
    next
      case again
      with step Suc.prems obtain x' y' z' mc3
        where "roll ext S t H phi_v theta_v polarisation (Suc nroll) x' y' z' (H - ?V) mc3
          = Some (Inr (p, S', mc'))"
        by (auto split: option.splits)
      with Suc.hyps(1) [OF k] show ?thesis by blast
    next
      case last
      with step Suc.prems have "p = q\<lparr>ID := ID_INITIAL_NOT_FOUND\<rparr>" "S' = S" by simp_all
      with nq show ?thesis by simp
    next
      case retry
      with step Suc.prems obtain x' y' z' mc3
        where "roll ext S t H phi_v theta_v polarisation (Suc nroll) x' y' z' E mc3
          = Some (Inr (p, S', mc'))"
        by (auto split: option.splits)
      with Suc.hyps(1) [OF k] show ?thesis by blast
    qed
  qed
qed

lemma volume_returns:
  assumes "TVolumeSource_CreateParticle ext S mc = Some (Inr (p, S', mc'))"
  shows "number p = ParticleCounter S + 1
       \<and> S' = (if ID p = ID_INITIAL_NOT_FOUND then S
               else S\<lparr>ParticleCounter := ParticleCounter S + 1\<rparr>)"
proof -
  obtain t E phi_v theta_v polarisation mc4
    where d: "volume_draws S mc = (t, E, phi_v, theta_v, polarisation, mc4)"
    by (metis surj_pair)
  with assms obtain x y z mc5
    where rp: "RandomPointInSourceVolume ext (shape S) mc4 = Some ((x, y, z), mc5)"
      and r: "(if fPhaseSpaceWeighting S then
                 roll ext S t E phi_v theta_v polarisation 0 x y z E mc5
               else Some (TParticleSource_CreateParticle S mc5 t x y z E phi_v theta_v polarisation))
              = Some (Inr (p, S', mc'))"
    by (auto simp: volume_call split: option.splits)
  show ?thesis
  proof (cases "fPhaseSpaceWeighting S")
    case True
    with r show ?thesis by (simp add: roll_returns)
  next
    case False
    with r have f: "TParticleSource_CreateParticle S mc5 t x y z E phi_v theta_v polarisation
        = Inr (p, S', mc')" by simp
    from factory_returns(1,2) [OF f] show ?thesis by (auto simp: new_particle_def)
  qed
qed

lemma surface_counter:
  assumes "TSurfaceSource_CreateParticle ext S mc = Inr (p, S', mc')"
  shows "number p = ParticleCounter S + 1" and "ID p = ID_as_constructed"
    and "ParticleCounter S' = ParticleCounter S + 1"
proof -
  obtain t RandA a b Ekin phi_v theta_v polarisation mc8
    where d: "surface_draws S mc = (t, RandA, a, b, Ekin, phi_v, theta_v, polarisation, mc8)"
    by (metis surj_pair)
  from surface_returns(6,7,8) [OF assms d]
  show "number p = ParticleCounter S + 1" and "ID p = ID_as_constructed"
    and "ParticleCounter S' = ParticleCounter S + 1"
    by simp_all
qed

lemma dispatch_counter:
  assumes "TSource_CreateParticle ext source mc = Some (Inr (p, source', mc'))"
  shows "number p = counter_of source + 1"
    and "counter_of source' = (if ID p = ID_INITIAL_NOT_FOUND then counter_of source
                                else counter_of source + 1)"
proof -
  have "number p = counter_of source + 1
      \<and> counter_of source' = (if ID p = ID_INITIAL_NOT_FOUND then counter_of source
                                else counter_of source + 1)"
  proof (cases source)
    case (VolumeSource S)
    with assms obtain S'
      where "TVolumeSource_CreateParticle ext S mc = Some (Inr (p, S', mc'))"
        and "source' = VolumeSource S'"
      by (cases "TVolumeSource_CreateParticle ext S mc")
        (auto simp: map_sum_def split: sum.splits)
    with volume_returns [of ext S mc p S' mc'] VolumeSource show ?thesis by auto
  next
    case (CylindricalSurfaceSource S)
    with assms obtain S'
      where "TSurfaceSource_CreateParticle ext S mc = Inr (p, S', mc')"
        and "source' = CylindricalSurfaceSource S'"
      by (auto simp: map_sum_def split: sum.splits)
    with surface_counter [of ext S mc p S' mc'] CylindricalSurfaceSource show ?thesis by auto
  next
    case (STLSurfaceSource S)
    with assms obtain S'
      where "TSurfaceSource_CreateParticle ext S mc = Inr (p, S', mc')"
        and "source' = STLSurfaceSource S'"
      by (auto simp: map_sum_def split: sum.splits)
    with surface_counter [of ext S mc p S' mc'] STLSurfaceSource show ?thesis by auto
  qed
  then show "number p = counter_of source + 1"
    and "counter_of source' = (if ID p = ID_INITIAL_NOT_FOUND then counter_of source
                                else counter_of source + 1)"
    by simp_all
qed

subsection \<open>Exhaustion of the trial budget\<close>

lemma example_never_accepts:
  assumes "Estart p = 1"
  shows "\<not> accepted (draw_real (example_mc 1 (1 / 2)) (h @ [Use_UniformDist 0 1])) 1
           (Hstart example_ext p - 1)"
  using assms by (simp add: accepted_def example_mc_def example_ext_def)

lemma example_volume_exhausted:
  assumes "draw_real mc = draw_real (example_mc 1 (1 / 2))"
  shows "\<exists>p mc'. TVolumeSource_CreateParticle example_ext (example_volume True) mc
             = Some (Inr (p, example_volume True, mc'))
           \<and> ID p = ID_INITIAL_NOT_FOUND \<and> number p = 1
           \<and> draw_real mc' = draw_real (example_mc 1 (1 / 2))
           \<and> constructions mc' = constructions mc + Suc MAX_DICE_ROLL"
proof -
  let ?S = "example_volume True"
  have S: "fParticleName ?S = ''neutron''" "ParticleCounter ?S = 0"
    "shape ?S = Cuboid 0 1 0 1 0 1" "fPhaseSpaceWeighting ?S"
    by (simp_all add: example_volume_def TVolumeSource_new_def)
  obtain t E phi_v theta_v polarisation mc4
    where d: "volume_draws ?S mc = (t, E, phi_v, theta_v, polarisation, mc4)"
    by (metis surj_pair)
  from volume_draws_uses [OF d] assms
  have E: "E = 1" and d4: "draw_real mc4 = draw_real (example_mc 1 (1 / 2))"
    and u4: "constructions mc4 = constructions mc"
    by (simp_all add: example_mc_def constructions_def)
  obtain x y z mc5 where rp: "RandomPointInSourceVolume example_ext (shape ?S) mc4 = Some ((x, y, z), mc5)"
    unfolding S by (metis RandomPointInSourceVolume.simps(1) surj_pair)
  from RandomPoint_keeps(1) [OF rp] RandomPoint_constructions [OF rp] d4 u4
  have d5: "draw_real mc5 = draw_real (example_mc 1 (1 / 2))"
    and u5: "constructions mc5 = constructions mc" by simp_all
  have name: "fParticleName ?S \<in> {NAME_NEUTRON, NAME_PROTON, NAME_ELECTRON}"
    and cnt: "ParticleCounter ?S \<noteq> INT_MAX"
    by (simp_all add: S NAME_NEUTRON_def INT_MAX_def)
  have tot: "\<And>mc'. RandomPointInSourceVolume example_ext (shape ?S) mc' \<noteq> None"
    by (simp add: S)
  from roll_exhausted [of ?S 1 "draw_real (example_mc 1 (1 / 2))" example_ext mc5 0
      t phi_v theta_v polarisation x y z 1, OF name cnt example_never_accepts tot d5]
  obtain p mc' where "roll example_ext ?S t 1 phi_v theta_v polarisation 0 x y z 1 mc5
        = Some (Inr (p, ?S, mc'))"
    and "ID p = ID_INITIAL_NOT_FOUND" and "number p = ParticleCounter ?S + 1"
    and "draw_real mc' = draw_real (example_mc 1 (1 / 2))"
    and "constructions mc' = constructions mc5 + (Suc MAX_DICE_ROLL - 0)"
    by auto
  with d E rp S(2,4) u5 show ?thesis by (simp add: volume_call)
qed

text \<open>
  C1. The call on the concrete cuboid source with phase-space weighting, in a field and
  with a generator for which no trial is accepted, returns the last provisional
  particle with the status \<^verbatim>\<open>ID_INITIAL_NOT_FOUND\<close> and does not exit; but it has
  constructed 42000001 provisional particles, one per trial, not 42000000: the loop
  runs for \<^verbatim>\<open>nroll\<close> from 0 to \<^verbatim>\<open>MAX_DICE_ROLL\<close> inclusive.
\<close>

theorem C1_exhaustion_after_one_more_trial:
  "\<exists>p S' mc'.
     TVolumeSource_CreateParticle example_ext (example_volume True) (example_mc 1 (1 / 2))
       = Some (Inr (p, S', mc'))
     \<and> ID p = ID_INITIAL_NOT_FOUND
     \<and> constructions (example_mc 1 (1 / 2)) = 0
     \<and> constructions mc' = 42000001
     \<and> MAX_DICE_ROLL = 42000000"
proof -
  from example_volume_exhausted [OF refl]
  obtain p mc' where "TVolumeSource_CreateParticle example_ext (example_volume True)
        (example_mc 1 (1 / 2)) = Some (Inr (p, example_volume True, mc'))"
    and "ID p = ID_INITIAL_NOT_FOUND"
    and "constructions mc' = constructions (example_mc 1 (1 / 2)) + Suc MAX_DICE_ROLL"
    by blast
  moreover have "constructions (example_mc 1 (1 / 2)) = 0"
    by (simp add: constructions_def example_mc_def)
  moreover have "MAX_DICE_ROLL = 42000000" by (simp add: MAX_DICE_ROLL_def)
  ultimately show ?thesis by simp
qed

subsection \<open>The numbers of the particles\<close>

lemma create_particles_Suc:
  assumes "create_particles ext (Suc n) source mc = Some (Inr (ps, source', mc'))"
  obtains p source1 mc1 ps'
  where "TSource_CreateParticle ext source mc = Some (Inr (p, source1, mc1))"
    and "create_particles ext n source1 mc1 = Some (Inr (ps', source', mc'))"
    and "ps = p # ps'"
  using assms by (auto split: option.splits sum.splits)

lemma found_Cons:
  "found (p # ps) = (if ID p = ID_INITIAL_NOT_FOUND then found ps else p # found ps)"
  by (simp add: found_def)

lemma create_particles_found:
  assumes "create_particles ext n source mc = Some (Inr (ps, source', mc'))"
  shows "map number (found ps) = map (\<lambda>i. counter_of source + 1 + int i) [0..<length (found ps)]
       \<and> counter_of source' = counter_of source + int (length (found ps))"
  using assms
proof (induction n arbitrary: source mc ps)
  case 0
  then show ?case by (simp add: found_def)
next
  case (Suc n)
  from Suc.prems obtain p source1 mc1 ps'
    where call: "TSource_CreateParticle ext source mc = Some (Inr (p, source1, mc1))"
      and rest: "create_particles ext n source1 mc1 = Some (Inr (ps', source', mc'))"
      and ps: "ps = p # ps'"
    by (rule create_particles_Suc)
  note IH = Suc.IH [OF rest]
  note c = dispatch_counter [OF call]
  show ?case
  proof (cases "ID p = ID_INITIAL_NOT_FOUND")
    case True
    with IH c ps show ?thesis by (simp add: found_Cons)
  next
    case False
    have "map (\<lambda>i. counter_of source + 1 + int i) [0..<Suc (length (found ps'))]
        = (counter_of source + 1) # map (\<lambda>i. counter_of source + 1 + 1 + int i) [0..<length (found ps')]"
      by (simp only: map_upt_Suc) simp
    with False IH c ps show ?thesis by (simp add: found_Cons)
  qed
qed

lemma create_particles_number:
  assumes "create_particles ext n source mc = Some (Inr (ps, source', mc'))"
    and "i < length ps"
  shows "number (ps ! i) = counter_of source + 1 + int (length (found (take i ps)))"
  using assms
proof (induction n arbitrary: source mc ps i)
  case 0
  then show ?case by simp
next
  case (Suc n)
  from Suc.prems(1) obtain p source1 mc1 ps'
    where call: "TSource_CreateParticle ext source mc = Some (Inr (p, source1, mc1))"
      and rest: "create_particles ext n source1 mc1 = Some (Inr (ps', source', mc'))"
      and ps: "ps = p # ps'"
    by (rule create_particles_Suc)
  note c = dispatch_counter [OF call]
  show ?case
  proof (cases i)
    case 0
    with c ps show ?thesis by (simp add: found_def)
  next
    case (Suc j)
    with Suc.prems(2) ps have "j < length ps'" by simp
    from Suc.IH [OF rest this] Suc c ps show ?thesis by (simp add: found_Cons)
  qed
qed

lemma example_box_entries:
  "TSource_new example_ext triangles ''boxvolume'' ''neutron 0 1 0 1 0 1 1 0''
     = Inr (VolumeSource (TVolumeSource_new ''neutron'' 1 False (Cuboid 0 1 0 1 0 1)))"
  "TSource_new example_ext triangles ''boxvolume'' ''neutron 0 1 0 1 0 1 1 0 1''
     = Inr (VolumeSource (TVolumeSource_new ''neutron'' 1 False (Cuboid 0 1 0 1 0 1)))"
  "TSource_new example_ext triangles ''boxvolume'' ''neutron 0 1 0 1 0 1 1+1''
     = Inr (VolumeSource (TVolumeSource_new ''neutron'' 1 True (Cuboid 0 1 0 1 0 1)))"
  by (simp_all add: TSource_new_def make_source_def Let_def get_string_def isspace_def
        example_ext_def example_read_double_def example_read_bool_def)

lemma new_source_counter:
  assumes "TSource_new ext triangles sourcemode sourceconf = Inr source"
  shows "counter_of source = 0"
proof -
  from assms have "make_source ext triangles sourcemode sourceconf = Some source"
    by (simp add: TSource_new_def split: option.splits)
  then show ?thesis
    by (auto simp: make_source_def Let_def bind_eq_Some_conv TVolumeSource_new_def
          TCylindricalSurfaceSource_new_def TSTLSurfaceSource_new_def scan_triangles_other
        split: if_splits)
qed

lemma numbers_increasing:
  "sorted_wrt (<) (map (\<lambda>i. c + int i) [0..<k])"
  by (simp add: sorted_wrt_map)

text \<open>
  C3, as the code has it. The factory passes the incremented counter to the
  constructor, and the counter of a source built by the dispatcher is 0. In a run of
  calls on that source, the particles returned without the status
  \<^verbatim>\<open>ID_INITIAL_NOT_FOUND\<close> have the numbers 1, 2, 3, ... in the order of their return:
  strictly increasing and never reused; the counter after the run is the number of
  those particles. Every returned particle, with that status or not, has the number 1
  plus the number of particles returned before it without that status: the counter is
  decremented after every provisional particle of the phase-space search, also after
  the last one, which is returned, so that a particle returned with the status
  \<^verbatim>\<open>ID_INITIAL_NOT_FOUND\<close> has the number that the next returned particle gets.
\<close>

theorem C3_numbers_of_returned_particles:
  assumes "TSource_new ext triangles sourcemode sourceconf = Inr source"
    and "create_particles ext n source mc = Some (Inr (ps, source', mc'))"
  shows "counter_of source = 0
       \<and> map number (found ps) = map (\<lambda>i. 1 + int i) [0..<length (found ps)]
       \<and> sorted_wrt (<) (map number (found ps))
       \<and> distinct (map number (found ps))
       \<and> counter_of source' = int (length (found ps))
       \<and> (\<forall>i<length ps. number (ps ! i) = 1 + int (length (found (take i ps))))"
proof -
  have c0: "counter_of source = 0" using assms(1) by (rule new_source_counter)
  from create_particles_found [OF assms(2)] c0
  have e: "map number (found ps) = map (\<lambda>i. 1 + int i) [0..<length (found ps)]"
    and c: "counter_of source' = int (length (found ps))" by simp_all
  have s: "sorted_wrt (<) (map number (found ps))"
    unfolding e by (rule numbers_increasing)
  then have d: "distinct (map number (found ps))" by (simp add: strict_sorted_iff)
  have "\<forall>i<length ps. number (ps ! i) = 1 + int (length (found (take i ps)))"
    using create_particles_number [OF assms(2)] c0 by simp
  with c0 e s d c show ?thesis by blast
qed

lemma plain_volume_returns:
  assumes "\<not> fPhaseSpaceWeighting S" and "shape S = Cuboid a b c d e f"
    and "fParticleName S \<in> {NAME_NEUTRON, NAME_PROTON, NAME_ELECTRON}"
    and "ParticleCounter S \<noteq> INT_MAX"
  shows "\<exists>p mc'. TVolumeSource_CreateParticle ext S mc
           = Some (Inr (p, S\<lparr>ParticleCounter := ParticleCounter S + 1\<rparr>, mc'))"
proof -
  obtain t E phi_v theta_v polarisation mc4
    where d: "volume_draws S mc = (t, E, phi_v, theta_v, polarisation, mc4)"
    by (metis surj_pair)
  obtain x y z mc5 where rp: "RandomPointInSourceVolume ext (shape S) mc4 = Some ((x, y, z), mc5)"
    unfolding assms(2) by (metis RandomPointInSourceVolume.simps(1) surj_pair)
  from factory_known_name [OF assms(3,4), of mc5 t x y z E phi_v theta_v polarisation]
  show ?thesis using d rp assms(1) by (auto simp: volume_call)
qed

theorem C3_numbers_of_returned_particles_witness:
  "\<exists>p1 p2 source' mc'.
     TSource_new example_ext [] ''boxvolume''
       ''neutron 0 1 0 1 0 1 1 0''
       = Inr (VolumeSource (TVolumeSource_new ''neutron'' 1 False (Cuboid 0 1 0 1 0 1)))
     \<and> create_particles example_ext 2
         (VolumeSource (TVolumeSource_new ''neutron'' 1 False (Cuboid 0 1 0 1 0 1)))
         (example_mc 1 0) = Some (Inr ([p1, p2], source', mc'))
     \<and> number p1 = 1 \<and> number p2 = 2 \<and> counter_of source' = 2"
proof -
  let ?S = "TVolumeSource_new ''neutron'' 1 False (Cuboid 0 1 0 1 0 1)"
  let ?S1 = "?S\<lparr>ParticleCounter := ParticleCounter ?S + 1\<rparr>"
  let ?S2 = "?S1\<lparr>ParticleCounter := ParticleCounter ?S1 + 1\<rparr>"
  have new: "TSource_new example_ext [] ''boxvolume''
       ''neutron 0 1 0 1 0 1 1 0'' = Inr (VolumeSource ?S)"
    by (simp add: example_box_entries)
  have S: "\<not> fPhaseSpaceWeighting ?S" "shape ?S = Cuboid 0 1 0 1 0 1"
    "fParticleName ?S \<in> {NAME_NEUTRON, NAME_PROTON, NAME_ELECTRON}" "ParticleCounter ?S \<noteq> INT_MAX"
    "\<not> fPhaseSpaceWeighting ?S1" "shape ?S1 = Cuboid 0 1 0 1 0 1"
    "fParticleName ?S1 \<in> {NAME_NEUTRON, NAME_PROTON, NAME_ELECTRON}" "ParticleCounter ?S1 \<noteq> INT_MAX"
    by (simp_all add: TVolumeSource_new_def NAME_NEUTRON_def INT_MAX_def)
  from plain_volume_returns [OF S(1-4), of example_ext "example_mc 1 0"]
  obtain p1 mc1 where c1: "TVolumeSource_CreateParticle example_ext ?S (example_mc 1 0)
      = Some (Inr (p1, ?S1, mc1))" by blast
  from plain_volume_returns [OF S(5-8), of example_ext mc1]
  obtain p2 mc2 where c2: "TVolumeSource_CreateParticle example_ext ?S1 mc1
      = Some (Inr (p2, ?S2, mc2))" by blast
  from c1 c2 have run: "create_particles example_ext 2 (VolumeSource ?S) (example_mc 1 0)
      = Some (Inr ([p1, p2], VolumeSource ?S2, mc2))"
    by (simp add: numeral_2_eq_2)
  from C3_numbers_of_returned_particles [OF new run]
  have "map number (found [p1, p2]) = map (\<lambda>i. 1 + int i) [0..<length (found [p1, p2])]"
    and "\<forall>i<length [p1, p2]. number ([p1, p2] ! i) = 1 + int (length (found (take i [p1, p2])))"
    and "counter_of (VolumeSource ?S2) = int (length (found [p1, p2]))"
    by blast+
  moreover have "ID p1 \<noteq> ID_INITIAL_NOT_FOUND"
  proof
    assume "ID p1 = ID_INITIAL_NOT_FOUND"
    with volume_returns [OF c1] have "?S1 = ?S" by simp
    then have "ParticleCounter ?S1 = ParticleCounter ?S" by (rule arg_cong)
    then show False by simp
  qed
  moreover have "ID p2 \<noteq> ID_INITIAL_NOT_FOUND"
  proof
    assume "ID p2 = ID_INITIAL_NOT_FOUND"
    with volume_returns [OF c2] have "?S2 = ?S1" by simp
    then have "ParticleCounter ?S2 = ParticleCounter ?S1" by (rule arg_cong)
    then show False by simp
  qed
  ultimately have "number p1 = 1 \<and> number p2 = 2 \<and> counter_of (VolumeSource ?S2) = 2"
    by (simp add: found_def upt_rec)
  with new run show ?thesis by blast
qed

text \<open>
  The claim C3 as stated fails when the trial budget is exhausted: two calls in a row
  on the concrete cuboid source with phase-space weighting both return a particle with
  the number 1.
\<close>

theorem C3_counterexample:
  "\<exists>p1 p2 source' mc'.
     create_particles example_ext 2 (VolumeSource (example_volume True)) (example_mc 1 (1 / 2))
       = Some (Inr ([p1, p2], source', mc'))
     \<and> number p1 = 1 \<and> number p2 = 1"
proof -
  from example_volume_exhausted [OF refl]
  obtain p1 mc1 where c1: "TVolumeSource_CreateParticle example_ext (example_volume True)
        (example_mc 1 (1 / 2)) = Some (Inr (p1, example_volume True, mc1))"
    and n1: "number p1 = 1" and d1: "draw_real mc1 = draw_real (example_mc 1 (1 / 2))"
    by blast
  from example_volume_exhausted [OF d1]
  obtain p2 mc2 where c2: "TVolumeSource_CreateParticle example_ext (example_volume True) mc1
        = Some (Inr (p2, example_volume True, mc2))"
    and n2: "number p2 = 1"
    by blast
  from c1 c2 have "create_particles example_ext 2 (VolumeSource (example_volume True))
      (example_mc 1 (1 / 2)) = Some (Inr ([p1, p2], VolumeSource (example_volume True), mc2))"
    by (simp add: numeral_2_eq_2)
  with n1 n2 show ?thesis by blast
qed

subsection \<open>One trial of the phase-space search\<close>

lemma accepted_iff:
  assumes "H \<noteq> 0" and "0 \<le> u"
  shows "accepted u H V = (u < sqrt ((H - V) / H))"
proof -
  have "0 \<le> (H - V) / H" if "u < sqrt ((H - V) / H)"
  proof -
    from that assms(2) have "0 < sqrt ((H - V) / H)" by linarith
    then have "0 < (H - V) / H" by (simp only: real_sqrt_gt_0_iff)
    then show ?thesis by simp
  qed
  with assms(1) show ?thesis by (auto simp: accepted_def)
qed

text \<open>
  A trial of the loop, with budget left, constructs the provisional particle \<open>p\<close>
  at the candidate position \<open>(x, y, z)\<close> with the kinetic energy \<open>H\<close> and draws \<open>u\<close>
  between 0 and 1; \<open>V = Hstart - H\<close>. For \<open>H\<close> other than 0 and \<open>u\<close> not negative, the
  candidate is accepted exactly when \<open>u < sqrt ((H - V) / H)\<close>. When it is accepted and
  \<open>E = H - V\<close> is positive the loop is left and the call returns the particle that the
  factory constructs at \<open>(x, y, z)\<close> with the energy \<open>E\<close>; when it is accepted and \<open>E\<close> is
  not positive the search goes on with a new position and with \<open>E\<close> assigned; when it
  is rejected the provisional particle is returned with the status
  \<^verbatim>\<open>ID_INITIAL_NOT_FOUND\<close> if this was the last trial, and the search goes on with a new
  position otherwise.
\<close>

lemma trial_of_phase_space_search:
  assumes "nroll \<le> MAX_DICE_ROLL"
    and "TParticleSource_CreateParticle S mc t x y z H phi_v theta_v polarisation = Inr (p, S1, mc1)"
    and "UniformDist mc1 0 1 = (u, mc2)"
    and "V = Hstart ext p - H"
    and "H \<noteq> 0" and "0 \<le> u"
  shows "(xstart p, ystart p, zstart p) = (x, y, z) \<and> Estart p = H
       \<and> accepted u H V = (u < sqrt ((H - V) / H))
       \<and> roll ext S t H phi_v theta_v polarisation nroll x y z E mc =
           (if u < sqrt ((H - V) / H) then
              (if H - V > 0 then
                 Some (TParticleSource_CreateParticle S mc2 t x y z (H - V) phi_v theta_v polarisation)
               else
                 (case RandomPointInSourceVolume ext (shape S) mc2 of
                    None \<Rightarrow> None
                  | Some ((x', y', z'), mc3) \<Rightarrow>
                      roll ext S t H phi_v theta_v polarisation (Suc nroll) x' y' z' (H - V) mc3))
            else if MAX_DICE_ROLL \<le> nroll then
              Some (Inr (p\<lparr>ID := ID_INITIAL_NOT_FOUND\<rparr>, S, mc2))
            else
              (case RandomPointInSourceVolume ext (shape S) mc2 of
                 None \<Rightarrow> None
               | Some ((x', y', z'), mc3) \<Rightarrow>
                   roll ext S t H phi_v theta_v polarisation (Suc nroll) x' y' z' E mc3))
       \<and> (u < sqrt ((H - V) / H) \<and> H - V > 0 \<longrightarrow>
            (\<exists>q S' mc'.
               roll ext S t H phi_v theta_v polarisation nroll x y z E mc = Some (Inr (q, S', mc'))
               \<and> (xstart q, ystart q, zstart q) = (x, y, z) \<and> Estart q = H - V
               \<and> ID q = ID_as_constructed))"
proof -
  from factory_returns(1) [OF assms(2)]
  have p: "(xstart p, ystart p, zstart p) = (x, y, z) \<and> Estart p = H"
    by (auto simp: new_particle_def)
  have a: "accepted u H V = (u < sqrt ((H - V) / H))"
    using assms(5,6) by (rule accepted_iff)
  note step = roll_step [OF assms(1-3), of ext E, folded assms(4), unfolded a]
  have "\<exists>q S' mc'.
      roll ext S t H phi_v theta_v polarisation nroll x y z E mc = Some (Inr (q, S', mc'))
      \<and> (xstart q, ystart q, zstart q) = (x, y, z) \<and> Estart q = H - V \<and> ID q = ID_as_constructed"
    if "u < sqrt ((H - V) / H) \<and> H - V > 0"
  proof -
    from factory_known_name [OF factory_returns(5,4) [OF assms(2)],
        of mc2 t x y z "H - V" phi_v theta_v polarisation]
    obtain c where "TParticleSource_CreateParticle S mc2 t x y z (H - V) phi_v theta_v polarisation
        = Inr (new_particle c (ParticleCounter S + 1) t x y z (H - V) phi_v theta_v,
               S\<lparr>ParticleCounter := ParticleCounter S + 1\<rparr>, hand_over mc2 (fParticleName S))"
      by blast
    with step that show ?thesis by (simp add: new_particle_def)
  qed
  with p a step show ?thesis by blast
qed

text \<open>
  For a positive total energy an accepted candidate has a positive kinetic energy: the
  test of line 115 then makes no difference. An accepted candidate whose kinetic energy
  is not positive needs a negative total energy.
\<close>

lemma accepted_positive:
  assumes "accepted u H V" and "0 < H" and "0 \<le> u"
  shows "0 < H - V"
proof -
  from assms have "u < sqrt ((H - V) / H)" by (simp add: accepted_def)
  with assms(3) have "0 < sqrt ((H - V) / H)" by linarith
  then have "0 < (H - V) / H" by (simp only: real_sqrt_gt_0_iff)
  with assms(2) show ?thesis by (simp add: zero_less_divide_iff)
qed

text \<open>
  A search in which every trial is accepted with a kinetic energy that is not
  positive: the loop is never left by \<^verbatim>\<open>break\<close> and never by the \<^verbatim>\<open>return\<close> of
  line 121, which is in the \<^verbatim>\<open>else\<close> branch of the acceptance test. It ends by its
  bound, and line 127 constructs the final particle.
\<close>

lemma roll_never_positive:
  assumes name: "fParticleName S \<in> {NAME_NEUTRON, NAME_PROTON, NAME_ELECTRON}"
    and cnt: "ParticleCounter S \<noteq> INT_MAX"
    and acc: "\<And>h p. Estart p = H \<Longrightarrow> accepted (d (h @ [Use_UniformDist 0 1])) H (Hstart ext p - H)"
    and pot: "\<And>p. Estart p = H \<Longrightarrow> Hstart ext p = W"
    and low: "\<not> H - (W - H) > 0"
    and tot: "\<And>mc'. RandomPointInSourceVolume ext (shape S) mc' \<noteq> None"
    and "draw_real mc = d" and "nroll \<le> MAX_DICE_ROLL"
  shows "\<exists>p mc'. roll ext S t H phi_v theta_v polarisation nroll x y z E mc
             = Some (Inr (p, S\<lparr>ParticleCounter := ParticleCounter S + 1\<rparr>, mc'))
           \<and> ID p = ID_as_constructed \<and> number p = ParticleCounter S + 1
           \<and> Estart p = H - (W - H)
           \<and> constructions mc' = constructions mc + (Suc MAX_DICE_ROLL - nroll) + 1"
  using assms(7,8)
proof (induction "MAX_DICE_ROLL - nroll" arbitrary: nroll x y z E mc)
  case 0
  from factory_known_name [OF name cnt] obtain c
    where f: "TParticleSource_CreateParticle S mc t x y z H phi_v theta_v polarisation
        = Inr (new_particle c (ParticleCounter S + 1) t x y z H phi_v theta_v,
               S\<lparr>ParticleCounter := ParticleCounter S + 1\<rparr>, hand_over mc (fParticleName S))"
    by blast
  let ?p = "new_particle c (ParticleCounter S + 1) t x y z H phi_v theta_v"
  let ?mc1 = "hand_over mc (fParticleName S)"
  let ?u = "fst (UniformDist ?mc1 0 1)"
  let ?mc2 = "snd (UniformDist ?mc1 0 1)"
  have E: "Estart ?p = H" by (simp add: new_particle_def)
  then have "accepted (d ((uses mc @ [Use_Constructor (fParticleName S)]) @ [Use_UniformDist 0 1]))
      H (Hstart ext ?p - H)" by (rule acc)
  with "0.prems"(1) have a: "accepted ?u H (Hstart ext ?p - H)" by simp
  have W: "Hstart ext ?p = W" using E by (rule pot)
  from "0.hyps" "0.prems"(2) have last: "\<not> Suc nroll \<le> MAX_DICE_ROLL" "nroll = MAX_DICE_ROLL"
    by simp_all
  from tot [of ?mc2] obtain x' y' z' mc3
    where rp: "RandomPointInSourceVolume ext (shape S) ?mc2 = Some ((x', y', z'), mc3)"
    by (metis not_None_eq surj_pair)
  have c3: "constructions mc3 = Suc (constructions mc)"
    using RandomPoint_constructions [OF rp] by simp
  from factory_known_name [OF name cnt] obtain c'
    where f': "TParticleSource_CreateParticle S mc3 t x' y' z' (H - (W - H)) phi_v theta_v polarisation
        = Inr (new_particle c' (ParticleCounter S + 1) t x' y' z' (H - (W - H)) phi_v theta_v,
               S\<lparr>ParticleCounter := ParticleCounter S + 1\<rparr>, hand_over mc3 (fParticleName S))"
    by blast
  have "roll ext S t H phi_v theta_v polarisation nroll x y z E mc
      = roll ext S t H phi_v theta_v polarisation (Suc nroll) x' y' z' (H - (W - H)) mc3"
    using roll_step [OF "0.prems"(2) f prod.collapse [symmetric], of ext E] a low rp
    by (simp add: W)
  also have "\<dots> = Some (TParticleSource_CreateParticle S mc3 t x' y' z' (H - (W - H))
      phi_v theta_v polarisation)"
    using last(1) by (rule roll_past_budget)
  finally have "roll ext S t H phi_v theta_v polarisation nroll x y z E mc
      = Some (Inr (new_particle c' (ParticleCounter S + 1) t x' y' z' (H - (W - H)) phi_v theta_v,
               S\<lparr>ParticleCounter := ParticleCounter S + 1\<rparr>, hand_over mc3 (fParticleName S)))"
    by (simp only: f')
  moreover have "constructions (hand_over mc3 (fParticleName S))
      = constructions mc + (Suc MAX_DICE_ROLL - nroll) + 1"
    using c3 last(2) by simp
  ultimately show ?case by (simp add: new_particle_def)
next
  case (Suc k)
  from factory_known_name [OF name cnt] obtain c
    where f: "TParticleSource_CreateParticle S mc t x y z H phi_v theta_v polarisation
        = Inr (new_particle c (ParticleCounter S + 1) t x y z H phi_v theta_v,
               S\<lparr>ParticleCounter := ParticleCounter S + 1\<rparr>, hand_over mc (fParticleName S))"
    by blast
  let ?p = "new_particle c (ParticleCounter S + 1) t x y z H phi_v theta_v"
  let ?mc1 = "hand_over mc (fParticleName S)"
  let ?u = "fst (UniformDist ?mc1 0 1)"
  let ?mc2 = "snd (UniformDist ?mc1 0 1)"
  have E: "Estart ?p = H" by (simp add: new_particle_def)
  then have "accepted (d ((uses mc @ [Use_Constructor (fParticleName S)]) @ [Use_UniformDist 0 1]))
      H (Hstart ext ?p - H)" by (rule acc)
  with Suc.prems(1) have a: "accepted ?u H (Hstart ext ?p - H)" by simp
  have W: "Hstart ext ?p = W" using E by (rule pot)
  from Suc.hyps(2) have more: "Suc nroll \<le> MAX_DICE_ROLL" "k = MAX_DICE_ROLL - Suc nroll"
    by simp_all
  from tot [of ?mc2] obtain x' y' z' mc3
    where rp: "RandomPointInSourceVolume ext (shape S) ?mc2 = Some ((x', y', z'), mc3)"
    by (metis not_None_eq surj_pair)
  have d3: "draw_real mc3 = d"
    using RandomPoint_keeps(1) [OF rp] Suc.prems(1) by simp
  have c3: "constructions mc3 = Suc (constructions mc)"
    using RandomPoint_constructions [OF rp] by simp
  have "roll ext S t H phi_v theta_v polarisation nroll x y z E mc
      = roll ext S t H phi_v theta_v polarisation (Suc nroll) x' y' z' (H - (W - H)) mc3"
    using roll_step [OF Suc.prems(2) f prod.collapse [symmetric], of ext E] a low rp
    by (simp add: W)
  moreover from Suc.hyps(1) [OF more(2) d3 more(1), of x' y' z' "H - (W - H)"]
  obtain p mc' where "roll ext S t H phi_v theta_v polarisation (Suc nroll) x' y' z' (H - (W - H)) mc3
        = Some (Inr (p, S\<lparr>ParticleCounter := ParticleCounter S + 1\<rparr>, mc'))"
    and "ID p = ID_as_constructed" and "number p = ParticleCounter S + 1"
    and "Estart p = H - (W - H)"
    and "constructions mc' = constructions mc3 + (Suc MAX_DICE_ROLL - Suc nroll) + 1"
    by blast
  ultimately show ?case using c3 more(1) by auto
qed

lemma example_always_accepts:
  assumes "Estart p = - 1"
  shows "accepted (draw_real (example_mc (- 1) (1 / 2)) (h @ [Use_UniformDist 0 1])) (- 1)
           (Hstart (example_ext\<lparr>Hstart := \<lambda>p. 2\<rparr>) p - (- 1))"
  by (simp add: accepted_def example_mc_def)

text \<open>
  C2. The call on the concrete cuboid source with phase-space weighting, with the total
  energy \<open>H = -1\<close> from the spectrum, in a field where \<^verbatim>\<open>Hstart\<close> is 2 (so that
  \<open>V = 3\<close>, \<open>(H - V) / H = 4\<close> and \<open>E = H - V = -4\<close>) and with every acceptance draw
  \<open>1 / 2\<close>: every trial is accepted, none with a positive kinetic energy. The call
  returns, after the 42000001 trials, a particle that is not marked
  \<^verbatim>\<open>ID_INITIAL_NOT_FOUND\<close> and whose kinetic energy is \<open>-4\<close>: the loop was left without
  a positive kinetic energy, and the final particle was constructed all the same.
\<close>

theorem C2_final_particle_without_positive_energy:
  "\<exists>p S' mc'.
     TVolumeSource_CreateParticle (example_ext\<lparr>Hstart := \<lambda>p. 2\<rparr>) (example_volume True)
         (example_mc (- 1) (1 / 2)) = Some (Inr (p, S', mc'))
     \<and> ID p = ID_as_constructed
     \<and> Estart p = - 4
     \<and> number p = 1
     \<and> constructions mc' = 42000002
     \<and> accepted (1 / 2) (- 1) 3"
proof -
  let ?ext = "example_ext\<lparr>Hstart := \<lambda>p. 2\<rparr>"
  let ?S = "example_volume True"
  let ?mc = "example_mc (- 1) (1 / 2)"
  have S: "fParticleName ?S = ''neutron''" "ParticleCounter ?S = 0"
    "shape ?S = Cuboid 0 1 0 1 0 1" "fPhaseSpaceWeighting ?S"
    by (simp_all add: example_volume_def TVolumeSource_new_def)
  obtain t E phi_v theta_v polarisation mc4
    where d: "volume_draws ?S ?mc = (t, E, phi_v, theta_v, polarisation, mc4)"
    by (metis surj_pair)
  from volume_draws_uses [OF d]
  have E: "E = - 1" and d4: "draw_real mc4 = draw_real ?mc"
    and u4: "constructions mc4 = constructions ?mc"
    by (simp_all add: example_mc_def constructions_def)
  obtain x y z mc5 where rp: "RandomPointInSourceVolume ?ext (shape ?S) mc4 = Some ((x, y, z), mc5)"
    unfolding S by (metis RandomPointInSourceVolume.simps(1) surj_pair)
  from RandomPoint_keeps(1) [OF rp] RandomPoint_constructions [OF rp] d4 u4
  have d5: "draw_real mc5 = draw_real ?mc"
    and u5: "constructions mc5 = constructions ?mc" by simp_all
  have c0: "constructions ?mc = 0" by (simp add: constructions_def example_mc_def)
  have name: "fParticleName ?S \<in> {NAME_NEUTRON, NAME_PROTON, NAME_ELECTRON}"
    and cnt: "ParticleCounter ?S \<noteq> INT_MAX"
    by (simp_all add: S NAME_NEUTRON_def INT_MAX_def)
  have tot: "\<And>mc'. RandomPointInSourceVolume ?ext (shape ?S) mc' \<noteq> None"
    by (simp add: S)
  have pot: "\<And>p. Estart p = - 1 \<Longrightarrow> Hstart ?ext p = 2" by simp
  have low: "\<not> - 1 - (2 - (- 1)) > (0 :: real)" by simp
  from roll_never_positive [of ?S "- 1" "draw_real ?mc" ?ext 2 mc5 0
      t phi_v theta_v polarisation x y z "- 1", OF name cnt example_always_accepts pot low tot d5]
  obtain p mc' where "roll ?ext ?S t (- 1) phi_v theta_v polarisation 0 x y z (- 1) mc5
        = Some (Inr (p, ?S\<lparr>ParticleCounter := ParticleCounter ?S + 1\<rparr>, mc'))"
    and "ID p = ID_as_constructed" and "number p = ParticleCounter ?S + 1"
    and "Estart p = - 1 - (2 - (- 1))"
    and "constructions mc' = constructions mc5 + (Suc MAX_DICE_ROLL - 0) + 1"
    by auto
  moreover have "accepted (1 / 2) (- 1) 3" by (simp add: accepted_def)
  ultimately show ?thesis
    using d E rp S(2,4) u5 c0 by (simp add: volume_call MAX_DICE_ROLL_def)
qed

subsection \<open>The order of the draws\<close>

lemma factory_uses:
  assumes "TParticleSource_CreateParticle S mc t x y z E phi theta polarisation = Inr (p, S', mc')"
  shows "uses mc' = uses mc @ [Use_Constructor (fParticleName S)]"
  using factory_returns(3) [OF assms] by simp

lemma length_concat_replicate:
  "length (concat (replicate k xs)) = k * length xs"
  by (induction k) simp_all

lemma length_box_draws: "length (box_draws ext kdtree) = 3"
  by (simp add: box_draws_def split: prod.splits)

lemma STL_RandomPoint_draws:
  "STL_RandomPoint ext kdtree mc = Some r \<Longrightarrow>
     \<exists>n. uses (snd r) = uses mc @ concat (replicate (Suc n) (box_draws ext kdtree))"
proof (induction rule: STL_RandomPoint.raw_induct [rotated 1, consumes 1])
  case (1 f ext kdtree mc r)
  obtain xmin xmax ymin ymax zmin zmax
    where b: "bbox ext kdtree = ((xmin, xmax), (ymin, ymax), (zmin, zmax))"
    by (metis surj_pair)
  let ?mc1 = "snd (UniformDist mc xmin xmax)"
  let ?mc2 = "snd (UniformDist ?mc1 ymin ymax)"
  let ?mc3 = "snd (UniformDist ?mc2 zmin zmax)"
  let ?p = "(fst (UniformDist mc xmin xmax), fst (UniformDist ?mc1 ymin ymax),
            fst (UniformDist ?mc2 zmin zmax))"
  have r: "(if InSolid ext kdtree ?p then Some (?p, ?mc3) else f ext kdtree ?mc3) = Some r"
    by (rule "1.hyps" [unfolded b split_beta prod.case fst_conv snd_conv])
  show ?case
  proof (cases "InSolid ext kdtree ?p")
    case True
    with r have "r = (?p, ?mc3)" by simp
    then have "uses (snd r) = uses mc @ concat (replicate (Suc 0) (box_draws ext kdtree))"
      by (simp add: box_draws_def b)
    then show ?thesis by blast
  next
    case False
    with r have "f ext kdtree ?mc3 = Some r" by simp
    then have "\<exists>n. uses (snd r) = uses ?mc3 @ concat (replicate (Suc n) (box_draws ext kdtree))"
      by (rule "1.IH")
    then obtain n
      where "uses (snd r) = uses ?mc3 @ concat (replicate (Suc n) (box_draws ext kdtree))" ..
    then have "uses (snd r) = uses mc @ concat (replicate (Suc (Suc n)) (box_draws ext kdtree))"
      by (simp add: box_draws_def b)
    then show ?thesis by blast
  qed
qed

lemma RandomPoint_draws:
  assumes "RandomPointInSourceVolume ext sh mc = Some (xyz, mc')"
  shows "\<exists>ds. uses mc' = uses mc @ ds \<and> position_draws ext sh ds"
proof (cases sh)
  case (Cuboid a b c d e f)
  with assms have "mc' = snd (Cuboid_RandomPoint a b c d e f mc)"
    by (simp add: snd_def split: prod.splits)
  then show ?thesis by (simp add: Cuboid Cuboid_RandomPoint_keeps)
next
  case (Cylindrical a b c d e f)
  with assms have "mc' = snd (Cylindrical_RandomPoint a b c d e f mc)"
    by (simp add: snd_def split: prod.splits)
  then show ?thesis by (simp add: Cylindrical Cylindrical_RandomPoint_keeps)
next
  case (STL kdtree)
  with assms have "STL_RandomPoint ext kdtree mc = Some (xyz, mc')" by simp
  from STL_RandomPoint_draws [OF this] obtain n
    where u: "uses mc' = uses mc @ concat (replicate (Suc n) (box_draws ext kdtree))"
    by auto
  let ?ds = "concat (replicate (Suc n) (box_draws ext kdtree))"
  have l: "length ?ds = Suc n * 3"
    by (simp only: length_concat_replicate length_box_draws)
  then have "length ?ds div 3 = Suc n" by simp
  then have "?ds = concat (replicate (length ?ds div 3) (box_draws ext kdtree))"
    by (simp only:)
  moreover from l have "0 < length ?ds" by simp
  ultimately have "position_draws ext (STL kdtree) ?ds"
    by (simp only: position_draws.simps simp_thms)
  with u show ?thesis unfolding STL by blast
qed

lemma position_draws_no_construction:
  assumes "position_draws ext sh ds"
  shows "filter is_construction ds = []"
proof (cases sh)
  case (Cuboid a b c d e f)
  with assms show ?thesis by simp
next
  case (Cylindrical a b c d e f)
  with assms show ?thesis by simp
next
  case (STL kdtree)
  have b: "filter is_construction (box_draws ext kdtree) = []"
    by (simp add: box_draws_def split: prod.splits)
  have "filter is_construction (concat (replicate k (box_draws ext kdtree))) = []" for k
    by (induction k) (simp_all add: b)
  with assms STL show ?thesis by (metis position_draws.simps(3))
qed

text \<open>
  The uses of the generator by the phase-space search: the trials after which it goes
  on, and then one of three endings. The last trial is rejected, and the provisional
  particle is returned with the status \<^verbatim>\<open>ID_INITIAL_NOT_FOUND\<close>; or a trial is accepted
  with a positive kinetic energy, and the final particle is constructed; or the loop
  ends by its bound, and the final particle is constructed.
\<close>

lemma roll_uses:
  assumes "roll ext S t H phi_v theta_v polarisation nroll x y z E mc = Some (Inr (p, S', mc'))"
  shows "\<exists>positions ending.
      uses mc' = uses mc @ trials_log (fParticleName S) positions @ ending
      \<and> list_all (position_draws ext (shape S)) positions
      \<and> length positions \<le> Suc MAX_DICE_ROLL - nroll
      \<and> (ending = [Use_Constructor (fParticleName S), Use_UniformDist 0 1]
           \<and> ID p = ID_INITIAL_NOT_FOUND \<and> nroll + length positions = MAX_DICE_ROLL
         \<or> ending = [Use_Constructor (fParticleName S), Use_UniformDist 0 1,
                      Use_Constructor (fParticleName S)]
           \<and> ID p = ID_as_constructed
         \<or> ending = [Use_Constructor (fParticleName S)]
           \<and> ID p = ID_as_constructed \<and> length positions = Suc MAX_DICE_ROLL - nroll)"
  using assms
proof (induction "Suc MAX_DICE_ROLL - nroll" arbitrary: nroll x y z E mc)
  case 0
  then have past: "\<not> nroll \<le> MAX_DICE_ROLL" by simp
  from roll_past_budget [OF this, of ext S t H phi_v theta_v polarisation x y z E mc] "0.prems"
  have f: "TParticleSource_CreateParticle S mc t x y z E phi_v theta_v polarisation = Inr (p, S', mc')"
    by simp
  from factory_returns(1) [OF f] have "ID p = ID_as_constructed"
    by (auto simp: new_particle_def)
  moreover have "uses mc' = uses mc @ trials_log (fParticleName S) []
      @ [Use_Constructor (fParticleName S)]"
    using factory_uses [OF f] by simp
  moreover have "list_all (position_draws ext (shape S)) []" by simp
  moreover have "length ([] :: mc_use list list) = Suc MAX_DICE_ROLL - nroll"
    using past by simp
  ultimately show ?case by (metis order_refl)
next
  case (Suc k)
  then have le: "nroll \<le> MAX_DICE_ROLL" and k: "k = Suc MAX_DICE_ROLL - Suc nroll" by simp_all
  show ?case
  proof (cases "TParticleSource_CreateParticle S mc t x y z H phi_v theta_v polarisation")
    case (Inl f)
    from roll_factory_fails [OF le Inl, of ext E] Suc.prems show ?thesis by simp
  next
    case (Inr r)
    then obtain q S1 mc1
      where f: "TParticleSource_CreateParticle S mc t x y z H phi_v theta_v polarisation
          = Inr (q, S1, mc1)"
      by (cases r) auto
    let ?n = "fParticleName S"
    let ?u = "fst (UniformDist mc1 0 1)"
    let ?mc2 = "snd (UniformDist mc1 0 1)"
    let ?V = "Hstart ext q - H"
    note step = roll_step [OF le f prod.collapse [symmetric], of ext E]
    have u2: "uses ?mc2 = uses mc @ [Use_Constructor ?n, Use_UniformDist 0 1]"
      using factory_uses [OF f] by simp
    from factory_returns(1) [OF f] have q: "ID q = ID_as_constructed"
      by (auto simp: new_particle_def)
    have go_on: ?thesis
      if rp: "RandomPointInSourceVolume ext (shape S) ?mc2 = Some ((x', y', z'), mc3)"
        and r: "roll ext S t H phi_v theta_v polarisation (Suc nroll) x' y' z' E' mc3
          = Some (Inr (p, S', mc'))"
      for x' y' z' mc3 E'
    proof -
      from RandomPoint_draws [OF rp] obtain ds
        where ds: "uses mc3 = uses ?mc2 @ ds" "position_draws ext (shape S) ds" by blast
      from Suc.hyps(1) [OF k r] obtain positions ending
        where u: "uses mc' = uses mc3 @ trials_log ?n positions @ ending"
          and all: "list_all (position_draws ext (shape S)) positions"
          and len: "length positions \<le> Suc MAX_DICE_ROLL - Suc nroll"
          and e: "ending = [Use_Constructor ?n, Use_UniformDist 0 1]
                \<and> ID p = ID_INITIAL_NOT_FOUND \<and> Suc nroll + length positions = MAX_DICE_ROLL
              \<or> ending = [Use_Constructor ?n, Use_UniformDist 0 1, Use_Constructor ?n]
                \<and> ID p = ID_as_constructed
              \<or> ending = [Use_Constructor ?n]
                \<and> ID p = ID_as_constructed \<and> length positions = Suc MAX_DICE_ROLL - Suc nroll"
        by blast
      have "uses mc' = uses mc @ trials_log ?n (ds # positions) @ ending"
        using u ds(1) u2 by simp
      moreover have "list_all (position_draws ext (shape S)) (ds # positions)"
        using all ds(2) by simp
      moreover have "length (ds # positions) \<le> Suc MAX_DICE_ROLL - nroll"
        using len le by simp
      moreover have "ending = [Use_Constructor ?n, Use_UniformDist 0 1]
                \<and> ID p = ID_INITIAL_NOT_FOUND \<and> nroll + length (ds # positions) = MAX_DICE_ROLL
              \<or> ending = [Use_Constructor ?n, Use_UniformDist 0 1, Use_Constructor ?n]
                \<and> ID p = ID_as_constructed
              \<or> ending = [Use_Constructor ?n]
                \<and> ID p = ID_as_constructed
                \<and> length (ds # positions) = Suc MAX_DICE_ROLL - nroll"
        using e le by auto
      ultimately show ?thesis by blast
    qed
    consider (found) "accepted ?u H ?V" "H - ?V > 0"
      | (again) "accepted ?u H ?V" "\<not> H - ?V > 0"
      | (last) "\<not> accepted ?u H ?V" "MAX_DICE_ROLL \<le> nroll"
      | (retry) "\<not> accepted ?u H ?V" "\<not> MAX_DICE_ROLL \<le> nroll"
      by blast
    then show ?thesis
    proof cases
      case found
      with step Suc.prems
      have g: "TParticleSource_CreateParticle S ?mc2 t x y z (H - ?V) phi_v theta_v polarisation
          = Inr (p, S', mc')" by simp
      from factory_returns(1) [OF g] have "ID p = ID_as_constructed"
        by (auto simp: new_particle_def)
      moreover have "uses mc' = uses mc @ trials_log ?n []
          @ [Use_Constructor ?n, Use_UniformDist 0 1, Use_Constructor ?n]"
        using factory_uses [OF g] u2 by simp
      moreover have "list_all (position_draws ext (shape S)) []" by simp
      moreover have "length ([] :: mc_use list list) \<le> Suc MAX_DICE_ROLL - nroll" by simp
      ultimately show ?thesis by blast
    next
      case again
      with step Suc.prems obtain x' y' z' mc3
        where "RandomPointInSourceVolume ext (shape S) ?mc2 = Some ((x', y', z'), mc3)"
          and "roll ext S t H phi_v theta_v polarisation (Suc nroll) x' y' z' (H - ?V) mc3
          = Some (Inr (p, S', mc'))"
        by (auto split: option.splits)
      then show ?thesis by (rule go_on)
    next
      case last
      with step Suc.prems have "mc' = ?mc2" "p = q\<lparr>ID := ID_INITIAL_NOT_FOUND\<rparr>" by simp_all
      then have "ID p = ID_INITIAL_NOT_FOUND"
        and "uses mc' = uses mc @ trials_log ?n [] @ [Use_Constructor ?n, Use_UniformDist 0 1]"
        using u2 by simp_all
      moreover have "list_all (position_draws ext (shape S)) []" by simp
      moreover have "length ([] :: mc_use list list) \<le> Suc MAX_DICE_ROLL - nroll" by simp
      moreover have "nroll + length ([] :: mc_use list list) = MAX_DICE_ROLL"
        using last(2) le by simp
      ultimately show ?thesis by blast
    next
      case retry
      with step Suc.prems obtain x' y' z' mc3
        where "RandomPointInSourceVolume ext (shape S) ?mc2 = Some ((x', y', z'), mc3)"
          and "roll ext S t H phi_v theta_v polarisation (Suc nroll) x' y' z' E mc3
          = Some (Inr (p, S', mc'))"
        by (auto split: option.splits)
      then show ?thesis by (rule go_on)
    qed
  qed
qed

lemma surface_uses:
  assumes "TSurfaceSource_CreateParticle ext S mc = Inr (p, S', mc')"
  shows "uses mc' = uses mc @
           [Use_UniformDist 0 (fActiveTime S), Use_UniformDist 0 (sourcearea S),
            Use_UniformDist 0 1, Use_UniformDist 0 1, Use_Spectrum (fParticleName S),
            Use_UniformDist 0 (2 * pi), Use_SinCosDist 0 (0.5 * pi),
            Use_DicePolarisation (fParticleName S), Use_Constructor (fParticleName S)]"
proof -
  obtain t RandA a b Ekin phi_v theta_v polarisation mc8
    where d: "surface_draws S mc = (t, RandA, a, b, Ekin, phi_v, theta_v, polarisation, mc8)"
    by (metis surj_pair)
  from surface_returns(9) [OF assms d] surface_draws_uses [OF d] show ?thesis by simp
qed

lemma volume_uses:
  assumes "TVolumeSource_CreateParticle ext S mc = Some (Inr (p, S', mc'))"
  shows "\<exists>position rest.
           uses mc' = uses mc @
             [Use_UniformDist 0 (fActiveTime S), Use_Spectrum (fParticleName S),
              Use_AngularDist (fParticleName S), Use_DicePolarisation (fParticleName S)]
             @ position @ rest
           \<and> position_draws ext (shape S) position
           \<and> (\<not> fPhaseSpaceWeighting S \<longrightarrow> rest = [Use_Constructor (fParticleName S)])
           \<and> (fPhaseSpaceWeighting S \<longrightarrow>
                (\<exists>positions ending.
                   rest = trials_log (fParticleName S) positions @ ending
                   \<and> list_all (position_draws ext (shape S)) positions
                   \<and> length positions \<le> Suc MAX_DICE_ROLL
                   \<and> (ending = [Use_Constructor (fParticleName S), Use_UniformDist 0 1]
                        \<and> ID p = ID_INITIAL_NOT_FOUND \<and> length positions = MAX_DICE_ROLL
                      \<or> ending = [Use_Constructor (fParticleName S), Use_UniformDist 0 1,
                                   Use_Constructor (fParticleName S)]
                        \<and> ID p = ID_as_constructed
                      \<or> ending = [Use_Constructor (fParticleName S)]
                        \<and> ID p = ID_as_constructed
                        \<and> length positions = Suc MAX_DICE_ROLL)))"
proof -
  obtain t E phi_v theta_v polarisation mc4
    where d: "volume_draws S mc = (t, E, phi_v, theta_v, polarisation, mc4)"
    by (metis surj_pair)
  with assms obtain x y z mc5
    where rp: "RandomPointInSourceVolume ext (shape S) mc4 = Some ((x, y, z), mc5)"
      and r: "(if fPhaseSpaceWeighting S then
                 roll ext S t E phi_v theta_v polarisation 0 x y z E mc5
               else Some (TParticleSource_CreateParticle S mc5 t x y z E phi_v theta_v polarisation))
              = Some (Inr (p, S', mc'))"
    by (auto simp: volume_call split: option.splits)
  from RandomPoint_draws [OF rp] obtain position
    where pos: "uses mc5 = uses mc4 @ position" "position_draws ext (shape S) position" by blast
  let ?n = "fParticleName S"
  let ?search = "\<lambda>rest. \<exists>positions ending.
      rest = trials_log ?n positions @ ending
      \<and> list_all (position_draws ext (shape S)) positions
      \<and> length positions \<le> Suc MAX_DICE_ROLL
      \<and> (ending = [Use_Constructor ?n, Use_UniformDist 0 1]
           \<and> ID p = ID_INITIAL_NOT_FOUND \<and> length positions = MAX_DICE_ROLL
         \<or> ending = [Use_Constructor ?n, Use_UniformDist 0 1, Use_Constructor ?n]
           \<and> ID p = ID_as_constructed
         \<or> ending = [Use_Constructor ?n]
           \<and> ID p = ID_as_constructed \<and> length positions = Suc MAX_DICE_ROLL)"
  have "\<exists>rest. uses mc' = uses mc5 @ rest
      \<and> (\<not> fPhaseSpaceWeighting S \<longrightarrow> rest = [Use_Constructor ?n])
      \<and> (fPhaseSpaceWeighting S \<longrightarrow> ?search rest)"
  proof (cases "fPhaseSpaceWeighting S")
    case True
    with r have "roll ext S t E phi_v theta_v polarisation 0 x y z E mc5 = Some (Inr (p, S', mc'))"
      by simp
    from roll_uses [OF this] obtain positions ending
      where u: "uses mc' = uses mc5 @ trials_log ?n positions @ ending"
        and all: "list_all (position_draws ext (shape S)) positions"
        and len: "length positions \<le> Suc MAX_DICE_ROLL - 0"
        and e: "ending = [Use_Constructor ?n, Use_UniformDist 0 1]
              \<and> ID p = ID_INITIAL_NOT_FOUND \<and> 0 + length positions = MAX_DICE_ROLL
            \<or> ending = [Use_Constructor ?n, Use_UniformDist 0 1, Use_Constructor ?n]
              \<and> ID p = ID_as_constructed
            \<or> ending = [Use_Constructor ?n]
              \<and> ID p = ID_as_constructed \<and> length positions = Suc MAX_DICE_ROLL - 0"
      by blast
    from all len e have "?search (trials_log ?n positions @ ending)"
      by (intro exI [of _ positions] exI [of _ ending]) simp
    with u True show ?thesis by blast
  next
    case False
    with r have f: "TParticleSource_CreateParticle S mc5 t x y z E phi_v theta_v polarisation
        = Inr (p, S', mc')" by simp
    from factory_uses [OF f] False show ?thesis by simp
  qed
  then obtain rest where rest: "uses mc' = uses mc5 @ rest"
    "\<not> fPhaseSpaceWeighting S \<longrightarrow> rest = [Use_Constructor ?n]"
    "fPhaseSpaceWeighting S \<longrightarrow> ?search rest" by blast
  from rest(1) pos(1) volume_draws_uses(1) [OF d]
  have "uses mc' = uses mc @
      [Use_UniformDist 0 (fActiveTime S), Use_Spectrum (fParticleName S),
       Use_AngularDist (fParticleName S), Use_DicePolarisation (fParticleName S)]
      @ position @ rest" by simp
  with pos(2) rest(2,3) show ?thesis by blast
qed

text \<open>
  C7, as the code has it. A call of the surface source that returns has used the
  generator for, in this order: the time, the selection of the triangle, the two
  position draws, the energy, the azimuth, the polar angle and the polarisation (the
  recomputation after the rotation draws nothing), and has then handed it to the
  particle constructor. A call of a volume source that returns has used it for, in this
  order: the time, the energy, the direction angles and the polarisation, and only then
  for the position draws of its shape (three uniform draws for the cuboid; a linear and
  two uniform draws for the cylinder; the three uniform draws over the bounding box,
  once or more, for the mesh-bounded volume). Without phase-space weighting the
  constructor follows, and nothing else. With it follow the trials after which the
  search goes on, at most 42000001, each of them the constructor of the provisional
  particle, the acceptance draw and the position draws of the next candidate; and then
  either the constructor and the acceptance draw of the last trial, after exactly
  42000000 such trials, when the particle is returned with the status
  \<^verbatim>\<open>ID_INITIAL_NOT_FOUND\<close>; or the constructor and the acceptance draw of an accepted
  trial and the constructor of the final particle; or, after exactly 42000001 such
  trials, the constructor of the final particle.
\<close>

theorem C7_order_of_draws:
  "(TSurfaceSource_CreateParticle ext S mc = Inr (p, S', mc') \<longrightarrow>
      uses mc' = uses mc @
        [Use_UniformDist 0 (fActiveTime S), Use_UniformDist 0 (sourcearea S),
         Use_UniformDist 0 1, Use_UniformDist 0 1, Use_Spectrum (fParticleName S),
         Use_UniformDist 0 (2 * pi), Use_SinCosDist 0 (0.5 * pi),
         Use_DicePolarisation (fParticleName S), Use_Constructor (fParticleName S)])
   \<and> (TVolumeSource_CreateParticle ext V mcv = Some (Inr (q, V', mcv')) \<longrightarrow>
        (\<exists>position rest.
           uses mcv' = uses mcv @
             [Use_UniformDist 0 (fActiveTime V), Use_Spectrum (fParticleName V),
              Use_AngularDist (fParticleName V), Use_DicePolarisation (fParticleName V)]
             @ position @ rest
           \<and> position_draws ext (shape V) position
           \<and> filter is_construction position = []
           \<and> (\<forall>a b c d e f. shape V = Cuboid a b c d e f \<longrightarrow>
                 position = [Use_UniformDist a b, Use_UniformDist c d, Use_UniformDist e f])
           \<and> (\<forall>a b c d e f. shape V = Cylindrical a b c d e f \<longrightarrow>
                 position = [Use_LinearDist a b, Use_UniformDist c d, Use_UniformDist e f])
           \<and> (\<forall>kdtree. shape V = STL kdtree \<longrightarrow>
                 0 < length position
                 \<and> position = concat (replicate (length position div 3) (box_draws ext kdtree)))
           \<and> (\<not> fPhaseSpaceWeighting V \<longrightarrow> rest = [Use_Constructor (fParticleName V)])
           \<and> (fPhaseSpaceWeighting V \<longrightarrow>
                (\<exists>positions ending.
                   rest = trials_log (fParticleName V) positions @ ending
                   \<and> list_all (position_draws ext (shape V)) positions
                   \<and> length positions \<le> Suc MAX_DICE_ROLL
                   \<and> (ending = [Use_Constructor (fParticleName V), Use_UniformDist 0 1]
                        \<and> ID q = ID_INITIAL_NOT_FOUND \<and> length positions = MAX_DICE_ROLL
                      \<or> ending = [Use_Constructor (fParticleName V), Use_UniformDist 0 1,
                                   Use_Constructor (fParticleName V)]
                        \<and> ID q = ID_as_constructed
                      \<or> ending = [Use_Constructor (fParticleName V)]
                        \<and> ID q = ID_as_constructed
                        \<and> length positions = Suc MAX_DICE_ROLL)))))"
proof (intro conjI impI)
  assume "TSurfaceSource_CreateParticle ext S mc = Inr (p, S', mc')"
  then show "uses mc' = uses mc @
        [Use_UniformDist 0 (fActiveTime S), Use_UniformDist 0 (sourcearea S),
         Use_UniformDist 0 1, Use_UniformDist 0 1, Use_Spectrum (fParticleName S),
         Use_UniformDist 0 (2 * pi), Use_SinCosDist 0 (0.5 * pi),
         Use_DicePolarisation (fParticleName S), Use_Constructor (fParticleName S)]"
    by (rule surface_uses)
next
  assume "TVolumeSource_CreateParticle ext V mcv = Some (Inr (q, V', mcv'))"
  from volume_uses [OF this] obtain position rest
    where u: "uses mcv' = uses mcv @
             [Use_UniformDist 0 (fActiveTime V), Use_Spectrum (fParticleName V),
              Use_AngularDist (fParticleName V), Use_DicePolarisation (fParticleName V)]
             @ position @ rest"
      and pos: "position_draws ext (shape V) position"
      and plain: "\<not> fPhaseSpaceWeighting V \<longrightarrow> rest = [Use_Constructor (fParticleName V)]"
      and search: "fPhaseSpaceWeighting V \<longrightarrow>
                (\<exists>positions ending.
                   rest = trials_log (fParticleName V) positions @ ending
                   \<and> list_all (position_draws ext (shape V)) positions
                   \<and> length positions \<le> Suc MAX_DICE_ROLL
                   \<and> (ending = [Use_Constructor (fParticleName V), Use_UniformDist 0 1]
                        \<and> ID q = ID_INITIAL_NOT_FOUND \<and> length positions = MAX_DICE_ROLL
                      \<or> ending = [Use_Constructor (fParticleName V), Use_UniformDist 0 1,
                                   Use_Constructor (fParticleName V)]
                        \<and> ID q = ID_as_constructed
                      \<or> ending = [Use_Constructor (fParticleName V)]
                        \<and> ID q = ID_as_constructed
                        \<and> length positions = Suc MAX_DICE_ROLL))"
    by blast
  have nc: "filter is_construction position = []"
    using pos by (rule position_draws_no_construction)
  have cub: "\<forall>a b c d e f. shape V = Cuboid a b c d e f \<longrightarrow>
      position = [Use_UniformDist a b, Use_UniformDist c d, Use_UniformDist e f]"
    using pos by auto
  have cyl: "\<forall>a b c d e f. shape V = Cylindrical a b c d e f \<longrightarrow>
      position = [Use_LinearDist a b, Use_UniformDist c d, Use_UniformDist e f]"
    using pos by auto
  have stl: "\<forall>kdtree. shape V = STL kdtree \<longrightarrow>
      0 < length position
      \<and> position = concat (replicate (length position div 3) (box_draws ext kdtree))"
    using pos by (metis position_draws.simps(3))
  from u pos nc cub cyl stl plain search
  show "\<exists>position rest.
           uses mcv' = uses mcv @
             [Use_UniformDist 0 (fActiveTime V), Use_Spectrum (fParticleName V),
              Use_AngularDist (fParticleName V), Use_DicePolarisation (fParticleName V)]
             @ position @ rest
           \<and> position_draws ext (shape V) position
           \<and> filter is_construction position = []
           \<and> (\<forall>a b c d e f. shape V = Cuboid a b c d e f \<longrightarrow>
                 position = [Use_UniformDist a b, Use_UniformDist c d, Use_UniformDist e f])
           \<and> (\<forall>a b c d e f. shape V = Cylindrical a b c d e f \<longrightarrow>
                 position = [Use_LinearDist a b, Use_UniformDist c d, Use_UniformDist e f])
           \<and> (\<forall>kdtree. shape V = STL kdtree \<longrightarrow>
                 0 < length position
                 \<and> position = concat (replicate (length position div 3) (box_draws ext kdtree)))
           \<and> (\<not> fPhaseSpaceWeighting V \<longrightarrow> rest = [Use_Constructor (fParticleName V)])
           \<and> (fPhaseSpaceWeighting V \<longrightarrow>
                (\<exists>positions ending.
                   rest = trials_log (fParticleName V) positions @ ending
                   \<and> list_all (position_draws ext (shape V)) positions
                   \<and> length positions \<le> Suc MAX_DICE_ROLL
                   \<and> (ending = [Use_Constructor (fParticleName V), Use_UniformDist 0 1]
                        \<and> ID q = ID_INITIAL_NOT_FOUND \<and> length positions = MAX_DICE_ROLL
                      \<or> ending = [Use_Constructor (fParticleName V), Use_UniformDist 0 1,
                                   Use_Constructor (fParticleName V)]
                        \<and> ID q = ID_as_constructed
                      \<or> ending = [Use_Constructor (fParticleName V)]
                        \<and> ID q = ID_as_constructed
                        \<and> length positions = Suc MAX_DICE_ROLL)))"
    by (intro exI [of _ position] exI [of _ rest] conjI)
qed

lemma example_plain_volume:
  "fParticleName (example_volume False) = ''neutron''"
  "fActiveTime (example_volume False) = 10"
  "shape (example_volume False) = Cuboid 0 1 0 1 0 1"
  "\<not> fPhaseSpaceWeighting (example_volume False)"
  "ParticleCounter (example_volume False) = 0"
  by (simp_all add: example_volume_def TVolumeSource_new_def)

lemma example_weighted_volume:
  "fParticleName (example_volume True) = ''neutron''"
  "fActiveTime (example_volume True) = 10"
  "shape (example_volume True) = Cuboid 0 1 0 1 0 1"
  "fPhaseSpaceWeighting (example_volume True)"
  by (simp_all add: example_volume_def TVolumeSource_new_def)

lemma example_plain_volume_returns:
  "\<exists>q V' mc'. TVolumeSource_CreateParticle example_ext (example_volume False) (example_mc 1 0)
      = Some (Inr (q, V', mc'))"
  using plain_volume_returns [of "example_volume False" 0 1 0 1 0 1 example_ext "example_mc 1 0"]
  by (auto simp: example_plain_volume NAME_NEUTRON_def INT_MAX_def)

theorem C7_order_of_draws_witness:
  "(\<exists>p S' mc'.
      TSurfaceSource_CreateParticle example_ext (example_surface [triangle_1] 1 0) (example_mc 1 0)
        = Inr (p, S', mc')
      \<and> uses mc' =
          [Use_UniformDist 0 10, Use_UniformDist 0 1, Use_UniformDist 0 1, Use_UniformDist 0 1,
           Use_Spectrum ''neutron'', Use_UniformDist 0 (2 * pi), Use_SinCosDist 0 (0.5 * pi),
           Use_DicePolarisation ''neutron'', Use_Constructor ''neutron''])
   \<and> (\<exists>q V' mc' position rest.
      TVolumeSource_CreateParticle example_ext (example_volume False) (example_mc 1 0)
        = Some (Inr (q, V', mc'))
      \<and> uses mc' =
          [Use_UniformDist 0 10, Use_Spectrum ''neutron'', Use_AngularDist ''neutron'',
           Use_DicePolarisation ''neutron''] @ position @ rest
      \<and> position = [Use_UniformDist 0 1, Use_UniformDist 0 1, Use_UniformDist 0 1]
      \<and> rest = [Use_Constructor ''neutron''])
   \<and> (\<exists>q V' mc' positions.
      TVolumeSource_CreateParticle example_ext (example_volume True) (example_mc 1 (1 / 2))
        = Some (Inr (q, V', mc'))
      \<and> uses mc' =
          [Use_UniformDist 0 10, Use_Spectrum ''neutron'', Use_AngularDist ''neutron'',
           Use_DicePolarisation ''neutron'',
           Use_UniformDist 0 1, Use_UniformDist 0 1, Use_UniformDist 0 1]
          @ trials_log ''neutron'' positions
          @ [Use_Constructor ''neutron'', Use_UniformDist 0 1]
      \<and> list_all (\<lambda>ds. ds = [Use_UniformDist 0 1, Use_UniformDist 0 1, Use_UniformDist 0 1])
           positions
      \<and> length positions = 42000000)"
proof -
  let ?S = "example_surface [triangle_1] 1 0"
  have S: "fActiveTime ?S = 10" "sourcearea ?S = 1" "fParticleName ?S = ''neutron''"
    by (simp_all add: example_surface_def)
  have e: "uses (example_mc 1 0) = []" "uses (example_mc 1 (1 / 2)) = []"
    by (simp_all add: example_mc_def)
  obtain p S' mc'
    where call: "TSurfaceSource_CreateParticle example_ext ?S (example_mc 1 0) = Inr (p, S', mc')"
    using example_surface_returns [of "[triangle_1]" 0 1 example_ext 0 1]
    by (auto simp: select_two_triangles)
  from C7_order_of_draws [THEN conjunct1, rule_format, OF call]
  have "uses mc' =
          [Use_UniformDist 0 10, Use_UniformDist 0 1, Use_UniformDist 0 1, Use_UniformDist 0 1,
           Use_Spectrum ''neutron'', Use_UniformDist 0 (2 * pi), Use_SinCosDist 0 (0.5 * pi),
           Use_DicePolarisation ''neutron'', Use_Constructor ''neutron'']"
    by (simp add: S e)
  with call have one: "\<exists>p S' mc'.
      TSurfaceSource_CreateParticle example_ext ?S (example_mc 1 0) = Inr (p, S', mc')
      \<and> uses mc' =
          [Use_UniformDist 0 10, Use_UniformDist 0 1, Use_UniformDist 0 1, Use_UniformDist 0 1,
           Use_Spectrum ''neutron'', Use_UniformDist 0 (2 * pi), Use_SinCosDist 0 (0.5 * pi),
           Use_DicePolarisation ''neutron'', Use_Constructor ''neutron'']"
    by blast
  from example_plain_volume_returns obtain q V' mcv'
    where callv: "TVolumeSource_CreateParticle example_ext (example_volume False) (example_mc 1 0)
      = Some (Inr (q, V', mcv'))" by blast
  from C7_order_of_draws [THEN conjunct2, rule_format, OF callv]
  obtain position rest
    where "uses mcv' =
          [Use_UniformDist 0 10, Use_Spectrum ''neutron'', Use_AngularDist ''neutron'',
           Use_DicePolarisation ''neutron''] @ position @ rest"
      and "position = [Use_UniformDist 0 1, Use_UniformDist 0 1, Use_UniformDist 0 1]"
      and "rest = [Use_Constructor ''neutron'']"
    by (auto simp: example_plain_volume e)
  with callv have two: "\<exists>q V' mc' position rest.
      TVolumeSource_CreateParticle example_ext (example_volume False) (example_mc 1 0)
        = Some (Inr (q, V', mc'))
      \<and> uses mc' =
          [Use_UniformDist 0 10, Use_Spectrum ''neutron'', Use_AngularDist ''neutron'',
           Use_DicePolarisation ''neutron''] @ position @ rest
      \<and> position = [Use_UniformDist 0 1, Use_UniformDist 0 1, Use_UniformDist 0 1]
      \<and> rest = [Use_Constructor ''neutron'']"
    by blast
  from example_volume_exhausted [OF refl] obtain r mcw'
    where callw: "TVolumeSource_CreateParticle example_ext (example_volume True)
        (example_mc 1 (1 / 2)) = Some (Inr (r, example_volume True, mcw'))"
      and sentinel: "ID r = ID_INITIAL_NOT_FOUND"
    by blast
  from C7_order_of_draws [THEN conjunct2, rule_format, OF callw]
  obtain position rest
    where u: "uses mcw' = uses (example_mc 1 (1 / 2)) @
             [Use_UniformDist 0 (fActiveTime (example_volume True)),
              Use_Spectrum (fParticleName (example_volume True)),
              Use_AngularDist (fParticleName (example_volume True)),
              Use_DicePolarisation (fParticleName (example_volume True))]
             @ position @ rest"
      and pos: "position_draws example_ext (shape (example_volume True)) position"
      and search: "fPhaseSpaceWeighting (example_volume True) \<longrightarrow>
                (\<exists>positions ending.
                   rest = trials_log (fParticleName (example_volume True)) positions @ ending
                   \<and> list_all (position_draws example_ext (shape (example_volume True))) positions
                   \<and> length positions \<le> Suc MAX_DICE_ROLL
                   \<and> (ending = [Use_Constructor (fParticleName (example_volume True)),
                                Use_UniformDist 0 1]
                        \<and> ID r = ID_INITIAL_NOT_FOUND \<and> length positions = MAX_DICE_ROLL
                      \<or> ending = [Use_Constructor (fParticleName (example_volume True)),
                                   Use_UniformDist 0 1,
                                   Use_Constructor (fParticleName (example_volume True))]
                        \<and> ID r = ID_as_constructed
                      \<or> ending = [Use_Constructor (fParticleName (example_volume True))]
                        \<and> ID r = ID_as_constructed
                        \<and> length positions = Suc MAX_DICE_ROLL))"
    by blast
  from search sentinel obtain positions
    where rest: "rest = trials_log ''neutron'' positions
        @ [Use_Constructor ''neutron'', Use_UniformDist 0 1]"
      and all: "list_all (position_draws example_ext (Cuboid 0 1 0 1 0 1)) positions"
      and len: "length positions = MAX_DICE_ROLL"
    by (auto simp: example_weighted_volume)
  from pos have p3: "position = [Use_UniformDist 0 1, Use_UniformDist 0 1, Use_UniformDist 0 1]"
    by (simp add: example_weighted_volume)
  have "uses mcw' =
          [Use_UniformDist 0 10, Use_Spectrum ''neutron'', Use_AngularDist ''neutron'',
           Use_DicePolarisation ''neutron'',
           Use_UniformDist 0 1, Use_UniformDist 0 1, Use_UniformDist 0 1]
          @ trials_log ''neutron'' positions
          @ [Use_Constructor ''neutron'', Use_UniformDist 0 1]"
    unfolding u rest p3 by (simp add: e example_weighted_volume)
  moreover have "list_all (\<lambda>ds. ds = [Use_UniformDist 0 1, Use_UniformDist 0 1, Use_UniformDist 0 1])
      positions"
    using all by (simp add: list_all_iff)
  moreover have "length positions = 42000000" using len by (simp add: MAX_DICE_ROLL_def)
  ultimately have three: "\<exists>q V' mc' positions.
      TVolumeSource_CreateParticle example_ext (example_volume True) (example_mc 1 (1 / 2))
        = Some (Inr (q, V', mc'))
      \<and> uses mc' =
          [Use_UniformDist 0 10, Use_Spectrum ''neutron'', Use_AngularDist ''neutron'',
           Use_DicePolarisation ''neutron'',
           Use_UniformDist 0 1, Use_UniformDist 0 1, Use_UniformDist 0 1]
          @ trials_log ''neutron'' positions
          @ [Use_Constructor ''neutron'', Use_UniformDist 0 1]
      \<and> list_all (\<lambda>ds. ds = [Use_UniformDist 0 1, Use_UniformDist 0 1, Use_UniformDist 0 1])
           positions
      \<and> length positions = 42000000"
    using callw by blast
  from one two three show ?thesis by (intro conjI)
qed

text \<open>
  The claim C7 as stated fails for the volume sources: in the call on the concrete
  cuboid source the energy, the angles and the polarisation are drawn before the three
  position draws, not after them.
\<close>

theorem C7_counterexample:
  "\<exists>q V' mc'.
     TVolumeSource_CreateParticle example_ext (example_volume False) (example_mc 1 0)
       = Some (Inr (q, V', mc'))
     \<and> uses mc' =
         [Use_UniformDist 0 10, Use_Spectrum ''neutron'', Use_AngularDist ''neutron'',
          Use_DicePolarisation ''neutron'',
          Use_UniformDist 0 1, Use_UniformDist 0 1, Use_UniformDist 0 1,
          Use_Constructor ''neutron'']"
proof -
  have e: "uses (example_mc 1 0) = []" by (simp add: example_mc_def)
  from example_plain_volume_returns obtain q V' mcv'
    where callv: "TVolumeSource_CreateParticle example_ext (example_volume False) (example_mc 1 0)
      = Some (Inr (q, V', mcv'))" by blast
  from volume_uses [OF callv] have "uses mcv' =
         [Use_UniformDist 0 10, Use_Spectrum ''neutron'', Use_AngularDist ''neutron'',
          Use_DicePolarisation ''neutron'',
          Use_UniformDist 0 1, Use_UniformDist 0 1, Use_UniformDist 0 1,
          Use_Constructor ''neutron'']"
    by (auto simp: example_plain_volume e)
  with callv show ?thesis by blast
qed

subsection \<open>The dispatcher\<close>

lemma get_string_bind:
  "(\<exists>y. get_string s \<bind> g = Some y)
     = (\<exists>w s'. get_string s = Some (w, s') \<and> (\<exists>y. g (w, s') = Some y))"
  by (cases "get_string s") auto

lemma read_double_bind:
  "(\<exists>y. read_double ext s \<bind> g = Some y)
     = (\<exists>v s'. read_double ext s = Some (v, s') \<and> (\<exists>y. g (v, s') = Some y))"
  by (cases "read_double ext s") auto

lemma read_bool_bind:
  "(\<exists>y. read_bool ext s \<bind> g = Some y)
     = (\<exists>v s'. read_bool ext s = Some (v, s') \<and> (\<exists>y. g (v, s') = Some y))"
  by (cases "read_bool ext s") auto

lemma fields_read_Text:
  "fields_read ext (Text # ks) s = (\<exists>w s'. get_string s = Some (w, s') \<and> fields_read ext ks s')"
  by (auto split: option.splits)

lemma fields_read_Number:
  "fields_read ext (Number # ks) s
     = (\<exists>v s'. read_double ext s = Some (v, s') \<and> fields_read ext ks s')"
  by (auto split: option.splits)

lemma fields_read_Flag:
  "fields_read ext (Flag # ks) s
     = (\<exists>v s'. read_bool ext s = Some (v, s') \<and> fields_read ext ks s')"
  by (auto split: option.splits)

lemma make_source_readable:
  "(make_source ext triangles sourcemode sourceconf \<noteq> None) = readable ext sourcemode sourceconf"
  by (simp add: make_source_def Let_def readable_def required_fields_def
      get_string_bind read_double_bind read_bool_bind
      fields_read_Text fields_read_Number fields_read_Flag fields_read.simps(1)
      del: fields_read.simps(2-4))

lemma unreadable_is_fatal:
  assumes "\<not> readable ext sourcemode sourceconf"
  shows "TSource_new ext triangles sourcemode sourceconf = Inl (load_failed sourcemode)"
proof -
  from assms have "\<not> make_source ext triangles sourcemode sourceconf \<noteq> None"
    by (simp only: make_source_readable not_False_eq_True)
  then show ?thesis by (simp add: TSource_new_def)
qed

lemma readable_is_built:
  assumes "readable ext sourcemode sourceconf"
  shows "\<exists>source. TSource_new ext triangles sourcemode sourceconf = Inr source"
proof -
  from assms have "make_source ext triangles sourcemode sourceconf \<noteq> None"
    by (simp only: make_source_readable)
  then show ?thesis by (auto simp: TSource_new_def)
qed

lemma no_name_unreadable:
  assumes "get_string sourceconf = None"
  shows "\<not> readable ext sourcemode sourceconf"
  using assms by (simp add: readable_def split: option.splits)

text \<open>
  C9, as the code has it. The dispatcher exits with the status -1 and a message that
  names the mode, and builds no source, exactly when the entry is not readable: when
  the mode is not one of the five, or the particle name or one of the values the mode
  requires cannot be extracted from what the extractions before it have left of the
  entry. In particular an unrecognised mode and an entry without a particle name are
  fatal. Any other entry builds a source: the fields are not counted, a value may end
  inside a field, and what follows the last required value is never read. The factory
  exits with the status -1 and a message that names the particle, and constructs no
  particle, for every particle name other than the three it knows.
\<close>

theorem C9_fatal_configuration_errors:
  "(\<not> readable ext sourcemode sourceconf \<longrightarrow>
      TSource_new ext triangles sourcemode sourceconf
        = Inl (Exit (- 1) ([CHR 0x0A] @ ''Could not load source '' @ sourcemode
                              @ ''! Did you enter invalid parameters?'' @ [CHR 0x0A])))
   \<and> (readable ext sourcemode sourceconf \<longrightarrow>
        (\<exists>source. TSource_new ext triangles sourcemode sourceconf = Inr source))
   \<and> (sourcemode \<notin> {''boxvolume'', ''cylvolume'', ''STLvolume'', ''cylsurface'', ''STLsurface''} \<longrightarrow>
        \<not> readable ext sourcemode sourceconf)
   \<and> (get_string sourceconf = None \<longrightarrow> \<not> readable ext sourcemode sourceconf)
   \<and> (fParticleName S \<notin> {NAME_NEUTRON, NAME_PROTON, NAME_ELECTRON} \<longrightarrow>
        TParticleSource_CreateParticle S mc t x y z E phi theta polarisation
          = Inl (Exit (- 1) (''Could not create particle '' @ fParticleName S @ [CHR 0x0A])))"
proof (intro conjI impI)
  assume "\<not> readable ext sourcemode sourceconf"
  then show "TSource_new ext triangles sourcemode sourceconf
        = Inl (Exit (- 1) ([CHR 0x0A] @ ''Could not load source '' @ sourcemode
                              @ ''! Did you enter invalid parameters?'' @ [CHR 0x0A]))"
    by (simp add: unreadable_is_fatal load_failed_def)
next
  assume "readable ext sourcemode sourceconf"
  then show "\<exists>source. TSource_new ext triangles sourcemode sourceconf = Inr source"
    by (rule readable_is_built)
next
  assume "sourcemode \<notin> {''boxvolume'', ''cylvolume'', ''STLvolume'', ''cylsurface'', ''STLsurface''}"
  then have "required_fields sourcemode = None" by (simp add: required_fields_def)
  then show "\<not> readable ext sourcemode sourceconf" by (simp add: readable_def)
next
  assume "get_string sourceconf = None"
  then show "\<not> readable ext sourcemode sourceconf" by (rule no_name_unreadable)
next
  assume "fParticleName S \<notin> {NAME_NEUTRON, NAME_PROTON, NAME_ELECTRON}"
  then show "TParticleSource_CreateParticle S mc t x y z E phi theta polarisation
          = Inl (Exit (- 1) (''Could not create particle '' @ fParticleName S @ [CHR 0x0A]))"
    by (simp add: TParticleSource_CreateParticle_def)
qed

lemma example_readable:
  "\<not> readable example_ext ''boxvolume'' ''neutron 0 wide 0 1 0 1 1 0''"
  "\<not> readable example_ext ''boxvolume'' ''neutron 0 1''"
  "readable example_ext ''boxvolume'' ''neutron 0 1 0 1 0 1 1 0''"
  "readable example_ext ''boxvolume'' ''neutron 0 1 0 1 0 1 1+1''"
  "get_string ''  '' = None"
  by (simp_all add: readable_def required_fields_def get_string_def isspace_def
        example_ext_def example_read_double_def example_read_bool_def)

theorem C9_fatal_configuration_errors_witness:
  "TSource_new example_ext [] ''boxvolume'' ''neutron 0 wide 0 1 0 1 1 0''
     = Inl (Exit (- 1) ([CHR 0x0A] @ ''Could not load source boxvolume! Did you enter invalid parameters?''
                          @ [CHR 0x0A]))
   \<and> TSource_new example_ext [] ''boxvolume'' ''neutron 0 1''
     = Inl (Exit (- 1) ([CHR 0x0A] @ ''Could not load source boxvolume! Did you enter invalid parameters?''
                          @ [CHR 0x0A]))
   \<and> TSource_new example_ext [] ''sphere'' ''neutron 0 1''
     = Inl (Exit (- 1) ([CHR 0x0A] @ ''Could not load source sphere! Did you enter invalid parameters?''
                          @ [CHR 0x0A]))
   \<and> TSource_new example_ext [] ''boxvolume'' ''  ''
     = Inl (Exit (- 1) ([CHR 0x0A] @ ''Could not load source boxvolume! Did you enter invalid parameters?''
                          @ [CHR 0x0A]))
   \<and> (\<exists>source. TSource_new example_ext [] ''boxvolume'' ''neutron 0 1 0 1 0 1 1 0'' = Inr source)
   \<and> (\<exists>source. TSource_new example_ext [] ''boxvolume'' ''neutron 0 1 0 1 0 1 1+1'' = Inr source)
   \<and> TParticleSource_CreateParticle (TVolumeSource_new ''muon'' 1 False (Cuboid 0 1 0 1 0 1))
        (example_mc 1 0) 0 0 0 0 1 0 0 1
     = Inl (Exit (- 1) (''Could not create particle muon'' @ [CHR 0x0A]))"
proof -
  let ?muon = "TVolumeSource_new ''muon'' 1 False (Cuboid 0 1 0 1 0 1)"
  note r = example_readable
  have m: "''sphere'' \<notin> {''boxvolume'', ''cylvolume'', ''STLvolume'', ''cylsurface'', ''STLsurface''}"
    by simp
  have n: "fParticleName ?muon \<notin> {NAME_NEUTRON, NAME_PROTON, NAME_ELECTRON}"
    by (simp add: TVolumeSource_new_def NAME_NEUTRON_def NAME_PROTON_def NAME_ELECTRON_def)
  note fatal = C9_fatal_configuration_errors [THEN conjunct1, rule_format]
  note built = C9_fatal_configuration_errors [THEN conjunct2, THEN conjunct1, rule_format]
  note mode = C9_fatal_configuration_errors [THEN conjunct2, THEN conjunct2, THEN conjunct1, rule_format]
  note blank = C9_fatal_configuration_errors [THEN conjunct2, THEN conjunct2, THEN conjunct2,
      THEN conjunct1, rule_format]
  note name = C9_fatal_configuration_errors [THEN conjunct2, THEN conjunct2, THEN conjunct2,
      THEN conjunct2, rule_format]
  have "TSource_new example_ext [] ''boxvolume'' ''neutron 0 wide 0 1 0 1 1 0''
     = Inl (Exit (- 1) ([CHR 0x0A] @ ''Could not load source boxvolume! Did you enter invalid parameters?''
                          @ [CHR 0x0A]))"
    using fatal [OF r(1), of "[]"] by simp
  moreover have "TSource_new example_ext [] ''boxvolume'' ''neutron 0 1''
     = Inl (Exit (- 1) ([CHR 0x0A] @ ''Could not load source boxvolume! Did you enter invalid parameters?''
                          @ [CHR 0x0A]))"
    using fatal [OF r(2), of "[]"] by simp
  moreover have "TSource_new example_ext [] ''sphere'' ''neutron 0 1''
     = Inl (Exit (- 1) ([CHR 0x0A] @ ''Could not load source sphere! Did you enter invalid parameters?''
                          @ [CHR 0x0A]))"
    using fatal [OF mode [OF m, of example_ext "''neutron 0 1''"], of "[]"] by simp
  moreover have "TSource_new example_ext [] ''boxvolume'' ''  ''
     = Inl (Exit (- 1) ([CHR 0x0A] @ ''Could not load source boxvolume! Did you enter invalid parameters?''
                          @ [CHR 0x0A]))"
    using fatal [OF blank [OF r(5), of example_ext "''boxvolume''"], of "[]"] by simp
  moreover have "\<exists>source. TSource_new example_ext [] ''boxvolume'' ''neutron 0 1 0 1 0 1 1 0'' = Inr source"
    by (rule built [OF r(3)])
  moreover have "\<exists>source. TSource_new example_ext [] ''boxvolume'' ''neutron 0 1 0 1 0 1 1+1'' = Inr source"
    by (rule built [OF r(4)])
  moreover have "TParticleSource_CreateParticle ?muon (example_mc 1 0) 0 0 0 0 1 0 0 1
     = Inl (Exit (- 1) (''Could not create particle muon'' @ [CHR 0x0A]))"
    using name [OF n, of "example_mc 1 0" 0 0 0 0 1 0 0 1] by (simp add: TVolumeSource_new_def)
  ultimately show ?thesis by blast
qed

text \<open>
  The claim C9 as stated fails for a wrong field count. The mode boxvolume requires
  eight values after the particle name. An entry of ten fields, one too many, builds
  a source: the last field is never read. An entry of eight fields, one too few,
  builds a source too when the seventh value ends inside the last field and the
  eighth is read from the rest of it.
\<close>

theorem C9_counterexample:
  "required_fields ''boxvolume'' = Some [Number, Number, Number, Number, Number, Number, Number, Flag]
   \<and> length (fields ''neutron 0 1 0 1 0 1 1 0 1'') = 10
   \<and> TSource_new example_ext [] ''boxvolume'' ''neutron 0 1 0 1 0 1 1 0 1''
     = Inr (VolumeSource (TVolumeSource_new ''neutron'' 1 False (Cuboid 0 1 0 1 0 1)))
   \<and> length (fields ''neutron 0 1 0 1 0 1 1+1'') = 8
   \<and> TSource_new example_ext [] ''boxvolume'' ''neutron 0 1 0 1 0 1 1+1''
     = Inr (VolumeSource (TVolumeSource_new ''neutron'' 1 True (Cuboid 0 1 0 1 0 1)))"
  by (simp add: required_fields_def fields_def isspace_def example_box_entries)

end
